theory Spec2Isabelle
  imports Complex_Main "HOL-Library.AList"
begin

section \<open>JavaScript values\<close>

text \<open>
  The import scripts work on whatever \<^verbatim>\<open>JSON.parse\<close> returns and on the documents
  the content store hands back, so the model has one type of JavaScript values.
  \<open>JUndefined\<close> is the value of a missing property; \<open>JHost\<close> stands for a built-in
  object or function of the runtime (such as \<^verbatim>\<open>Object\<close>), which is truthy and carries
  none of the properties the scripts read. Numbers occur only in truthiness tests, in
  log lines and as opaque payload, so they are rationals (zero is falsy). Strings are
  sequences of code units below 256 (Basic Latin and Latin-1): names with other
  characters are outside the model, and every statement about names is a statement about
  these.
\<close>

datatype json =
    JUndefined
  | JNull
  | JBool bool
  | JNum rat
  | JStr string
  | JArr "json list"
  | JObj "(string \<times> json) list"
  | JHost string

text \<open>\<^verbatim>\<open>!v\<close> is \<open>\<not> truthy v\<close>.\<close>

fun truthy :: "json \<Rightarrow> bool" where
  "truthy JUndefined = False"
| "truthy JNull = False"
| "truthy (JBool b) = b"
| "truthy (JNum n) = (n \<noteq> 0)"
| "truthy (JStr s) = (s \<noteq> [])"
| "truthy (JArr xs) = True"
| "truthy (JObj kvs) = True"
| "truthy (JHost h) = True"

fun isArray :: "json \<Rightarrow> bool" where
  "isArray (JArr xs) = True"
| "isArray v = False"

fun isString :: "json \<Rightarrow> bool" where
  "isString (JStr s) = True"
| "isString v = False"

text \<open>\<^verbatim>\<open>a || b\<close> on values.\<close>

definition orElse :: "json \<Rightarrow> json \<Rightarrow> json" where
  "orElse a b = (if truthy a then a else b)"

section \<open>Normalising text into blocks\<close>

definition paragraphBlock :: "json \<Rightarrow> json" where
  "paragraphBlock content =
     JArr [JObj [(''type'', JStr ''paragraph''),
                 (''children'', JArr [JObj [(''type'', JStr ''text''), (''text'', content)]])]]"

text \<open>\<^verbatim>\<open>convertToBlocks\<close> of the question import.\<close>

definition convertToBlocks :: "json \<Rightarrow> json" where
  "convertToBlocks content =
     (if \<not> truthy content then JNull
      else if isArray content then content
      else if isString content then paragraphBlock content
      else JNull)"

text \<open>\<^verbatim>\<open>convertDescriptionToBlocks\<close> of the topic import.\<close>

definition convertDescriptionToBlocks :: "json \<Rightarrow> json" where
  "convertDescriptionToBlocks description =
     (if \<not> truthy description then JNull
      else if isArray description then description
      else if isString description then paragraphBlock description
      else JNull)"

section \<open>Exceptions and property reads\<close>

text \<open>
  A thrown exception is a value: \<open>TypeError\<close> for a property read on \<^verbatim>\<open>null\<close> or
  \<^verbatim>\<open>undefined\<close> and for a call of something that is not a function, \<open>StoreError\<close>
  for a rejected request of the content-store client (the payload is \<^verbatim>\<open>error.message\<close>).
\<close>

datatype exn = TypeError string | StoreError string

fun message :: "exn \<Rightarrow> string" where
  "message (TypeError m) = m"
| "message (StoreError m) = m"

text \<open>
  The names that \<^verbatim>\<open>Object.prototype\<close> defines; every ordinary object inherits them.
  \<^verbatim>\<open>__proto__\<close> is an accessor among them and is treated where it matters.
\<close>

definition objectPrototypeNames :: "string list" where
  "objectPrototypeNames =
     [''constructor'', ''hasOwnProperty'', ''isPrototypeOf'', ''propertyIsEnumerable'',
      ''toLocaleString'', ''toString'', ''valueOf'', ''__defineGetter__'',
      ''__defineSetter__'', ''__lookupGetter__'', ''__lookupSetter__'']"

definition objectPrototypeGet :: "string \<Rightarrow> json" where
  "objectPrototypeGet k = (if k \<in> set objectPrototypeNames then JHost k else JUndefined)"

text \<open>
  \<^verbatim>\<open>v.k\<close> for the fixed property names the scripts read from input records, from store
  documents and from cached entries. Reading from \<^verbatim>\<open>null\<close> or \<^verbatim>\<open>undefined\<close> throws.
  An object gives its own property, else what it inherits from \<^verbatim>\<open>Object.prototype\<close>.
  None of the names read by the scripts is defined on the prototypes of arrays, strings,
  numbers, booleans or functions (\<^verbatim>\<open>length\<close> is never read through this function), so
  these give \<^verbatim>\<open>undefined\<close>.
\<close>

fun field :: "json \<Rightarrow> string \<Rightarrow> exn + json" where
  "field JUndefined k = Inl (TypeError (''Cannot read properties of undefined (reading '' @ k @ '')''))"
| "field JNull k = Inl (TypeError (''Cannot read properties of null (reading '' @ k @ '')''))"
| "field (JObj kvs) k =
     Inr (case map_of kvs k of Some v \<Rightarrow> v
          | None \<Rightarrow> if k = ''__proto__'' then JHost ''Object.prototype'' else objectPrototypeGet k)"
| "field v k = Inr JUndefined"

text \<open>
  \<^verbatim>\<open>String.prototype.toLowerCase\<close> on strings of code units below 256. The mappings of
  the language that depend on the context or give more than one character start above
  this range (the capital sigma, the dotted capital I), so here the function works
  character by character: the ASCII capitals and the Latin-1 capitals (\<open>0xC0\<close> to
  \<open>0xDE\<close> without the multiplication sign \<open>0xD7\<close>) move up by 32, and every other
  code unit stays, among them the sharp s (\<open>0xDF\<close>), the micro sign and the y with
  diaeresis, which have no capital in this range.
\<close>

definition lowerChar :: "char \<Rightarrow> char" where
  "lowerChar c =
     (let n = of_char c :: nat in
      if (65 \<le> n \<and> n \<le> 90) \<or> (192 \<le> n \<and> n \<le> 222 \<and> n \<noteq> 215)
      then char_of (n + 32) else c)"

definition toLowerCase :: "string \<Rightarrow> string" where
  "toLowerCase s = map lowerChar s"

text \<open>
  \<^verbatim>\<open>v.toLowerCase()\<close> on an arbitrary value: only a string has the method; on
  \<^verbatim>\<open>null\<close> and \<^verbatim>\<open>undefined\<close> the property read throws, on anything else the call
  of the missing method throws. (An object of the input could carry an own property of that
  name, but JSON has no functions, so the call throws all the same.)
\<close>

fun callToLowerCase :: "json \<Rightarrow> exn + string" where
  "callToLowerCase (JStr s) = Inr (toLowerCase s)"
| "callToLowerCase JUndefined = Inl (TypeError ''Cannot read properties of undefined (reading toLowerCase)'')"
| "callToLowerCase JNull = Inl (TypeError ''Cannot read properties of null (reading toLowerCase)'')"
| "callToLowerCase v = Inl (TypeError ''toLowerCase is not a function'')"

text \<open>
  The conversion of a value to text, as a template literal does it for every value it
  interpolates and \<^verbatim>\<open>join\<close> for every element of an array. Strings, numbers,
  booleans, \<^verbatim>\<open>null\<close>, \<^verbatim>\<open>undefined\<close> and functions convert. An ordinary object
  converts through the method \<^verbatim>\<open>toString\<close> that it inherits, unless it has an own
  property of that name: a value that comes from a JSON file is never a function, so the
  method is lost, \<^verbatim>\<open>valueOf\<close> gives no primitive value either, and the conversion
  throws a \<^verbatim>\<open>TypeError\<close>. An array converts by joining the conversions of its elements,
  where \<^verbatim>\<open>null\<close> and \<^verbatim>\<open>undefined\<close> count as the empty text. \<open>printable v\<close> says
  that the conversion of \<open>v\<close> returns.
\<close>

fun printable :: "json \<Rightarrow> bool" where
  "printable (JObj kvs) = (map_of kvs ''toString'' = None)"
| "printable (JArr xs) = list_all printable xs"
| "printable v = True"

text \<open>\<^verbatim>\<open>${v}\<close>: the value, when it converts to text (the text itself is not modelled).\<close>

definition interpolate :: "json \<Rightarrow> exn + json" where
  "interpolate v =
     (if printable v then Inr v else Inl (TypeError ''Cannot convert object to primitive value''))"

text \<open>\<open>emptyText v\<close>: the conversion of \<open>v\<close> gives the empty text.\<close>

fun emptyText :: "json \<Rightarrow> bool" where
  "emptyText (JStr s) = (s = [])"
| "emptyText (JArr []) = True"
| "emptyText (JArr [x]) = (x = JNull \<or> x = JUndefined \<or> emptyText x)"
| "emptyText (JArr (x # y # zs)) = False"
| "emptyText v = False"

section \<open>The caches: plain objects used as dictionaries\<close>

text \<open>
  \<^verbatim>\<open>topicsCache\<close> and \<^verbatim>\<open>tagsCache\<close> are object literals \<^verbatim>\<open>{}\<close>, so they are
  ordinary objects: own properties in \<open>own\<close>, and a prototype, which is
  \<^verbatim>\<open>Object.prototype\<close> (\<open>None\<close>) until an assignment to the key \<^verbatim>\<open>__proto__\<close> replaces
  it by the assigned object (\<open>Some\<close>).
\<close>

record cache =
  own :: "(string \<times> json) list"
  proto :: "json option"

definition emptyCache :: cache where
  "emptyCache = \<lparr> own = [], proto = None \<rparr>"

text \<open>
  \<^verbatim>\<open>cache[k] = v\<close>. The key \<^verbatim>\<open>__proto__\<close> reaches the setter inherited from
  \<^verbatim>\<open>Object.prototype\<close>, which replaces the prototype when \<open>v\<close> is an object and does
  nothing otherwise; every other key becomes (or overwrites) an own property.
\<close>

fun isObject :: "json \<Rightarrow> bool" where
  "isObject (JObj kvs) = True"
| "isObject (JArr xs) = True"
| "isObject (JHost h) = True"
| "isObject v = False"

definition cacheSet :: "cache \<Rightarrow> string \<Rightarrow> json \<Rightarrow> cache" where
  "cacheSet c k v =
     (if k = ''__proto__'' then (if isObject v then c\<lparr> proto := Some v \<rparr> else c)
      else c\<lparr> own := AList.update k v (own c) \<rparr>)"

text \<open>
  \<^verbatim>\<open>cache[k]\<close>: the own property, else the property of the prototype chain. A prototype
  installed through \<^verbatim>\<open>__proto__\<close> is a store document (an ordinary object), whose own
  chain ends in \<^verbatim>\<open>Object.prototype\<close>.
\<close>

definition cacheGet :: "cache \<Rightarrow> string \<Rightarrow> json" where
  "cacheGet c k =
     (case map_of (own c) k of
        Some v \<Rightarrow> v
      | None \<Rightarrow>
          (case proto c of
             None \<Rightarrow> if k = ''__proto__'' then JHost ''Object.prototype'' else objectPrototypeGet k
           | Some p \<Rightarrow>
               (case p of
                  JObj kvs \<Rightarrow>
                    (case map_of kvs k of
                       Some v \<Rightarrow> v
                     | None \<Rightarrow> if k = ''__proto__'' then p else objectPrototypeGet k)
                | _ \<Rightarrow> if k = ''__proto__'' then p else objectPrototypeGet k)))"

section \<open>The world outside the scripts\<close>

text \<open>
  The content store is the CMS framework, reached through \<^verbatim>\<open>strapi.documents(uid)\<close>.
  It is not part of the repository, so the scripts are modelled over an arbitrary store:
  a state of any type \<open>'s\<close> with the two operations the scripts call. Either may reject
  (\<open>Inl\<close>); \<open>create\<close> may change the state.
\<close>

datatype kind = QuestionTopic | QuestionTag | Question

datatype query =
    StatusPublished
  | FilterEq string json

datatype call =
    FindMany kind query
  | Create kind "(string \<times> json) list"

record 's ops =
  findMany :: "'s \<Rightarrow> kind \<Rightarrow> query \<Rightarrow> exn + json list"
  create :: "'s \<Rightarrow> kind \<Rightarrow> (string \<times> json) list \<Rightarrow> 's \<times> (exn + json)"

text \<open>
  The clock and the random generator are oracles of the host: \<open>now h k\<close> is what the
  \<open>k\<close>-th call of \<^verbatim>\<open>Date.now()\<close> returns, \<open>random36 h k\<close> is the text of the
  \<open>k\<close>-th \<^verbatim>\<open>Math.random().toString(36)\<close>.
\<close>

record host =
  now :: "nat \<Rightarrow> nat"
  random36 :: "nat \<Rightarrow> string"

text \<open>
  A console line is its fixed text and the values interpolated into it; the text that a
  value is rendered to is not modelled, only whether the rendering succeeds.
\<close>

datatype line =
    ConsoleLog string "json list"
  | ConsoleError string "json list"

text \<open>
  Everything a run can touch: the store, the requests sent to it so far, the console, and
  how often the clock and the random generator have been read.
\<close>

record 's world =
  store :: 's
  calls :: "call list"
  console :: "line list"
  ticks :: nat
  draws :: nat

text \<open>
  An effectful computation takes the world and returns the new world with either the thrown
  exception or the value. The world survives an exception, so what a failed run did before
  failing stays visible.
\<close>

type_synonym ('s, 'a) eff = "'s world \<Rightarrow> 's world \<times> (exn + 'a)"

definition ret :: "'a \<Rightarrow> ('s, 'a) eff" where
  "ret x w = (w, Inr x)"

definition lift :: "exn + 'a \<Rightarrow> ('s, 'a) eff" where
  "lift r w = (w, r)"

definition bind :: "('s, 'a) eff \<Rightarrow> ('a \<Rightarrow> ('s, 'b) eff) \<Rightarrow> ('s, 'b) eff" where
  "bind m f w = (case m w of (w', Inl e) \<Rightarrow> (w', Inl e) | (w', Inr x) \<Rightarrow> f x w')"

text \<open>\<^verbatim>\<open>try { m } catch (error) { handler }\<close>\<close>

definition tryCatch :: "('s, 'a) eff \<Rightarrow> (exn \<Rightarrow> ('s, 'a) eff) \<Rightarrow> ('s, 'a) eff" where
  "tryCatch m handler w = (case m w of (w', Inl e) \<Rightarrow> handler e w' | (w', Inr x) \<Rightarrow> (w', Inr x))"

text \<open>
  \<^verbatim>\<open>console.log(`text ${v1} ... ${vn}`)\<close> and its twin for \<^verbatim>\<open>console.error\<close>. The
  template literal is evaluated before the call: when one of the values does not convert
  to text, the \<^verbatim>\<open>TypeError\<close> is thrown and nothing is printed. A call with a plain
  string has no values and always prints.
\<close>

definition consoleLog :: "string \<Rightarrow> json list \<Rightarrow> ('s, unit) eff" where
  "consoleLog text vs w =
     (if list_all printable vs then (w\<lparr> console := console w @ [ConsoleLog text vs] \<rparr>, Inr ())
      else (w, Inl (TypeError ''Cannot convert object to primitive value'')))"

definition consoleError :: "string \<Rightarrow> json list \<Rightarrow> ('s, unit) eff" where
  "consoleError text vs w =
     (if list_all printable vs then (w\<lparr> console := console w @ [ConsoleError text vs] \<rparr>, Inr ())
      else (w, Inl (TypeError ''Cannot convert object to primitive value'')))"

definition dateNow :: "host \<Rightarrow> ('s, nat) eff" where
  "dateNow h w = (w\<lparr> ticks := ticks w + 1 \<rparr>, Inr (now h (ticks w)))"

definition mathRandom36 :: "host \<Rightarrow> ('s, string) eff" where
  "mathRandom36 h w = (w\<lparr> draws := draws w + 1 \<rparr>, Inr (random36 h (draws w)))"

text \<open>\<^verbatim>\<open>await strapi.documents(uid).findMany(query)\<close>\<close>

definition storeFindMany :: "'s ops \<Rightarrow> kind \<Rightarrow> query \<Rightarrow> ('s, json list) eff" where
  "storeFindMany ops k q w =
     (w\<lparr> calls := calls w @ [FindMany k q] \<rparr>, findMany ops (store w) k q)"

text \<open>\<^verbatim>\<open>await strapi.documents(uid).create({ data })\<close>\<close>

definition storeCreate :: "'s ops \<Rightarrow> kind \<Rightarrow> (string \<times> json) list \<Rightarrow> ('s, json) eff" where
  "storeCreate ops k d w =
     (case create ops (store w) k d of
        (s', r) \<Rightarrow> (w\<lparr> store := s', calls := calls w @ [Create k d] \<rparr>, r))"

fun isCreate :: "call \<Rightarrow> bool" where
  "isCreate (Create k d) = True"
| "isCreate (FindMany k q) = False"

text \<open>The create requests sent so far, oldest first.\<close>

definition creates :: "'s world \<Rightarrow> call list" where
  "creates w = filter isCreate (calls w)"

definition initialWorld :: "'s \<Rightarrow> 's world" where
  "initialWorld s = \<lparr> store = s, calls = [], console = [], ticks = 0, draws = 0 \<rparr>"

section \<open>Input file, options and result\<close>

text \<open>
  What \<^verbatim>\<open>fs.existsSync\<close>, \<^verbatim>\<open>fs.readFileSync\<close> and \<^verbatim>\<open>JSON.parse\<close> make of the data
  file: it does not exist; reading or parsing throws (with that \<^verbatim>\<open>error.message\<close>);
  or parsing returns a value.
\<close>

datatype file_input =
    Missing
  | Unparseable string
  | Parsed json

record options =
  skipExisting :: bool
  dryRun :: bool

record counts =
  created :: nat
  skipped :: nat
  failed :: nat

definition zeroCounts :: counts where
  "zeroCounts = \<lparr> created = 0, skipped = 0, failed = 0 \<rparr>"

fun elems :: "json \<Rightarrow> json list" where
  "elems (JArr xs) = xs"
| "elems v = []"

text \<open>\<^verbatim>\<open>{ ...entry, publishedAt: Date.now() }\<close>\<close>

definition withPublishedAt :: "(string \<times> json) list \<Rightarrow> nat \<Rightarrow> (string \<times> json) list" where
  "withPublishedAt entry t = AList.update ''publishedAt'' (JNum (of_nat t)) entry"

section \<open>Topic import\<close>

text \<open>\<^verbatim>\<open>entry.k\<close> on an entry the script has built itself.\<close>

definition entryProp :: "(string \<times> json) list \<Rightarrow> string \<Rightarrow> json" where
  "entryProp entry k = (case map_of entry k of Some v \<Rightarrow> v | None \<Rightarrow> JUndefined)"

definition createQuestionTopic :: "'s ops \<Rightarrow> host \<Rightarrow> (string \<times> json) list \<Rightarrow> ('s, json) eff" where
  "createQuestionTopic ops h entry =
     tryCatch
       (bind (dateNow h) (\<lambda>t.
        bind (storeCreate ops QuestionTopic (withPublishedAt entry t)) (\<lambda>result.
        bind (consoleLog ''Created question topic: '' [entryProp entry ''name'']) (\<lambda>_.
        ret result))))
       (\<lambda>error.
        bind (consoleError ''Failed to create question topic: '' [entryProp entry ''name'']) (\<lambda>_.
        bind (consoleError (message error) []) (\<lambda>_.
        ret JNull)))"

definition checkExistingTopic :: "'s ops \<Rightarrow> json \<Rightarrow> ('s, bool) eff" where
  "checkExistingTopic ops name =
     bind (storeFindMany ops QuestionTopic (FilterEq ''name'' name)) (\<lambda>existing.
     ret (length existing > 0))"

text \<open>The body of the loop \<^verbatim>\<open>for (const topic of topics)\<close>.\<close>

definition topicStep :: "'s ops \<Rightarrow> host \<Rightarrow> options \<Rightarrow> json \<Rightarrow> counts \<Rightarrow> ('s, counts) eff" where
  "topicStep ops h opts topic c =
     bind (lift (field topic ''name'')) (\<lambda>name.
     if \<not> truthy name then
       bind (consoleError ''Skipping entry without name'' []) (\<lambda>_.
       ret (c\<lparr> failed := failed c + 1 \<rparr>))
     else
       bind (if skipExisting opts then checkExistingTopic ops name else ret False) (\<lambda>exists.
       if exists then
         bind (consoleLog ''Skipping existing topic: '' [name]) (\<lambda>_.
         ret (c\<lparr> skipped := skipped c + 1 \<rparr>))
       else
         bind (lift (field topic ''description'')) (\<lambda>description.
         let entry = [(''name'', name),
                      (''description'', convertDescriptionToBlocks description)] in
         if dryRun opts then
           bind (consoleLog ''Would create topic: '' [name]) (\<lambda>_.
           ret (c\<lparr> created := created c + 1 \<rparr>))
         else
           bind (createQuestionTopic ops h entry) (\<lambda>result.
           if truthy result then ret (c\<lparr> created := created c + 1 \<rparr>)
           else ret (c\<lparr> failed := failed c + 1 \<rparr>)))))"

fun topicsLoop :: "'s ops \<Rightarrow> host \<Rightarrow> options \<Rightarrow> json list \<Rightarrow> counts \<Rightarrow> ('s, counts) eff" where
  "topicsLoop ops h opts [] c = ret c"
| "topicsLoop ops h opts (topic # rest) c =
     bind (topicStep ops h opts topic c) (\<lambda>c'. topicsLoop ops h opts rest c')"

definition importQuestionTopics ::
  "'s ops \<Rightarrow> host \<Rightarrow> string \<Rightarrow> file_input \<Rightarrow> options \<Rightarrow> ('s, counts) eff" where
  "importQuestionTopics ops h dataFile file opts =
     (case file of
        Missing \<Rightarrow>
          bind (consoleError ''Data file not found: '' [JStr dataFile]) (\<lambda>_.
          bind (consoleLog ''Please create a JSON file with the following format:'' []) (\<lambda>_.
          bind (consoleLog ''[ { name, description }, ... ]'' []) (\<lambda>_.
          ret zeroCounts)))
      | Unparseable msg \<Rightarrow>
          bind (consoleError ''Failed to parse JSON file: '' [JStr msg]) (\<lambda>_.
          ret zeroCounts)
      | Parsed topics \<Rightarrow>
          if \<not> isArray topics then
            bind (consoleError ''JSON file must contain an array of question topics'' []) (\<lambda>_.
            ret zeroCounts)
          else
            bind (consoleLog ''Found question topic(s) to import: '' [JNum (of_nat (length (elems topics)))]) (\<lambda>_.
            bind (consoleLog (if dryRun opts then ''(Dry run mode - no changes will be made)'' else []) []) (\<lambda>_.
            topicsLoop ops h opts (elems topics) zeroCounts)))"

section \<open>Tag import\<close>

text \<open>
  The character classes of the regular expressions in \<^verbatim>\<open>generateSlug\<close>, on code units
  below 256: \<^verbatim>\<open>\s\<close> (which \<^verbatim>\<open>trim\<close> strips as well) and \<^verbatim>\<open>\w\<close>.
\<close>

definition isSpace :: "char \<Rightarrow> bool" where
  "isSpace c = (of_char c \<in> {9, 10, 11, 12, 13, 32, 160 :: nat})"

definition isWord :: "char \<Rightarrow> bool" where
  "isWord c =
     (let n = of_char c :: nat in
      (48 \<le> n \<and> n \<le> 57) \<or> (65 \<le> n \<and> n \<le> 90) \<or> (97 \<le> n \<and> n \<le> 122) \<or> n = 95)"

definition trim :: "string \<Rightarrow> string" where
  "trim s = rev (dropWhile isSpace (rev (dropWhile isSpace s)))"

definition isSeparator :: "char \<Rightarrow> bool" where
  "isSeparator c = (isSpace c \<or> c = CHR ''_'' \<or> c = CHR ''-'')"

text \<open>
  \<^verbatim>\<open>.replace(/[\s_-]+/g, '-')\<close>: every maximal run of separators becomes one hyphen.
  The flag says that the previous character was a separator, whose run has its hyphen
  already.
\<close>

fun collapseFrom :: "bool \<Rightarrow> string \<Rightarrow> string" where
  "collapseFrom inRun [] = []"
| "collapseFrom inRun (c # cs) =
     (if isSeparator c then (if inRun then collapseFrom True cs else CHR ''-'' # collapseFrom True cs)
      else c # collapseFrom False cs)"

definition collapseSeparators :: "string \<Rightarrow> string" where
  "collapseSeparators s = collapseFrom False s"

text \<open>\<^verbatim>\<open>.replace(/^-+|-+$/g, '')\<close>\<close>

definition stripHyphens :: "string \<Rightarrow> string" where
  "stripHyphens s =
     rev (dropWhile (\<lambda>c. c = CHR ''-'') (rev (dropWhile (\<lambda>c. c = CHR ''-'') s)))"

text \<open>\<^verbatim>\<open>generateSlug(str)\<close>: the first method call throws unless \<open>str\<close> is a string.\<close>

definition generateSlug :: "json \<Rightarrow> exn + json" where
  "generateSlug str =
     (case callToLowerCase str of
        Inl e \<Rightarrow> Inl e
      | Inr lowered \<Rightarrow>
          Inr (JStr (stripHyphens
                      (collapseSeparators
                        (filter (\<lambda>c. isWord c \<or> isSpace c \<or> c = CHR ''-'')
                          (trim lowered))))))"

definition createQuestionTag :: "'s ops \<Rightarrow> host \<Rightarrow> (string \<times> json) list \<Rightarrow> ('s, json) eff" where
  "createQuestionTag ops h entry =
     tryCatch
       (bind (dateNow h) (\<lambda>t.
        bind (storeCreate ops QuestionTag (withPublishedAt entry t)) (\<lambda>result.
        bind (consoleLog ''Created question tag: '' [entryProp entry ''name'', entryProp entry ''slug'']) (\<lambda>_.
        ret result))))
       (\<lambda>error.
        bind (consoleError ''Failed to create question tag: '' [entryProp entry ''name'']) (\<lambda>_.
        bind (consoleError (message error) []) (\<lambda>_.
        ret JNull)))"

definition checkExistingTag :: "'s ops \<Rightarrow> json \<Rightarrow> json \<Rightarrow> ('s, bool) eff" where
  "checkExistingTag ops name slug =
     bind (storeFindMany ops QuestionTag (FilterEq ''name'' name)) (\<lambda>existingByName.
     bind (storeFindMany ops QuestionTag (FilterEq ''slug'' slug)) (\<lambda>existingBySlug.
     ret (length existingByName > 0 \<or> length existingBySlug > 0)))"

text \<open>The body of the loop \<^verbatim>\<open>for (const tag of tags)\<close>.\<close>

definition tagStep :: "'s ops \<Rightarrow> host \<Rightarrow> options \<Rightarrow> json \<Rightarrow> counts \<Rightarrow> ('s, counts) eff" where
  "tagStep ops h opts tag c =
     bind (lift (field tag ''name'')) (\<lambda>name.
     if \<not> truthy name then
       bind (consoleError ''Skipping entry without name'' []) (\<lambda>_.
       ret (c\<lparr> failed := failed c + 1 \<rparr>))
     else
       bind (lift (field tag ''slug'')) (\<lambda>given.
       bind (if truthy given then ret given else lift (generateSlug name)) (\<lambda>slug.
       bind (if skipExisting opts then checkExistingTag ops name slug else ret False) (\<lambda>exists.
       if exists then
         bind (consoleLog ''Skipping existing tag: '' [name]) (\<lambda>_.
         ret (c\<lparr> skipped := skipped c + 1 \<rparr>))
       else
         let entry = [(''name'', name), (''slug'', slug)] in
         if dryRun opts then
           bind (consoleLog ''Would create tag: '' [name, slug]) (\<lambda>_.
           ret (c\<lparr> created := created c + 1 \<rparr>))
         else
           bind (createQuestionTag ops h entry) (\<lambda>result.
           if truthy result then ret (c\<lparr> created := created c + 1 \<rparr>)
           else ret (c\<lparr> failed := failed c + 1 \<rparr>))))))"

fun tagsLoop :: "'s ops \<Rightarrow> host \<Rightarrow> options \<Rightarrow> json list \<Rightarrow> counts \<Rightarrow> ('s, counts) eff" where
  "tagsLoop ops h opts [] c = ret c"
| "tagsLoop ops h opts (tag # rest) c =
     bind (tagStep ops h opts tag c) (\<lambda>c'. tagsLoop ops h opts rest c')"

definition importQuestionTags ::
  "'s ops \<Rightarrow> host \<Rightarrow> string \<Rightarrow> file_input \<Rightarrow> options \<Rightarrow> ('s, counts) eff" where
  "importQuestionTags ops h dataFile file opts =
     (case file of
        Missing \<Rightarrow>
          bind (consoleError ''Data file not found: '' [JStr dataFile]) (\<lambda>_.
          bind (consoleLog ''Please create a JSON file with the following format:'' []) (\<lambda>_.
          bind (consoleLog ''[ { name }, { name, slug }, ... ]'' []) (\<lambda>_.
          ret zeroCounts)))
      | Unparseable msg \<Rightarrow>
          bind (consoleError ''Failed to parse JSON file: '' [JStr msg]) (\<lambda>_.
          ret zeroCounts)
      | Parsed tags \<Rightarrow>
          if \<not> isArray tags then
            bind (consoleError ''JSON file must contain an array of question tags'' []) (\<lambda>_.
            ret zeroCounts)
          else
            bind (consoleLog ''Found question tag(s) to import: '' [JNum (of_nat (length (elems tags)))]) (\<lambda>_.
            bind (consoleLog (if dryRun opts then ''(Dry run mode - no changes will be made)'' else []) []) (\<lambda>_.
            tagsLoop ops h opts (elems tags) zeroCounts)))"

section \<open>Question import\<close>

text \<open>
  \<^verbatim>\<open>n.toString(radix)\<close> for a natural number, most significant digit first, with the
  digits \<^verbatim>\<open>0-9a-z\<close>. A template literal renders an index with radix 10.
\<close>

definition digitChar :: "nat \<Rightarrow> char" where
  "digitChar d = (if d < 10 then char_of (48 + d) else char_of (87 + d))"

function toStringRadix :: "nat \<Rightarrow> nat \<Rightarrow> string" where
  "toStringRadix radix n =
     (if n < radix \<or> radix < 2 then [digitChar n]
      else toStringRadix radix (n div radix) @ [digitChar (n mod radix)])"
  by pat_completeness auto
termination
  by (relation "measure snd") auto

text \<open>\<^verbatim>\<open>s.substring(2, 6)\<close>\<close>

definition substring_2_6 :: "string \<Rightarrow> string" where
  "substring_2_6 s = take 4 (drop 2 s)"

definition generateCode :: "host \<Rightarrow> nat \<Rightarrow> ('s, string) eff" where
  "generateCode h index =
     bind (dateNow h) (\<lambda>t.
     bind (mathRandom36 h) (\<lambda>r.
     let timestamp = toStringRadix 36 t;
         random = substring_2_6 r
     in ret (''Q-'' @ timestamp @ ''-'' @ random @ ''-'' @ toStringRadix 10 index)))"

text \<open>The body of the loop \<^verbatim>\<open>for (const topic of topics)\<close> in \<^verbatim>\<open>loadTopicsCache\<close>
  and of its twin in \<^verbatim>\<open>loadTagsCache\<close>: \<^verbatim>\<open>cache[entity.name.toLowerCase()] = entity\<close>.\<close>

fun fillCache :: "json list \<Rightarrow> cache \<Rightarrow> exn + cache" where
  "fillCache [] c = Inr c"
| "fillCache (entity # rest) c =
     (case field entity ''name'' of
        Inl e \<Rightarrow> Inl e
      | Inr name \<Rightarrow>
          (case callToLowerCase name of
             Inl e \<Rightarrow> Inl e
           | Inr key \<Rightarrow> fillCache rest (cacheSet c key entity)))"

definition loadTopicsCache :: "'s ops \<Rightarrow> ('s, cache) eff" where
  "loadTopicsCache ops =
     bind (storeFindMany ops QuestionTopic StatusPublished) (\<lambda>topics.
     bind (lift (fillCache topics emptyCache)) (\<lambda>topicsCache.
     bind (consoleLog ''Loaded topic(s) into cache: '' [JNum (of_nat (length (own topicsCache)))]) (\<lambda>_.
     ret topicsCache)))"

definition loadTagsCache :: "'s ops \<Rightarrow> ('s, cache) eff" where
  "loadTagsCache ops =
     bind (storeFindMany ops QuestionTag StatusPublished) (\<lambda>tags.
     bind (lift (fillCache tags emptyCache)) (\<lambda>tagsCache.
     bind (consoleLog ''Loaded tag(s) into cache: '' [JNum (of_nat (length (own tagsCache)))]) (\<lambda>_.
     ret tagsCache)))"

definition findTopicByName :: "cache \<Rightarrow> json \<Rightarrow> exn + json" where
  "findTopicByName topicsCache name =
     (if \<not> truthy name then Inr JNull
      else (case callToLowerCase name of
              Inl e \<Rightarrow> Inl e
            | Inr key \<Rightarrow> Inr (orElse (cacheGet topicsCache key) JNull)))"

text \<open>The loop of \<^verbatim>\<open>findTagsByNames\<close>; \<open>foundTags\<close> is the array built so far.\<close>

fun findTagsLoop :: "cache \<Rightarrow> json list \<Rightarrow> json list \<Rightarrow> exn + json list" where
  "findTagsLoop tagsCache [] foundTags = Inr foundTags"
| "findTagsLoop tagsCache (name # rest) foundTags =
     (case callToLowerCase name of
        Inl e \<Rightarrow> Inl e
      | Inr key \<Rightarrow>
          (let tag = cacheGet tagsCache key in
           findTagsLoop tagsCache rest (if truthy tag then foundTags @ [tag] else foundTags)))"

definition findTagsByNames :: "cache \<Rightarrow> json \<Rightarrow> exn + json list" where
  "findTagsByNames tagsCache names =
     (if \<not> truthy names \<or> \<not> isArray names then Inr []
      else findTagsLoop tagsCache (elems names) [])"

definition checkExistingQuestion :: "'s ops \<Rightarrow> json \<Rightarrow> ('s, bool) eff" where
  "checkExistingQuestion ops code =
     (if \<not> truthy code then ret False
      else
        bind (storeFindMany ops Question (FilterEq ''code'' code)) (\<lambda>existing.
        ret (length existing > 0)))"

definition createQuestion :: "'s ops \<Rightarrow> host \<Rightarrow> (string \<times> json) list \<Rightarrow> ('s, json) eff" where
  "createQuestion ops h entry =
     tryCatch
       (bind (dateNow h) (\<lambda>t.
        bind (storeCreate ops Question (withPublishedAt entry t)) (\<lambda>result.
        bind (consoleLog ''Created question: '' [entryProp entry ''code'']) (\<lambda>_.
        ret result))))
       (\<lambda>error.
        bind (consoleError ''Failed to create question: '' [entryProp entry ''code'']) (\<lambda>_.
        bind (consoleError (message error) []) (\<lambda>_.
        ret JNull)))"

text \<open>
  The local variables of \<^verbatim>\<open>importQuestions\<close> that the loop updates. The two sets keep
  insertion order, as a JavaScript \<^verbatim>\<open>Set\<close> does.
\<close>

record progress = counts +
  missingTopics :: "json list"
  missingTags :: "json list"

definition setAdd :: "json list \<Rightarrow> json \<Rightarrow> json list" where
  "setAdd xs v = (if v \<in> set xs then xs else xs @ [v])"

text \<open>
  The loop \<^verbatim>\<open>for (const tagName of q.tags)\<close> that tracks missing tags. It runs after
  \<^verbatim>\<open>findTagsByNames\<close> has lowercased every name, so the lowercasing cannot throw here any
  more; the model keeps the possibility all the same.
\<close>

fun trackMissingTags :: "cache \<Rightarrow> json list \<Rightarrow> json list \<Rightarrow> exn + json list" where
  "trackMissingTags tagsCache [] missing = Inr missing"
| "trackMissingTags tagsCache (tagName # rest) missing =
     (case callToLowerCase tagName of
        Inl e \<Rightarrow> Inl e
      | Inr key \<Rightarrow>
          trackMissingTags tagsCache rest
            (if \<not> truthy (cacheGet tagsCache key) then setAdd missing tagName else missing))"

text \<open>\<^verbatim>\<open>t.documentId\<close> for the callback of \<^verbatim>\<open>tags.map\<close>; the read cannot throw, since
  only truthy values are pushed to the array.\<close>

definition documentIdOf :: "json \<Rightarrow> json" where
  "documentIdOf t = (case field t ''documentId'' of Inr v \<Rightarrow> v | Inl e \<Rightarrow> JUndefined)"

text \<open>
  \<^verbatim>\<open>q.tags?.join(', ')\<close> in the dry-run message: \<^verbatim>\<open>undefined\<close> for a missing or
  \<^verbatim>\<open>null\<close> value; for an array the joined text, which is the empty string when the
  elements give no text and is otherwise stood for by the array itself, unless an element
  does not convert to text, which throws; and a thrown \<^verbatim>\<open>TypeError\<close> for every other
  value, which has no \<^verbatim>\<open>join\<close> method.
\<close>

fun optionalJoin :: "json \<Rightarrow> exn + json" where
  "optionalJoin JUndefined = Inr JUndefined"
| "optionalJoin JNull = Inr JUndefined"
| "optionalJoin (JArr xs) =
     (if \<not> list_all printable xs then Inl (TypeError ''Cannot convert object to primitive value'')
      else if emptyText (JArr xs) then Inr (JStr [])
      else Inr (JArr xs))"
| "optionalJoin v = Inl (TypeError ''q.tags?.join is not a function'')"

fun arrayLength :: "json \<Rightarrow> nat" where
  "arrayLength (JArr xs) = length xs"
| "arrayLength v = 0"

text \<open>
  The test \<^verbatim>\<open>!v || !Array.isArray(v) || v.length === 0\<close> that guards the answers and the
  correct answers.
\<close>

definition emptyOrNoArray :: "json \<Rightarrow> bool" where
  "emptyOrNoArray v = (\<not> truthy v \<or> \<not> isArray v \<or> arrayLength v = 0)"

text \<open>
  The second half of the body of the loop over the questions, from \<^verbatim>\<open>// Find topic\<close>
  to its end: resolve the topic and the tags, prepare the entry, and create it (or, in a
  dry run, say so). \<open>code\<close> is the code the first half has settled on. The dry-run
  message interpolates the code, the topic and the joined tags in this order, so the
  first two are converted to text before \<^verbatim>\<open>join\<close> is called.
\<close>

definition linkAndCreate ::
  "'s ops \<Rightarrow> host \<Rightarrow> options \<Rightarrow> cache \<Rightarrow> cache \<Rightarrow> json \<Rightarrow> json \<Rightarrow> progress \<Rightarrow> ('s, progress) eff" where
  "linkAndCreate ops h opts topicsCache tagsCache q code p =
     bind (lift (field q ''topic'')) (\<lambda>qtopic.
     bind (if truthy qtopic then lift (findTopicByName topicsCache qtopic)
           else ret JNull) (\<lambda>topic.
     let topicId = (if truthy qtopic \<and> truthy topic then documentIdOf topic else JNull);
         p1 = (if truthy qtopic \<and> \<not> truthy topic
               then p\<lparr> missingTopics := setAdd (missingTopics p) qtopic \<rparr> else p)
     in
     bind (lift (field q ''tags'')) (\<lambda>qtags.
     bind (if truthy qtags \<and> isArray qtags then lift (findTagsByNames tagsCache qtags)
           else ret []) (\<lambda>tags.
     let tagIds = map documentIdOf tags in
     bind (if truthy qtags \<and> isArray qtags
           then lift (trackMissingTags tagsCache (elems qtags) (missingTags p1))
           else ret (missingTags p1)) (\<lambda>missing.
     let p2 = p1\<lparr> missingTags := missing \<rparr> in
     bind (lift (field q ''question'')) (\<lambda>question.
     bind (lift (field q ''type'')) (\<lambda>qtype.
     bind (lift (field q ''answers'')) (\<lambda>answers.
     bind (lift (field q ''correctAnswer'')) (\<lambda>correctAnswer.
     bind (lift (field q ''explanation'')) (\<lambda>explanation.
     bind (lift (field q ''difficulty'')) (\<lambda>difficulty.
     bind (lift (field q ''source'')) (\<lambda>source.
     bind (lift (field q ''version'')) (\<lambda>version.
     let entry =
           [(''code'', code),
            (''question'', convertToBlocks question),
            (''type'', orElse qtype (JStr ''single'')),
            (''answers'', answers),
            (''correctAnswer'', correctAnswer),
            (''explanation'', convertToBlocks explanation),
            (''difficulty'', orElse difficulty (JStr ''easy'')),
            (''source'', orElse source JNull),
            (''version'', orElse version (JNum 1)),
            (''question_topic'', topicId),
            (''question_tags'', JArr tagIds)]
     in
     if dryRun opts then
       bind (lift (interpolate code)) (\<lambda>_.
       bind (lift (interpolate (orElse qtopic (JStr ''none'')))) (\<lambda>_.
       bind (lift (optionalJoin qtags)) (\<lambda>joined.
       bind (consoleLog ''Would create question: ''
               [code, orElse qtopic (JStr ''none''), orElse joined (JStr ''none'')]) (\<lambda>_.
       ret (p2\<lparr> created := created p2 + 1 \<rparr>)))))
     else
       bind (createQuestion ops h entry) (\<lambda>result.
       if truthy result then ret (p2\<lparr> created := created p2 + 1 \<rparr>)
       else ret (p2\<lparr> failed := failed p2 + 1 \<rparr>)))))))))))))))"

text \<open>
  The body of the loop \<^verbatim>\<open>for (let i = 0; i < questions.length; i++)\<close>: settle the code,
  validate, check for an existing question, then go on with the second half.
\<close>

definition questionStep ::
  "'s ops \<Rightarrow> host \<Rightarrow> options \<Rightarrow> cache \<Rightarrow> cache \<Rightarrow> nat \<Rightarrow> json \<Rightarrow> progress \<Rightarrow> ('s, progress) eff" where
  "questionStep ops h opts topicsCache tagsCache i q p =
     bind (lift (field q ''code'')) (\<lambda>qcode.
     bind (if truthy qcode then ret qcode
           else bind (generateCode h i) (\<lambda>generated. ret (JStr generated))) (\<lambda>code.
     bind (lift (field q ''question'')) (\<lambda>question.
     if \<not> truthy question then
       bind (consoleError ''Skipping question at index: missing question text'' [JNum (of_nat i)]) (\<lambda>_.
       ret (p\<lparr> failed := failed p + 1 \<rparr>))
     else
       bind (lift (field q ''answers'')) (\<lambda>answers.
       if emptyOrNoArray answers then
         bind (consoleError ''Skipping question: missing or invalid answers'' [code]) (\<lambda>_.
         ret (p\<lparr> failed := failed p + 1 \<rparr>))
       else
         bind (lift (field q ''correctAnswer'')) (\<lambda>correctAnswer.
         if emptyOrNoArray correctAnswer then
           bind (consoleError ''Skipping question: missing or invalid correctAnswer'' [code]) (\<lambda>_.
           ret (p\<lparr> failed := failed p + 1 \<rparr>))
         else
           bind (if skipExisting opts \<and> truthy qcode then checkExistingQuestion ops qcode
                 else ret False) (\<lambda>exists.
           if exists then
             bind (consoleLog ''Skipping existing question: '' [code]) (\<lambda>_.
             ret (p\<lparr> skipped := skipped p + 1 \<rparr>))
           else
             linkAndCreate ops h opts topicsCache tagsCache q code p))))))"

fun questionsLoop ::
  "'s ops \<Rightarrow> host \<Rightarrow> options \<Rightarrow> cache \<Rightarrow> cache \<Rightarrow> nat \<Rightarrow> json list \<Rightarrow> progress \<Rightarrow> ('s, progress) eff" where
  "questionsLoop ops h opts topicsCache tagsCache i [] p = ret p"
| "questionsLoop ops h opts topicsCache tagsCache i (q # rest) p =
     bind (questionStep ops h opts topicsCache tagsCache i q p) (\<lambda>p'.
     questionsLoop ops h opts topicsCache tagsCache (i + 1) rest p')"

definition startProgress :: progress where
  "startProgress = \<lparr> created = 0, skipped = 0, failed = 0, missingTopics = [], missingTags = [] \<rparr>"

text \<open>The part of \<^verbatim>\<open>importQuestions\<close> after the loop.\<close>

definition reportMissing :: "progress \<Rightarrow> ('s, counts) eff" where
  "reportMissing p =
     bind (if length (missingTopics p) > 0
           then consoleLog ''Missing topics (not linked): '' (missingTopics p) else ret ()) (\<lambda>_.
     bind (if length (missingTags p) > 0
           then consoleLog ''Missing tags (not linked): '' (missingTags p) else ret ()) (\<lambda>_.
     ret \<lparr> created = created p, skipped = skipped p, failed = failed p \<rparr>))"

definition importQuestions ::
  "'s ops \<Rightarrow> host \<Rightarrow> string \<Rightarrow> file_input \<Rightarrow> options \<Rightarrow> ('s, counts) eff" where
  "importQuestions ops h dataFile file opts =
     (case file of
        Missing \<Rightarrow>
          bind (consoleError ''Data file not found: '' [JStr dataFile]) (\<lambda>_.
          bind (consoleLog ''Please create a JSON file with the question format.'' []) (\<lambda>_.
          ret zeroCounts))
      | Unparseable msg \<Rightarrow>
          bind (consoleError ''Failed to parse JSON file: '' [JStr msg]) (\<lambda>_.
          ret zeroCounts)
      | Parsed questions \<Rightarrow>
          if \<not> isArray questions then
            bind (consoleError ''JSON file must contain an array of questions'' []) (\<lambda>_.
            ret zeroCounts)
          else
            bind (loadTopicsCache ops) (\<lambda>topicsCache.
            bind (loadTagsCache ops) (\<lambda>tagsCache.
            bind (consoleLog ''Found question(s) to import: '' [JNum (of_nat (length (elems questions)))]) (\<lambda>_.
            bind (consoleLog (if dryRun opts then ''(Dry run mode - no changes will be made)'' else []) []) (\<lambda>_.
            bind (questionsLoop ops h opts topicsCache tagsCache 0 (elems questions) startProgress) (\<lambda>p.
            reportMissing p))))))"

section \<open>Reference stores and host\<close>

text \<open>
  Modelled from the spec: the content store itself is the CMS framework and is not in the
  repository. \<open>memoryStore\<close> is the plainest store with the interface of the spec
  (\<open>find(entityKind, filter)\<close> gives the matching records, \<open>create(entityKind, data)\<close>
  gives the created record): the documents of all kinds in the order of their creation;
  a query never rejects, an equality filter compares the named property, and a created
  document is kept as it was sent. It serves as the concrete store of the examples.
\<close>

type_synonym memory = "(kind \<times> json) list"

definition docsOf :: "memory \<Rightarrow> kind \<Rightarrow> json list" where
  "docsOf s k = map snd (filter (\<lambda>kd. fst kd = k) s)"

fun memoryFindMany :: "memory \<Rightarrow> kind \<Rightarrow> query \<Rightarrow> exn + json list" where
  "memoryFindMany s k StatusPublished = Inr (docsOf s k)"
| "memoryFindMany s k (FilterEq f v) = Inr (filter (\<lambda>d. field d f = Inr v) (docsOf s k))"

definition memoryCreate :: "memory \<Rightarrow> kind \<Rightarrow> (string \<times> json) list \<Rightarrow> memory \<times> (exn + json)" where
  "memoryCreate s k d = (s @ [(k, JObj d)], Inr (JObj d))"

definition memoryStore :: "memory ops" where
  "memoryStore = \<lparr> findMany = memoryFindMany, create = memoryCreate \<rparr>"

text \<open>
  Modelled from the spec: a store that is out of reach. Every request is rejected, as the
  client does when the database is down.
\<close>

definition unreachableStore :: "unit ops" where
  "unreachableStore =
     \<lparr> findMany = (\<lambda>s k q. Inl (StoreError ''connect ECONNREFUSED'')),
       create = (\<lambda>s k d. (s, Inl (StoreError ''connect ECONNREFUSED''))) \<rparr>"

text \<open>A host whose clock stands still and whose random generator repeats itself.\<close>

definition exampleHost :: host where
  "exampleHost = \<lparr> now = (\<lambda>k. 1700000000000), random36 = (\<lambda>k. ''0.k3j9x2m1'') \<rparr>"

section \<open>Vocabulary of the properties\<close>

text \<open>How many records a result accounts for.\<close>

definition processed :: "'a counts_scheme \<Rightarrow> nat" where
  "processed c = created c + skipped c + failed c"

text \<open>
  \<open>holds I m P\<close>: the computation \<open>m\<close> keeps the property \<open>I\<close> of the world, whether it
  returns or throws, and every value it returns from such a world satisfies \<open>P\<close>.
\<close>

definition holds :: "('s world \<Rightarrow> bool) \<Rightarrow> ('s, 'a) eff \<Rightarrow> ('a \<Rightarrow> bool) \<Rightarrow> bool" where
  "holds I m P = (\<forall>w. I w \<longrightarrow> I (fst (m w)) \<and> (\<forall>x. snd (m w) = Inr x \<longrightarrow> P x))"

text \<open>\<open>succeeds m P\<close>: from every world, \<open>m\<close> returns a value, and the value satisfies \<open>P\<close>.\<close>

definition succeeds :: "('s, 'a) eff \<Rightarrow> ('a \<Rightarrow> bool) \<Rightarrow> bool" where
  "succeeds m P = (\<forall>w. \<exists>w' x. m w = (w', Inr x) \<and> P x)"

text \<open>The store is in state \<open>s\<close> and the create requests sent so far are \<open>cs\<close>.\<close>

definition untouched :: "'s \<Rightarrow> call list \<Rightarrow> 's world \<Rightarrow> bool" where
  "untouched s cs w = (store w = s \<and> creates w = cs)"


text \<open>The store answers every query, in whatever state it is.\<close>

definition answering :: "'s ops \<Rightarrow> bool" where
  "answering ops = (\<forall>s k q. \<exists>docs. findMany ops s k q = Inr docs)"

text \<open>
  The published topics and the published tags that the store lists in state \<open>s\<close> have a
  string as name.
\<close>

definition hasStringName :: "json \<Rightarrow> bool" where
  "hasStringName d = (case field d ''name'' of Inr (JStr n) \<Rightarrow> True | _ \<Rightarrow> False)"

definition namedDocs :: "'s ops \<Rightarrow> 's \<Rightarrow> bool" where
  "namedDocs ops s =
     ((case findMany ops s QuestionTopic StatusPublished of
         Inr docs \<Rightarrow> list_all hasStringName docs | Inl e \<Rightarrow> True)
      \<and> (case findMany ops s QuestionTag StatusPublished of
           Inr docs \<Rightarrow> list_all hasStringName docs | Inl e \<Rightarrow> True))"

text \<open>A value whose properties can be read: anything but \<^verbatim>\<open>null\<close> and \<^verbatim>\<open>undefined\<close>.\<close>

fun readable :: "json \<Rightarrow> bool" where
  "readable JUndefined = False"
| "readable JNull = False"
| "readable v = True"

text \<open>\<^verbatim>\<open>v.k\<close> of a readable value.\<close>

definition propOf :: "json \<Rightarrow> string \<Rightarrow> json" where
  "propOf v k = (case field v k of Inr x \<Rightarrow> x | Inl e \<Rightarrow> JUndefined)"

text \<open>
  A record has its required fields: a name (topics, tags); a question text and non-empty
  arrays of answers and of correct answers (questions). This is stated in the words of
  the specification and not through the tests of the scripts.
\<close>

fun nonEmptyArray :: "json \<Rightarrow> bool" where
  "nonEmptyArray (JArr (x # xs)) = True"
| "nonEmptyArray v = False"

definition validNamed :: "json \<Rightarrow> bool" where
  "validNamed r = (readable r \<and> truthy (propOf r ''name''))"

definition validQuestion :: "json \<Rightarrow> bool" where
  "validQuestion q =
     (readable q \<and> truthy (propOf q ''question'')
      \<and> nonEmptyArray (propOf q ''answers'') \<and> nonEmptyArray (propOf q ''correctAnswer''))"

text \<open>The store in state \<open>s\<close> has a document of that kind for the query.\<close>

definition reportsMatch :: "'s ops \<Rightarrow> 's \<Rightarrow> kind \<Rightarrow> query \<Rightarrow> bool" where
  "reportsMatch ops s k q = (case findMany ops s k q of Inr docs \<Rightarrow> docs \<noteq> [] | Inl e \<Rightarrow> False)"

text \<open>
  A record that a dry run counts as created, judged against the store in state \<open>s\<close>: it
  passes validation and, when existing records are to be skipped, the store has no match
  for its key (the slug of a tag is the one given, else the generated one).
\<close>

definition topicAccepted :: "'s ops \<Rightarrow> 's \<Rightarrow> options \<Rightarrow> json \<Rightarrow> bool" where
  "topicAccepted ops s opts topic =
     (validNamed topic
      \<and> \<not> (skipExisting opts
            \<and> reportsMatch ops s QuestionTopic (FilterEq ''name'' (propOf topic ''name''))))"

definition slugOf :: "json \<Rightarrow> json" where
  "slugOf tag =
     (if truthy (propOf tag ''slug'') then propOf tag ''slug''
      else (case generateSlug (propOf tag ''name'') of Inr slug \<Rightarrow> slug | Inl e \<Rightarrow> JUndefined))"

definition tagAccepted :: "'s ops \<Rightarrow> 's \<Rightarrow> options \<Rightarrow> json \<Rightarrow> bool" where
  "tagAccepted ops s opts tag =
     (validNamed tag
      \<and> \<not> (skipExisting opts
            \<and> (reportsMatch ops s QuestionTag (FilterEq ''name'' (propOf tag ''name''))
               \<or> reportsMatch ops s QuestionTag (FilterEq ''slug'' (slugOf tag)))))"

definition questionAccepted :: "'s ops \<Rightarrow> 's \<Rightarrow> options \<Rightarrow> json \<Rightarrow> bool" where
  "questionAccepted ops s opts q =
     (validQuestion q
      \<and> \<not> (skipExisting opts \<and> truthy (propOf q ''code'')
            \<and> reportsMatch ops s Question (FilterEq ''code'' (propOf q ''code''))))"

text \<open>
  Records whose references can be followed: a tag without slug has a string as name, from
  which the slug is generated; the topic of a question is a string when it is given, its
  tags are strings when they are an array, and in a dry run its tags are an array when
  they are given at all.
\<close>

definition wellFormedTag :: "json \<Rightarrow> bool" where
  "wellFormedTag tag =
     (readable tag
      \<and> (truthy (propOf tag ''name'') \<and> \<not> truthy (propOf tag ''slug'') \<longrightarrow> isString (propOf tag ''name'')))"

definition wellFormedQuestion :: "options \<Rightarrow> json \<Rightarrow> bool" where
  "wellFormedQuestion opts q =
     (readable q
      \<and> (truthy (propOf q ''topic'') \<longrightarrow> isString (propOf q ''topic''))
      \<and> (isArray (propOf q ''tags'') \<longrightarrow> list_all isString (elems (propOf q ''tags'')))
      \<and> (dryRun opts \<longrightarrow> isArray (propOf q ''tags'') \<or> \<not> readable (propOf q ''tags'')))"

text \<open>
  Records whose key fields convert to text, so that the lines about them can be printed:
  the name of a topic, the name and the slug of a tag, the code of a question.
\<close>

definition printableTopic :: "json \<Rightarrow> bool" where
  "printableTopic topic = printable (propOf topic ''name'')"

definition printableTag :: "json \<Rightarrow> bool" where
  "printableTag tag = (printable (propOf tag ''name'') \<and> printable (propOf tag ''slug''))"

definition printableQuestion :: "json \<Rightarrow> bool" where
  "printableQuestion q = printable (propOf q ''code'')"

text \<open>
  What the specification requires of a question record: a question text, and for the
  answers and the correct answers an array that is not empty. \<open>lacksRequired q\<close> says
  that one of the three is missing, whatever else the record holds.
\<close>

definition lacksRequired :: "json \<Rightarrow> bool" where
  "lacksRequired q =
     (\<not> truthy (propOf q ''question'')
      \<or> \<not> nonEmptyArray (propOf q ''answers'')
      \<or> \<not> nonEmptyArray (propOf q ''correctAnswer''))"

text \<open>
  The outcome \<open>out\<close> of a run started in \<open>w\<close> is the fatal one: an error line on the
  console (possibly followed by more lines), nothing else touched, and the zero result.
\<close>

definition diagnosed :: "'s world \<Rightarrow> 's world \<times> (exn + counts) \<Rightarrow> bool" where
  "diagnosed w out =
     (\<exists>text vs more.
        out = (w\<lparr> console := console w @ ConsoleError text vs # more \<rparr>, Inr zeroCounts))"



text \<open>The key under which a name is looked up in a cache (the name lowercased).\<close>

definition nameKey :: "json \<Rightarrow> string" where
  "nameKey v = (case callToLowerCase v of Inr k \<Rightarrow> k | Inl e \<Rightarrow> [])"

text \<open>The topic of the question is given and the lookup in the cache finds nothing.\<close>

definition topicUnresolved :: "cache \<Rightarrow> json \<Rightarrow> bool" where
  "topicUnresolved tc q =
     (truthy (propOf q ''topic'') \<and> \<not> truthy (cacheGet tc (nameKey (propOf q ''topic''))))"

text \<open>The documents that the lookup finds for the names of a list, in the order of the names.\<close>

definition resolvedTags :: "cache \<Rightarrow> json list \<Rightarrow> json list" where
  "resolvedTags gc names = filter truthy (map (\<lambda>v. cacheGet gc (nameKey v)) names)"




text \<open>
  Two characters are the same letter, possibly in different case: they are equal, or one
  is a capital (\<^verbatim>\<open>A\<close> to \<^verbatim>\<open>Z\<close>, or a Latin-1 capital from \<open>0xC0\<close> to \<open>0xDE\<close> other
  than the multiplication sign) and the other is its small form, 32 code units above.
  Two names are case variants of each other when they agree letter by letter in this
  sense.
\<close>

definition capital :: "char \<Rightarrow> bool" where
  "capital c =
     (let n = of_char c :: nat in
      (65 \<le> n \<and> n \<le> 90) \<or> (192 \<le> n \<and> n \<le> 214) \<or> (216 \<le> n \<and> n \<le> 222))"

definition sameLetter :: "char \<Rightarrow> char \<Rightarrow> bool" where
  "sameLetter c d =
     (c = d \<or> (capital c \<and> of_char d = of_char c + (32 :: nat))
            \<or> (capital d \<and> of_char c = of_char d + (32 :: nat)))"

definition caseVariant :: "string \<Rightarrow> string \<Rightarrow> bool" where
  "caseVariant m n = list_all2 sameLetter m n"

text \<open>The names in the two sets of missing names are strings.\<close>

definition stringsMissing :: "progress \<Rightarrow> bool" where
  "stringsMissing p = (list_all isString (missingTopics p) \<and> list_all isString (missingTags p))"

section \<open>Normalisation\<close>

text \<open>
  C1 (as stated): every plain string is wrapped into one paragraph block. The empty
  string is a plain string, and both functions return \<^verbatim>\<open>null\<close> for it.
\<close>

theorem convertToBlocks_empty_string_counterexample:
  "convertToBlocks (JStr []) = JNull
   \<and> convertDescriptionToBlocks (JStr []) = JNull
   \<and> convertToBlocks (JStr []) \<noteq>
       JArr [JObj [(''type'', JStr ''paragraph''),
                   (''children'', JArr [JObj [(''type'', JStr ''text''), (''text'', JStr [])]])]]"
  by (simp add: convertToBlocks_def convertDescriptionToBlocks_def)

text \<open>
  C1 (amended): for every non-empty string, both normalisation functions return an array
  of exactly one paragraph block whose single child is a text node carrying the input
  string; every array is returned unchanged; the empty string gives \<^verbatim>\<open>null\<close>; and no
  result is ever a bare string.
\<close>

theorem convertToBlocks_normalises:
  "(s \<noteq> [] \<longrightarrow>
      convertToBlocks (JStr s) =
        JArr [JObj [(''type'', JStr ''paragraph''),
                    (''children'', JArr [JObj [(''type'', JStr ''text''), (''text'', JStr s)]])]]
      \<and> convertDescriptionToBlocks (JStr s) = convertToBlocks (JStr s))
   \<and> convertToBlocks (JArr blocks) = JArr blocks
   \<and> convertDescriptionToBlocks (JArr blocks) = JArr blocks
   \<and> convertToBlocks (JStr []) = JNull
   \<and> convertDescriptionToBlocks (JStr []) = JNull
   \<and> \<not> isString (convertToBlocks v)
   \<and> \<not> isString (convertDescriptionToBlocks v)"
  by (cases v) (simp_all add: convertToBlocks_def convertDescriptionToBlocks_def paragraphBlock_def)

theorem convertToBlocks_normalises_witness:
  "''Algebra'' \<noteq> []
   \<and> convertDescriptionToBlocks (JStr ''Algebra'') =
       JArr [JObj [(''type'', JStr ''paragraph''),
                   (''children'', JArr [JObj [(''type'', JStr ''text''), (''text'', JStr ''Algebra'')]])]]
   \<and> convertToBlocks (JArr [JObj [(''type'', JStr ''quote'')]]) = JArr [JObj [(''type'', JStr ''quote'')]]"
  using convertToBlocks_normalises [of "''Algebra''" "[JObj [(''type'', JStr ''quote'')]]" JNull]
  by simp

section \<open>Rules for effectful computations\<close>

text \<open>The test that guards the answers rejects exactly what is no non-empty array.\<close>

lemma emptyOrNoArray_iff: "emptyOrNoArray v = (\<not> nonEmptyArray v)"
proof (cases v)
  case (JArr xs)
  then show ?thesis by (cases xs) (simp_all add: emptyOrNoArray_def)
qed (simp_all add: emptyOrNoArray_def)

lemma field_propOf: "readable v \<Longrightarrow> field v k = Inr (propOf v k)"
  by (cases v) (simp_all add: propOf_def)

lemma field_Inr_readable: "field v k = Inr x \<Longrightarrow> readable v \<and> x = propOf v k"
  by (cases v) (auto simp: propOf_def)


lemma holds_ret: "P x \<Longrightarrow> holds I (ret x) P"
  by (simp add: holds_def ret_def)

lemma holds_lift: "(\<And>x. r = Inr x \<Longrightarrow> P x) \<Longrightarrow> holds I (lift r) P"
  by (simp add: holds_def lift_def)

lemma holds_bind:
  assumes "holds I m R" and "\<And>x. R x \<Longrightarrow> holds I (f x) P"
  shows "holds I (bind m f) P"
  using assms unfolding holds_def bind_def
  by (auto split: prod.splits sum.splits)


lemma holds_if:
  assumes "b \<Longrightarrow> holds I m P" and "\<not> b \<Longrightarrow> holds I n P"
  shows "holds I (if b then m else n) P"
  using assms by simp

lemma holds_weaken: "holds I m P \<Longrightarrow> (\<And>x. P x \<Longrightarrow> Q x) \<Longrightarrow> holds I m Q"
  by (simp add: holds_def)

lemma holds_console:
  "P () \<Longrightarrow> holds (untouched s cs) (consoleLog t vs) P"
  "P () \<Longrightarrow> holds (untouched s cs) (consoleError t vs) P"
  "P () \<Longrightarrow> holds (\<lambda>w. True) (consoleLog t vs) P"
  "P () \<Longrightarrow> holds (\<lambda>w. True) (consoleError t vs) P"
  by (simp_all add: holds_def untouched_def consoleLog_def consoleError_def creates_def)

lemma holds_host:
  "holds (untouched s cs) (dateNow h) (\<lambda>t. True)"
  "holds (untouched s cs) (mathRandom36 h) (\<lambda>t. True)"
  "holds (\<lambda>w. True) (dateNow h) (\<lambda>t. True)"
  "holds (\<lambda>w. True) (mathRandom36 h) (\<lambda>t. True)"
  by (simp_all add: holds_def untouched_def dateNow_def mathRandom36_def creates_def)

lemma holds_storeFindMany:
  "holds (untouched s cs) (storeFindMany ops k q) (\<lambda>docs. findMany ops s k q = Inr docs)"
  by (simp add: holds_def untouched_def storeFindMany_def creates_def)

lemma holds_True_store:
  "holds (\<lambda>w. True) (storeFindMany ops k q) (\<lambda>docs. True)"
  "holds (\<lambda>w. True) (storeCreate ops k d) (\<lambda>docs. True)"
  by (simp_all add: holds_def)

lemma holdsD:
  assumes "holds I m P" and "I w" and "m w = (w', r)"
  shows "I w'" and "\<And>x. r = Inr x \<Longrightarrow> P x"
  using assms unfolding holds_def by (metis fst_conv, metis snd_conv)

text \<open>Every step accounts for exactly one record.\<close>

lemma createQuestionTopic_any: "holds (\<lambda>w. True) (createQuestionTopic ops h entry) (\<lambda>r. True)"
  by (simp add: holds_def)

lemma topicStep_total:
  "holds (\<lambda>w. True) (topicStep ops h opts topic c) (\<lambda>c'. processed c' = processed c + 1)"
  unfolding topicStep_def Let_def
  by (intro holds_bind [where R = "\<lambda>x. True"] holds_if holds_console holds_ret)
     (simp_all add: holds_def processed_def)

lemma tagStep_total:
  "holds (\<lambda>w. True) (tagStep ops h opts tag c) (\<lambda>c'. processed c' = processed c + 1)"
  unfolding tagStep_def Let_def
  by (intro holds_bind [where R = "\<lambda>x. True"] holds_if holds_console holds_ret)
     (simp_all add: holds_def processed_def)

lemma questionStep_total:
  "holds (\<lambda>w. True) (questionStep ops h opts tc gc i q p) (\<lambda>p'. processed p' = processed p + 1)"
  unfolding questionStep_def linkAndCreate_def Let_def
  by (intro holds_bind [where R = "\<lambda>x. True"] holds_if holds_console holds_ret)
     (simp_all add: holds_def processed_def)

lemma topicsLoop_total:
  "holds (\<lambda>w. True) (topicsLoop ops h opts rs c) (\<lambda>c'. processed c' = processed c + length rs)"
proof (induction rs arbitrary: c)
  case Nil
  show ?case by (simp add: holds_ret)
next
  case (Cons r rs)
  show ?case
    unfolding topicsLoop.simps
    by (rule holds_bind [OF topicStep_total]) (rule holds_weaken [OF Cons.IH], simp)
qed

lemma tagsLoop_total:
  "holds (\<lambda>w. True) (tagsLoop ops h opts rs c) (\<lambda>c'. processed c' = processed c + length rs)"
proof (induction rs arbitrary: c)
  case Nil
  show ?case by (simp add: holds_ret)
next
  case (Cons r rs)
  show ?case
    unfolding tagsLoop.simps
    by (rule holds_bind [OF tagStep_total]) (rule holds_weaken [OF Cons.IH], simp)
qed

lemma questionsLoop_total:
  "holds (\<lambda>w. True) (questionsLoop ops h opts tc gc i qs p) (\<lambda>p'. processed p' = processed p + length qs)"
proof (induction qs arbitrary: p i)
  case Nil
  show ?case by (simp add: holds_ret)
next
  case (Cons q qs)
  show ?case
    unfolding questionsLoop.simps
    by (rule holds_bind [OF questionStep_total]) (rule holds_weaken [OF Cons.IH], simp)
qed

section \<open>Runs that return\<close>

lemma succeeds_ret: "P x \<Longrightarrow> succeeds (ret x) P"
  by (simp add: succeeds_def ret_def)

lemma succeeds_lift: "r = Inr x \<Longrightarrow> P x \<Longrightarrow> succeeds (lift r) P"
  by (simp add: succeeds_def lift_def)

lemma succeeds_field: "readable v \<Longrightarrow> succeeds (lift (field v k)) (\<lambda>x. x = propOf v k)"
  by (simp add: succeeds_def lift_def field_propOf)

lemma succeeds_bind:
  assumes "succeeds m R" and "\<And>x. R x \<Longrightarrow> succeeds (f x) P"
  shows "succeeds (bind m f) P"
  unfolding succeeds_def bind_def
proof
  fix w
  from assms(1) obtain w1 x where m: "m w = (w1, Inr x)" and "R x"
    unfolding succeeds_def by blast
  from assms(2) [OF \<open>R x\<close>] obtain w2 y where "f x w1 = (w2, Inr y)" and "P y"
    unfolding succeeds_def by blast
  with m show "\<exists>w' y. (case m w of (w', Inl e) \<Rightarrow> (w', Inl e) | (w', Inr x) \<Rightarrow> f x w') = (w', Inr y) \<and> P y"
    by simp
qed

lemma succeeds_tryCatch:
  assumes "\<And>e. succeeds (f e) P" and "\<And>w w' x. m w = (w', Inr x) \<Longrightarrow> P x"
  shows "succeeds (tryCatch m f) P"
  unfolding succeeds_def tryCatch_def
proof
  fix w
  obtain w1 r where m: "m w = (w1, r)" by (cases "m w")
  show "\<exists>w' y. (case m w of (w', Inl e) \<Rightarrow> f e w' | (w', Inr x) \<Rightarrow> (w', Inr x)) = (w', Inr y) \<and> P y"
  proof (cases r)
    case (Inl e)
    from assms(1) [of e] obtain w2 y where "f e w1 = (w2, Inr y)" and "P y"
      unfolding succeeds_def by blast
    with m Inl show ?thesis by simp
  next
    case (Inr x)
    with m assms(2) show ?thesis by simp
  qed
qed

lemma succeeds_if:
  assumes "b \<Longrightarrow> succeeds m P" and "\<not> b \<Longrightarrow> succeeds n P"
  shows "succeeds (if b then m else n) P"
  using assms by simp

lemma succeeds_weaken: "succeeds m P \<Longrightarrow> (\<And>x. P x \<Longrightarrow> Q x) \<Longrightarrow> succeeds m Q"
  unfolding succeeds_def by blast

lemma succeeds_console:
  "list_all printable vs \<Longrightarrow> P () \<Longrightarrow> succeeds (consoleLog t vs) P"
  "list_all printable vs \<Longrightarrow> P () \<Longrightarrow> succeeds (consoleError t vs) P"
  by (simp_all add: succeeds_def consoleLog_def consoleError_def)

lemma succeeds_host:
  "succeeds (dateNow h) (\<lambda>t. True)"
  "succeeds (mathRandom36 h) (\<lambda>t. True)"
  by (simp_all add: succeeds_def dateNow_def mathRandom36_def)

lemma succeeds_storeFindMany:
  "answering ops \<Longrightarrow> succeeds (storeFindMany ops k q) (\<lambda>docs. True)"
  unfolding succeeds_def storeFindMany_def answering_def
  by (metis (no_types, lifting))

lemma isString_printable: "isString v \<Longrightarrow> printable v"
  by (cases v) simp_all

lemma strings_printable: "list_all isString vs \<Longrightarrow> list_all printable vs"
  by (induction vs) (simp_all add: isString_printable)

text \<open>
  The create functions return whatever the store does, provided the name (the code) that
  the handler of a failed request prints converts to text.
\<close>

lemma succeeds_createQuestionTopic:
  assumes "printable (entryProp entry ''name'')"
  shows "succeeds (createQuestionTopic ops h entry) (\<lambda>r. True)"
  unfolding createQuestionTopic_def
  by (intro succeeds_tryCatch succeeds_bind [where R = "\<lambda>x. True"] succeeds_console succeeds_ret)
     (simp_all add: assms)

lemma succeeds_createQuestionTag:
  assumes "printable (entryProp entry ''name'')"
  shows "succeeds (createQuestionTag ops h entry) (\<lambda>r. True)"
  unfolding createQuestionTag_def
  by (intro succeeds_tryCatch succeeds_bind [where R = "\<lambda>x. True"] succeeds_console succeeds_ret)
     (simp_all add: assms)

lemma succeeds_createQuestion:
  assumes "printable (entryProp entry ''code'')"
  shows "succeeds (createQuestion ops h entry) (\<lambda>r. True)"
  unfolding createQuestion_def
  by (intro succeeds_tryCatch succeeds_bind [where R = "\<lambda>x. True"] succeeds_console succeeds_ret)
     (simp_all add: assms)

lemma topicStep_succeeds:
  assumes "answering ops" and "readable topic" and "printableTopic topic"
  shows "succeeds (topicStep ops h opts topic c) (\<lambda>c'. True)"
  unfolding topicStep_def checkExistingTopic_def Let_def
  by (intro succeeds_bind [OF succeeds_field] succeeds_bind [where R = "\<lambda>x. True"] succeeds_if
        succeeds_console succeeds_ret succeeds_storeFindMany succeeds_createQuestionTopic assms)
     (use assms(3) in \<open>simp_all add: printableTopic_def entryProp_def\<close>)

lemma generateSlug_string: "isString v \<Longrightarrow> \<exists>s. generateSlug v = Inr (JStr s)"
  by (cases v) (simp_all add: generateSlug_def)

lemma tagStep_succeeds:
  assumes "answering ops" and "wellFormedTag tag" and "printableTag tag"
  shows "succeeds (tagStep ops h opts tag c) (\<lambda>c'. True)"
proof -
  from assms(2) have r: "readable tag" by (simp add: wellFormedTag_def)
  from assms(3) have pn: "printable (propOf tag ''name'')" and ps: "printable (propOf tag ''slug'')"
    by (simp_all add: printableTag_def)
  have slug: "succeeds (if truthy given then ret given else lift (generateSlug name)) printable"
    if "name = propOf tag ''name''" and "\<not> \<not> truthy name" and "given = propOf tag ''slug''"
    for name given
  proof (cases "truthy given")
    case True
    with that ps show ?thesis by (simp add: succeeds_ret)
  next
    case False
    with that assms(2) have "isString name" by (simp add: wellFormedTag_def)
    from generateSlug_string [OF this] False show ?thesis
      by (auto intro: succeeds_lift)
  qed
  show ?thesis
    unfolding tagStep_def checkExistingTag_def Let_def
    apply (rule succeeds_bind [OF succeeds_field [OF r]])
    apply (rule succeeds_if)
     apply (intro succeeds_bind [where R = "\<lambda>x. True"] succeeds_console succeeds_ret; simp)
    apply (rule succeeds_bind [OF succeeds_field [OF r]])
    apply (rule succeeds_bind [where R = printable])
     apply (erule (2) slug)
    apply (intro succeeds_bind [where R = "\<lambda>x. True"] succeeds_if
        succeeds_console succeeds_ret succeeds_storeFindMany succeeds_createQuestionTag assms)
    using pn
                    apply (simp_all add: entryProp_def)
    done
qed

lemma topicsLoop_succeeds:
  assumes "answering ops"
  shows "list_all readable rs \<Longrightarrow> list_all printableTopic rs
     \<Longrightarrow> succeeds (topicsLoop ops h opts rs c) (\<lambda>c'. True)"
proof (induction rs arbitrary: c)
  case Nil
  show ?case by (simp add: succeeds_ret)
next
  case (Cons r rs)
  then show ?case
    by (auto intro!: succeeds_bind [OF topicStep_succeeds [OF assms]])
qed

lemma tagsLoop_succeeds:
  assumes "answering ops"
  shows "list_all wellFormedTag rs \<Longrightarrow> list_all printableTag rs
     \<Longrightarrow> succeeds (tagsLoop ops h opts rs c) (\<lambda>c'. True)"
proof (induction rs arbitrary: c)
  case Nil
  show ?case by (simp add: succeeds_ret)
next
  case (Cons r rs)
  then show ?case
    by (auto intro!: succeeds_bind [OF tagStep_succeeds [OF assms]])
qed

lemma succeeds_lift_ex: "\<exists>x. r = Inr x \<Longrightarrow> succeeds (lift r) (\<lambda>x. True)"
  by (auto simp: succeeds_def lift_def)

lemma findTopicByName_string: "isString v \<Longrightarrow> \<exists>r. findTopicByName c v = Inr r"
  by (cases v) (simp_all add: findTopicByName_def)

lemma findTagsLoop_strings: "list_all isString ns \<Longrightarrow> \<exists>r. findTagsLoop c ns acc = Inr r"
proof (induction ns arbitrary: acc)
  case Nil
  show ?case by simp
next
  case (Cons n ns)
  then obtain s where "n = JStr s" by (cases n) simp_all
  with Cons show ?case by (simp add: Let_def)
qed

lemma setAdd_strings: "list_all isString xs \<Longrightarrow> isString v \<Longrightarrow> list_all isString (setAdd xs v)"
  by (simp add: setAdd_def)

lemma trackMissingTags_strings:
  "list_all isString ns \<Longrightarrow> list_all isString acc
     \<Longrightarrow> \<exists>r. trackMissingTags c ns acc = Inr r \<and> list_all isString r"
proof (induction ns arbitrary: acc)
  case Nil
  then show ?case by simp
next
  case (Cons n ns)
  then obtain s where "n = JStr s" by (cases n) simp_all
  with Cons show ?case by (simp add: setAdd_strings)
qed

lemma fillCache_named:
  "list_all hasStringName docs \<Longrightarrow> \<exists>c'. fillCache docs c = Inr c'"
proof (induction docs arbitrary: c)
  case Nil
  show ?case by simp
next
  case (Cons d docs)
  then obtain n where "field d ''name'' = Inr (JStr n)"
    by (auto simp: hasStringName_def split: sum.splits json.splits)
  with Cons show ?case by simp
qed

lemma optionalJoin_ok:
  "(isArray v \<and> list_all isString (elems v)) \<or> \<not> readable v
     \<Longrightarrow> \<exists>r. optionalJoin v = Inr r \<and> printable r"
  by (cases v) (auto simp: strings_printable)

lemma succeeds_generateCode: "succeeds (generateCode h i) (\<lambda>c. True)"
  unfolding generateCode_def Let_def
  by (intro succeeds_bind [where R = "\<lambda>x. True"] succeeds_host succeeds_ret) simp_all

lemma succeeds_checkExistingQuestion:
  "answering ops \<Longrightarrow> succeeds (checkExistingQuestion ops code) (\<lambda>c. True)"
  unfolding checkExistingQuestion_def
  by (intro succeeds_if succeeds_bind [where R = "\<lambda>x. True"] succeeds_storeFindMany succeeds_ret)
     simp_all

lemma linkAndCreate_succeeds:
  assumes wf: "wellFormedQuestion opts q" and code: "printable code" and p: "stringsMissing p"
  shows "succeeds (linkAndCreate ops h opts tc gc q code p) stringsMissing"
proof -
  from wf have r: "readable q" by (simp add: wellFormedQuestion_def)
  have track: "succeeds (if truthy v \<and> isArray v then lift (trackMissingTags gc (elems v) acc)
                         else ret acc) (list_all isString)"
    if "list_all isString acc" and "isArray v \<longrightarrow> list_all isString (elems v)" for v acc
    using that trackMissingTags_strings [of "elems v" acc gc]
    by (auto simp: succeeds_def lift_def ret_def)
  have join: "succeeds (lift (optionalJoin v)) printable"
    if "(isArray v \<and> list_all isString (elems v)) \<or> \<not> readable v" for v
    using optionalJoin_ok [OF that] by (auto intro: succeeds_lift)
  have inter: "succeeds (lift (interpolate v)) (\<lambda>x. True)" if "printable v" for v
    using that by (auto simp: interpolate_def intro: succeeds_lift)
  show ?thesis
    unfolding linkAndCreate_def Let_def
    apply (intro succeeds_bind [OF succeeds_field [OF r]]
        succeeds_bind [OF track] succeeds_bind [OF join] succeeds_bind [OF inter]
        succeeds_if succeeds_console succeeds_ret succeeds_createQuestion
        succeeds_lift_ex
        succeeds_bind [where R = "\<lambda>x. True"])
    using wf code p
                        apply (auto simp: wellFormedQuestion_def stringsMissing_def findTopicByName_string
        findTagsByNames_def findTagsLoop_strings setAdd_strings entryProp_def orElse_def
        isString_printable)
    done
qed

lemma questionStep_succeeds:
  assumes a: "answering ops" and wf: "wellFormedQuestion opts q" and pq: "printableQuestion q"
    and p: "stringsMissing p"
  shows "succeeds (questionStep ops h opts tc gc i q p) stringsMissing"
proof -
  from wf have r: "readable q" by (simp add: wellFormedQuestion_def)
  have settle: "succeeds (if truthy qcode then ret qcode
                          else bind (generateCode h i) (\<lambda>generated. ret (JStr generated))) printable"
    if "qcode = propOf q ''code''" for qcode
  proof (cases "truthy qcode")
    case True
    with that pq show ?thesis by (simp add: succeeds_ret printableQuestion_def)
  next
    case False
    then show ?thesis
      by (auto intro!: succeeds_bind [OF succeeds_generateCode] succeeds_ret)
  qed
  show ?thesis
    unfolding questionStep_def
    apply (rule succeeds_bind [OF succeeds_field [OF r]])
    apply (rule succeeds_bind [OF settle], assumption)
    apply (intro succeeds_bind [OF succeeds_field [OF r]]
        succeeds_if succeeds_console succeeds_ret
        succeeds_checkExistingQuestion linkAndCreate_succeeds
        succeeds_bind [where R = "\<lambda>x. True"] a wf p)
    using p
                  apply (simp_all add: stringsMissing_def)
    done
qed

lemma questionsLoop_succeeds:
  assumes "answering ops"
  shows "list_all (wellFormedQuestion opts) qs \<Longrightarrow> list_all printableQuestion qs
     \<Longrightarrow> stringsMissing p
     \<Longrightarrow> succeeds (questionsLoop ops h opts tc gc i qs p) stringsMissing"
proof (induction qs arbitrary: p i)
  case Nil
  then show ?case by (simp add: succeeds_ret)
next
  case (Cons q qs)
  then show ?case
    by (auto intro!: succeeds_bind [OF questionStep_succeeds [OF assms]])
qed

lemma loadCache_succeeds:
  assumes "answering ops"
  shows "namedDocs ops (store w) \<Longrightarrow> \<exists>w' c. loadTopicsCache ops w = (w', Inr c) \<and> store w' = store w"
    and "namedDocs ops (store w) \<Longrightarrow> \<exists>w' c. loadTagsCache ops w = (w', Inr c) \<and> store w' = store w"
proof -
  assume n: "namedDocs ops (store w)"
  from assms obtain docs where d: "findMany ops (store w) QuestionTopic StatusPublished = Inr docs"
    unfolding answering_def by blast
  with n have "list_all hasStringName docs"
    by (simp add: namedDocs_def)
  from fillCache_named [OF this] obtain c where "fillCache docs emptyCache = Inr c" by blast
  with d show "\<exists>w' c. loadTopicsCache ops w = (w', Inr c) \<and> store w' = store w"
    by (simp add: loadTopicsCache_def bind_def storeFindMany_def lift_def consoleLog_def ret_def)
next
  assume n: "namedDocs ops (store w)"
  from assms obtain docs where d: "findMany ops (store w) QuestionTag StatusPublished = Inr docs"
    unfolding answering_def by blast
  with n have "list_all hasStringName docs"
    by (simp add: namedDocs_def)
  from fillCache_named [OF this] obtain c where "fillCache docs emptyCache = Inr c" by blast
  with d show "\<exists>w' c. loadTagsCache ops w = (w', Inr c) \<and> store w' = store w"
    by (simp add: loadTagsCache_def bind_def storeFindMany_def lift_def consoleLog_def ret_def)
qed

section \<open>Fatal input\<close>

lemma run_total:
  "importQuestionTopics ops h f (Parsed (JArr rs)) opts w = (w', Inr r) \<Longrightarrow> processed r = length rs"
  "importQuestionTags ops h f (Parsed (JArr rs)) opts w = (w', Inr r) \<Longrightarrow> processed r = length rs"
proof -
  have t: "holds (\<lambda>w. True) (importQuestionTopics ops h f (Parsed (JArr rs)) opts)
             (\<lambda>r. processed r = length rs)"
    unfolding importQuestionTopics_def
    apply (simp split del: if_split)
    apply (rule holds_bind [where R = "\<lambda>x. True"], rule holds_console, simp)
    apply (rule holds_bind [where R = "\<lambda>x. True"], rule holds_console, simp)
    apply (rule holds_weaken [OF topicsLoop_total])
    apply (simp add: processed_def zeroCounts_def)
    done
  have g: "holds (\<lambda>w. True) (importQuestionTags ops h f (Parsed (JArr rs)) opts)
             (\<lambda>r. processed r = length rs)"
    unfolding importQuestionTags_def
    apply (simp split del: if_split)
    apply (rule holds_bind [where R = "\<lambda>x. True"], rule holds_console, simp)
    apply (rule holds_bind [where R = "\<lambda>x. True"], rule holds_console, simp)
    apply (rule holds_weaken [OF tagsLoop_total])
    apply (simp add: processed_def zeroCounts_def)
    done
  show "importQuestionTopics ops h f (Parsed (JArr rs)) opts w = (w', Inr r) \<Longrightarrow> processed r = length rs"
    using holdsD(2) [OF t] by blast
  show "importQuestionTags ops h f (Parsed (JArr rs)) opts w = (w', Inr r) \<Longrightarrow> processed r = length rs"
    using holdsD(2) [OF g] by blast
qed

lemma reportMissing_total:
  "holds (\<lambda>w. True) (reportMissing p) (\<lambda>r. processed r = processed p)"
  unfolding reportMissing_def
  by (intro holds_bind [where R = "\<lambda>x. True"] holds_if holds_console holds_ret)
     (simp_all add: processed_def)

lemma questions_run_total:
  "importQuestions ops h f (Parsed (JArr rs)) opts w = (w', Inr r) \<Longrightarrow> processed r = length rs"
proof -
  have "holds (\<lambda>w. True) (importQuestions ops h f (Parsed (JArr rs)) opts)
          (\<lambda>r. processed r = length rs)"
    unfolding importQuestions_def
    apply (simp split del: if_split)
    apply (rule holds_bind [where R = "\<lambda>x. True"], simp add: holds_def)
    apply (rule holds_bind [where R = "\<lambda>x. True"], simp add: holds_def)
    apply (rule holds_bind [where R = "\<lambda>x. True"], rule holds_console, simp)
    apply (rule holds_bind [where R = "\<lambda>x. True"], rule holds_console, simp)
    apply (rule holds_bind [OF questionsLoop_total])
    apply (rule holds_weaken [OF reportMissing_total])
    apply (simp add: processed_def startProgress_def)
    done
  from holdsD(2) [OF this] show "importQuestions ops h f (Parsed (JArr rs)) opts w = (w', Inr r) \<Longrightarrow> processed r = length rs"
    by blast
qed

text \<open>
  C5 (as stated): nothing but a missing file, unparseable content or a top-level value that
  is no array ends a run early. A store that rejects a query does: the question import
  lists the topics before it looks at the first record, the rejection leaves the import
  function as an exception, and no record is processed and no result returned.
\<close>

theorem unreachable_store_aborts_run_counterexample:
  "importQuestions unreachableStore exampleHost ''data/questions.json''
     (Parsed (JArr [JObj [(''question'', JStr ''What is the capital of France?''),
                          (''answers'', JArr [JObj [(''id'', JStr ''B''), (''content'', JStr ''Paris'')]]),
                          (''correctAnswer'', JArr [JStr ''B''])]]))
     \<lparr> skipExisting = True, dryRun = False \<rparr> (initialWorld ())
   = (\<lparr> store = (), calls = [FindMany QuestionTopic StatusPublished], console = [],
        ticks = 0, draws = 0 \<rparr>,
      Inl (StoreError ''connect ECONNREFUSED''))"
  by (simp add: importQuestions_def loadTopicsCache_def storeFindMany_def bind_def
      initialWorld_def unreachableStore_def)

text \<open>
  C5 (amended): when the input file is absent, cannot be read or parsed, or parses to a
  value that is no array, each of the three imports prints an error line, touches nothing
  else (no request to the store, no record processed) and returns the zero result. When
  the file parses to an array, a run that returns a result has processed every record;
  it can also end without a result, by an exception that propagates to the caller, as
  when the store rejects a query.
\<close>

theorem fatal_input_zero_result:
  "diagnosed w (importQuestionTopics ops h f Missing opts w)
   \<and> diagnosed w (importQuestionTags ops h f Missing opts w)
   \<and> diagnosed w (importQuestions ops h f Missing opts w)
   \<and> diagnosed w (importQuestionTopics ops h f (Unparseable msg) opts w)
   \<and> diagnosed w (importQuestionTags ops h f (Unparseable msg) opts w)
   \<and> diagnosed w (importQuestions ops h f (Unparseable msg) opts w)
   \<and> (\<not> isArray v \<longrightarrow>
        diagnosed w (importQuestionTopics ops h f (Parsed v) opts w)
        \<and> diagnosed w (importQuestionTags ops h f (Parsed v) opts w)
        \<and> diagnosed w (importQuestions ops h f (Parsed v) opts w))
   \<and> (\<forall>w' r. importQuestionTopics ops h f (Parsed (JArr rs)) opts w = (w', Inr r)
          \<longrightarrow> processed r = length rs)
   \<and> (\<forall>w' r. importQuestionTags ops h f (Parsed (JArr rs)) opts w = (w', Inr r)
          \<longrightarrow> processed r = length rs)
   \<and> (\<forall>w' r. importQuestions ops h f (Parsed (JArr rs)) opts w = (w', Inr r)
          \<longrightarrow> processed r = length rs)"
proof -
  have missing: "diagnosed w (importQuestionTopics ops h f Missing opts w)"
    "diagnosed w (importQuestionTags ops h f Missing opts w)"
    "diagnosed w (importQuestions ops h f Missing opts w)"
    by (simp_all add: diagnosed_def importQuestionTopics_def importQuestionTags_def
        importQuestions_def bind_def consoleError_def consoleLog_def ret_def) blast+
  have unparseable: "diagnosed w (importQuestionTopics ops h f (Unparseable msg) opts w)"
    "diagnosed w (importQuestionTags ops h f (Unparseable msg) opts w)"
    "diagnosed w (importQuestions ops h f (Unparseable msg) opts w)"
    by (simp_all add: diagnosed_def importQuestionTopics_def importQuestionTags_def
        importQuestions_def bind_def consoleError_def consoleLog_def ret_def) blast+
  have no_array: "diagnosed w (importQuestionTopics ops h f (Parsed v) opts w)"
    "diagnosed w (importQuestionTags ops h f (Parsed v) opts w)"
    "diagnosed w (importQuestions ops h f (Parsed v) opts w)" if "\<not> isArray v"
    using that
    by (simp_all add: diagnosed_def importQuestionTopics_def importQuestionTags_def
        importQuestions_def bind_def consoleError_def consoleLog_def ret_def) blast+
  show ?thesis
    by (intro conjI allI impI missing unparseable no_array)
       (auto dest: run_total questions_run_total)
qed

theorem fatal_input_zero_result_witness:
  "\<not> isArray (JObj [(''name'', JStr ''Math'')])
   \<and> importQuestionTopics memoryStore exampleHost ''topics.json''
        (Parsed (JObj [(''name'', JStr ''Math'')])) \<lparr> skipExisting = True, dryRun = False \<rparr>
        (initialWorld [])
      = (\<lparr> store = [], calls = [],
           console = [ConsoleError ''JSON file must contain an array of question topics'' []],
           ticks = 0, draws = 0 \<rparr>,
         Inr \<lparr> created = 0, skipped = 0, failed = 0 \<rparr>)"
  using fatal_input_zero_result [of "initialWorld []" memoryStore exampleHost "''topics.json''"
      "\<lparr> skipExisting = True, dryRun = False \<rparr>" "[]" "JObj [(''name'', JStr ''Math'')]" "[]"]
  by (simp add: importQuestionTopics_def bind_def consoleError_def ret_def initialWorld_def
      zeroCounts_def)

section \<open>Every record is counted once\<close>

lemma topics_run_returns:
  assumes "answering ops" and "list_all readable rs" and "list_all printableTopic rs"
  shows "\<exists>w' r. importQuestionTopics ops h f (Parsed (JArr rs)) opts w = (w', Inr r)"
proof -
  have "succeeds (importQuestionTopics ops h f (Parsed (JArr rs)) opts) (\<lambda>r. True)"
    unfolding importQuestionTopics_def
    apply (simp split del: if_split)
    apply (rule succeeds_bind [where R = "\<lambda>x. True"], rule succeeds_console, simp, simp)
    apply (rule succeeds_bind [where R = "\<lambda>x. True"], rule succeeds_console, simp, simp)
    apply (rule topicsLoop_succeeds [OF assms])
    done
  then show ?thesis unfolding succeeds_def by blast
qed

lemma tags_run_returns:
  assumes "answering ops" and "list_all wellFormedTag rs" and "list_all printableTag rs"
  shows "\<exists>w' r. importQuestionTags ops h f (Parsed (JArr rs)) opts w = (w', Inr r)"
proof -
  have "succeeds (importQuestionTags ops h f (Parsed (JArr rs)) opts) (\<lambda>r. True)"
    unfolding importQuestionTags_def
    apply (simp split del: if_split)
    apply (rule succeeds_bind [where R = "\<lambda>x. True"], rule succeeds_console, simp, simp)
    apply (rule succeeds_bind [where R = "\<lambda>x. True"], rule succeeds_console, simp, simp)
    apply (rule tagsLoop_succeeds [OF assms])
    done
  then show ?thesis unfolding succeeds_def by blast
qed

lemma succeeds_reportMissing: "stringsMissing p \<Longrightarrow> succeeds (reportMissing p) (\<lambda>r. True)"
  unfolding reportMissing_def
  by (intro succeeds_bind [where R = "\<lambda>x. True"] succeeds_if succeeds_console succeeds_ret)
     (simp_all add: stringsMissing_def strings_printable)

lemma questions_run_returns:
  assumes a: "answering ops" and n: "namedDocs ops (store w)"
    and wf: "list_all (wellFormedQuestion opts) rs" and pq: "list_all printableQuestion rs"
  shows "\<exists>w' r. importQuestions ops h f (Parsed (JArr rs)) opts w = (w', Inr r)"
proof -
  from loadCache_succeeds(1) [OF a n] obtain w1 tc
    where l1: "loadTopicsCache ops w = (w1, Inr tc)" and s1: "store w1 = store w" by blast
  from n s1 have "namedDocs ops (store w1)" by simp
  from loadCache_succeeds(2) [OF a this] obtain w2 gc
    where l2: "loadTagsCache ops w1 = (w2, Inr gc)" by blast
  have "succeeds
          (bind (consoleLog ''Found question(s) to import: '' [JNum (of_nat (length rs))]) (\<lambda>_.
           bind (consoleLog (if dryRun opts then ''(Dry run mode - no changes will be made)'' else []) []) (\<lambda>_.
           bind (questionsLoop ops h opts tc gc 0 rs startProgress) (\<lambda>p.
           reportMissing p)))) (\<lambda>r. True)"
    apply (rule succeeds_bind [where R = "\<lambda>x. True"], rule succeeds_console, simp, simp)
    apply (rule succeeds_bind [where R = "\<lambda>x. True"], rule succeeds_console, simp, simp)
    apply (rule succeeds_bind [OF questionsLoop_succeeds [OF a wf pq]])
     apply (simp add: stringsMissing_def startProgress_def)
    apply (erule succeeds_reportMissing)
    done
  then obtain w' r where
    "bind (consoleLog ''Found question(s) to import: '' [JNum (of_nat (length rs))]) (\<lambda>_.
     bind (consoleLog (if dryRun opts then ''(Dry run mode - no changes will be made)'' else []) []) (\<lambda>_.
     bind (questionsLoop ops h opts tc gc 0 rs startProgress) (\<lambda>p.
     reportMissing p))) w2 = (w', Inr r)"
    unfolding succeeds_def by blast
  with l1 l2 have "importQuestions ops h f (Parsed (JArr rs)) opts w = (w', Inr r)"
    by (simp add: importQuestions_def bind_def [of "loadTopicsCache ops"]
        bind_def [of "loadTagsCache ops"] split del: if_split)
  then show ?thesis by blast
qed

lemma answering_memoryStore: "answering memoryStore"
  unfolding answering_def memoryStore_def
proof (intro allI)
  fix s k q
  show "\<exists>docs. findMany \<lparr>findMany = memoryFindMany, create = memoryCreate\<rparr> s k q = Inr docs"
    by (cases q) simp_all
qed

text \<open>
  C10 (as stated): whatever the store responds, a run over an array returns counts that
  add up to the number of records. A store that rejects the existence query makes the run
  end with that exception instead: for a well-formed file with one topic, nothing is
  counted and no result is returned.
\<close>

theorem rejected_query_no_result_counterexample:
  "snd (importQuestionTopics unreachableStore exampleHost ''data/question-topics.json''
          (Parsed (JArr [JObj [(''name'', JStr ''Math'')]]))
          \<lparr> skipExisting = True, dryRun = False \<rparr> (initialWorld ()))
   = Inl (StoreError ''connect ECONNREFUSED'')"
  by (simp add: importQuestionTopics_def topicStep_def checkExistingTopic_def storeFindMany_def
      bind_def consoleLog_def lift_def initialWorld_def unreachableStore_def)

text \<open>
  C10 (amended): whenever a run over an array returns a result (no exception leaves the
  import function), every record has incremented exactly one counter:
  \<open>created + skipped + failed\<close> is the length of the array, for all options and all
  store responses. And a run does return a result when the store answers every query,
  no record is \<^verbatim>\<open>null\<close>, the name of every topic, the name and the slug of every tag and
  the code of every question convert to text (none is an object with a property
  \<^verbatim>\<open>toString\<close> or an array that holds one), and moreover: for tags, a record without
  slug has a string as name; for questions, the cached topics and tags have string names,
  a given topic is a string, the tags of an array are strings, and in a dry run the tags
  are an array or absent.
\<close>

theorem counts_add_up_to_input_length:
  "(\<forall>w' r. importQuestionTopics ops h f (Parsed (JArr rs)) opts w = (w', Inr r)
        \<longrightarrow> created r + skipped r + failed r = length rs)
   \<and> (\<forall>w' r. importQuestionTags ops h f (Parsed (JArr rs)) opts w = (w', Inr r)
        \<longrightarrow> created r + skipped r + failed r = length rs)
   \<and> (\<forall>w' r. importQuestions ops h f (Parsed (JArr rs)) opts w = (w', Inr r)
        \<longrightarrow> created r + skipped r + failed r = length rs)
   \<and> (answering ops \<and> list_all readable rs \<and> list_all printableTopic rs
        \<longrightarrow> (\<exists>w' r. importQuestionTopics ops h f (Parsed (JArr rs)) opts w = (w', Inr r)))
   \<and> (answering ops \<and> list_all wellFormedTag rs \<and> list_all printableTag rs
        \<longrightarrow> (\<exists>w' r. importQuestionTags ops h f (Parsed (JArr rs)) opts w = (w', Inr r)))
   \<and> (answering ops \<and> namedDocs ops (store w) \<and> list_all (wellFormedQuestion opts) rs
        \<and> list_all printableQuestion rs
        \<longrightarrow> (\<exists>w' r. importQuestions ops h f (Parsed (JArr rs)) opts w = (w', Inr r)))"
proof (intro conjI allI impI)
  fix w' r
  assume "importQuestionTopics ops h f (Parsed (JArr rs)) opts w = (w', Inr r)"
  from run_total(1) [OF this] show "created r + skipped r + failed r = length rs"
    by (simp add: processed_def)
next
  fix w' r
  assume "importQuestionTags ops h f (Parsed (JArr rs)) opts w = (w', Inr r)"
  from run_total(2) [OF this] show "created r + skipped r + failed r = length rs"
    by (simp add: processed_def)
next
  fix w' r
  assume "importQuestions ops h f (Parsed (JArr rs)) opts w = (w', Inr r)"
  from questions_run_total [OF this] show "created r + skipped r + failed r = length rs"
    by (simp add: processed_def)
next
  assume "answering ops \<and> list_all readable rs \<and> list_all printableTopic rs"
  then show "\<exists>w' r. importQuestionTopics ops h f (Parsed (JArr rs)) opts w = (w', Inr r)"
    using topics_run_returns by blast
next
  assume "answering ops \<and> list_all wellFormedTag rs \<and> list_all printableTag rs"
  then show "\<exists>w' r. importQuestionTags ops h f (Parsed (JArr rs)) opts w = (w', Inr r)"
    using tags_run_returns by blast
next
  assume "answering ops \<and> namedDocs ops (store w) \<and> list_all (wellFormedQuestion opts) rs
        \<and> list_all printableQuestion rs"
  then show "\<exists>w' r. importQuestions ops h f (Parsed (JArr rs)) opts w = (w', Inr r)"
    using questions_run_returns by blast
qed

theorem counts_add_up_to_input_length_witness:
  "answering memoryStore
   \<and> namedDocs memoryStore (store (initialWorld []))
   \<and> list_all (wellFormedQuestion \<lparr> skipExisting = True, dryRun = False \<rparr>)
        [JObj [(''question'', JStr ''What is the capital of France?''),
               (''answers'', JArr [JObj [(''id'', JStr ''A''), (''content'', JStr ''Paris'')]]),
               (''correctAnswer'', JArr [JStr ''A'']),
               (''topic'', JStr ''Geography''), (''tags'', JArr [JStr ''Europe''])],
         JObj [(''code'', JStr ''Q002'')]]
   \<and> list_all printableQuestion
        [JObj [(''question'', JStr ''What is the capital of France?''),
               (''answers'', JArr [JObj [(''id'', JStr ''A''), (''content'', JStr ''Paris'')]]),
               (''correctAnswer'', JArr [JStr ''A'']),
               (''topic'', JStr ''Geography''), (''tags'', JArr [JStr ''Europe''])],
         JObj [(''code'', JStr ''Q002'')]]
   \<and> (\<exists>w' r. importQuestions memoryStore exampleHost ''data/questions.json''
          (Parsed (JArr
            [JObj [(''question'', JStr ''What is the capital of France?''),
                   (''answers'', JArr [JObj [(''id'', JStr ''A''), (''content'', JStr ''Paris'')]]),
                   (''correctAnswer'', JArr [JStr ''A'']),
                   (''topic'', JStr ''Geography''), (''tags'', JArr [JStr ''Europe''])],
             JObj [(''code'', JStr ''Q002'')]]))
          \<lparr> skipExisting = True, dryRun = False \<rparr> (initialWorld []) = (w', Inr r)
        \<and> created r + skipped r + failed r = 2)"
proof -
  let ?rs = "[JObj [(''question'', JStr ''What is the capital of France?''),
                   (''answers'', JArr [JObj [(''id'', JStr ''A''), (''content'', JStr ''Paris'')]]),
                   (''correctAnswer'', JArr [JStr ''A'']),
                   (''topic'', JStr ''Geography''), (''tags'', JArr [JStr ''Europe''])],
             JObj [(''code'', JStr ''Q002'')]]"
  let ?opts = "\<lparr> skipExisting = True, dryRun = False \<rparr>"
  have n: "namedDocs memoryStore (store (initialWorld []))"
    by (simp add: namedDocs_def memoryStore_def initialWorld_def docsOf_def)
  have wf: "list_all (wellFormedQuestion ?opts) ?rs"
    by (simp add: wellFormedQuestion_def propOf_def objectPrototypeGet_def objectPrototypeNames_def)
  have pq: "list_all printableQuestion ?rs"
    by (simp add: printableQuestion_def propOf_def objectPrototypeGet_def objectPrototypeNames_def)
  note t = counts_add_up_to_input_length [of memoryStore exampleHost "''data/questions.json''"
      ?rs ?opts "initialWorld []"]
  from t answering_memoryStore n wf pq obtain w' r where
    run: "importQuestions memoryStore exampleHost ''data/questions.json'' (Parsed (JArr ?rs)) ?opts
            (initialWorld []) = (w', Inr r)"
    by blast
  with t have "created r + skipped r + failed r = length ?rs" by blast
  with run answering_memoryStore n wf pq show ?thesis by auto
qed

section \<open>Records that fail validation\<close>

lemma lacksRequired_iff: "readable q \<Longrightarrow> lacksRequired q = (\<not> validQuestion q)"
  by (auto simp: lacksRequired_def validQuestion_def emptyOrNoArray_iff)

lemma unprintable_truthy: "\<not> printable v \<Longrightarrow> truthy v"
  by (cases v) simp_all

lemma questionStep_invalid:
  assumes r: "readable q" and inv: "\<not> validQuestion q"
    and ok: "truthy (propOf q ''question'') \<longrightarrow> printable (propOf q ''code'')"
  shows "\<exists>w1. questionStep ops h opts tc gc i q p w = (w1, Inr (p\<lparr> failed := failed p + 1 \<rparr>))
            \<and> store w1 = store w \<and> calls w1 = calls w"
proof -
  consider "\<not> truthy (propOf q ''question'')"
    | "truthy (propOf q ''question'')" "emptyOrNoArray (propOf q ''answers'')"
    | "truthy (propOf q ''question'')" "\<not> emptyOrNoArray (propOf q ''answers'')"
      "emptyOrNoArray (propOf q ''correctAnswer'')"
    using r inv by (auto simp: validQuestion_def emptyOrNoArray_iff)
  then show ?thesis
  proof cases
    case 1
    then show ?thesis
      by (simp add: questionStep_def field_propOf [OF r] bind_def lift_def ret_def
          consoleError_def generateCode_def dateNow_def mathRandom36_def Let_def)
  next
    case 2
    with ok have "printable (propOf q ''code'')" by simp
    with 2 show ?thesis
      by (simp add: questionStep_def field_propOf [OF r] bind_def lift_def ret_def
          consoleError_def generateCode_def dateNow_def mathRandom36_def Let_def)
  next
    case 3
    with ok have "printable (propOf q ''code'')" by simp
    with 3 show ?thesis
      by (simp add: questionStep_def field_propOf [OF r] bind_def lift_def ret_def
          consoleError_def generateCode_def dateNow_def mathRandom36_def Let_def)
  qed
qed

lemma questionStep_invalid_throws:
  assumes r: "readable q" and inv: "\<not> validQuestion q"
    and qt: "truthy (propOf q ''question'')" and code: "\<not> printable (propOf q ''code'')"
  shows "questionStep ops h opts tc gc i q p w
           = (w, Inl (TypeError ''Cannot convert object to primitive value''))"
proof -
  from code have c: "truthy (propOf q ''code'')" by (rule unprintable_truthy)
  consider "emptyOrNoArray (propOf q ''answers'')"
    | "\<not> emptyOrNoArray (propOf q ''answers'')" "emptyOrNoArray (propOf q ''correctAnswer'')"
    using r inv qt by (auto simp: validQuestion_def emptyOrNoArray_iff)
  then show ?thesis
  proof cases
    case 1
    with qt code c show ?thesis
      by (simp add: questionStep_def field_propOf [OF r] bind_def lift_def ret_def
          consoleError_def)
  next
    case 2
    with qt code c show ?thesis
      by (simp add: questionStep_def field_propOf [OF r] bind_def lift_def ret_def
          consoleError_def)
  qed
qed

text \<open>
  A \<^verbatim>\<open>null\<close> in the place of a record is not handled by validation: reading its name
  throws, nothing is counted and the records after it are not processed.
\<close>

lemma null_record_throws:
  "topicsLoop memoryStore exampleHost \<lparr> skipExisting = True, dryRun = False \<rparr>
     [JNull, JObj [(''name'', JStr ''Math'')]] zeroCounts (initialWorld [])
   = (initialWorld [], Inl (TypeError ''Cannot read properties of null (reading name)''))"
  by (simp add: topicStep_def bind_def lift_def)

text \<open>
  C6 (as stated): every record that lacks a required field counts as failed, and the run
  goes on with the next record. The line that reports a question without answers
  interpolates the code of the record. Take a first record that has a question text, no
  answers, and as code an object with a property \<^verbatim>\<open>toString\<close>, followed by a complete
  record. The code does not convert to text, the \<^verbatim>\<open>TypeError\<close> leaves the loop, nothing
  is counted and the second record is never looked at.
\<close>

theorem unprintable_code_is_not_counted_counterexample:
  "lacksRequired (JObj [(''code'', JObj [(''toString'', JNum 0)]), (''question'', JStr ''Why?'')])
   \<and> questionsLoop memoryStore exampleHost \<lparr> skipExisting = True, dryRun = False \<rparr>
        emptyCache emptyCache 0
        [JObj [(''code'', JObj [(''toString'', JNum 0)]), (''question'', JStr ''Why?'')],
         JObj [(''code'', JStr ''Q002''), (''question'', JStr ''Where?''),
               (''answers'', JArr [JStr ''A'']), (''correctAnswer'', JArr [JStr ''A''])]]
        startProgress (initialWorld [])
      = (initialWorld [], Inl (TypeError ''Cannot convert object to primitive value''))"
  by (simp add: lacksRequired_def propOf_def questionStep_def emptyOrNoArray_def bind_def lift_def
      ret_def consoleError_def objectPrototypeGet_def objectPrototypeNames_def)

text \<open>
  C6 (amended): a record is a JSON value whose properties can be read (anything but
  \<^verbatim>\<open>null\<close>). For every topic or tag record without name, and for every question record
  that lacks a question text, a non-empty array of answers or a non-empty array of correct
  answers, the failed count is incremented by exactly one, the other counters stay, no
  request is sent to the store, and the loop continues with the next record; for a
  question whose text is present this holds when its code converts to text. When the
  code does not (it is an object with a property \<^verbatim>\<open>toString\<close>, or an array that holds
  one), the step throws a \<^verbatim>\<open>TypeError\<close> instead: nothing is counted, nothing is sent, and
  the loop ends there.
\<close>

theorem invalid_record_counts_as_failed:
  "(readable topic \<and> \<not> truthy (propOf topic ''name'') \<longrightarrow>
      topicsLoop ops h opts (topic # rest) c w =
        topicsLoop ops h opts rest (c\<lparr> failed := failed c + 1 \<rparr>)
          (w\<lparr> console := console w @ [ConsoleError ''Skipping entry without name'' []] \<rparr>))
   \<and> (readable tag \<and> \<not> truthy (propOf tag ''name'') \<longrightarrow>
      tagsLoop ops h opts (tag # rest) c w =
        tagsLoop ops h opts rest (c\<lparr> failed := failed c + 1 \<rparr>)
          (w\<lparr> console := console w @ [ConsoleError ''Skipping entry without name'' []] \<rparr>))
   \<and> (readable q \<and> lacksRequired q
        \<and> (truthy (propOf q ''question'') \<longrightarrow> printable (propOf q ''code'')) \<longrightarrow>
      (\<exists>w1. questionsLoop ops h opts tc gc i (q # rest) p w =
              questionsLoop ops h opts tc gc (i + 1) rest (p\<lparr> failed := failed p + 1 \<rparr>) w1
            \<and> store w1 = store w \<and> calls w1 = calls w))
   \<and> (readable q \<and> lacksRequired q
        \<and> truthy (propOf q ''question'') \<and> \<not> printable (propOf q ''code'') \<longrightarrow>
      questionsLoop ops h opts tc gc i (q # rest) p w
        = (w, Inl (TypeError ''Cannot convert object to primitive value'')))"
proof (intro conjI impI)
  assume "readable topic \<and> \<not> truthy (propOf topic ''name'')"
  then show "topicsLoop ops h opts (topic # rest) c w =
        topicsLoop ops h opts rest (c\<lparr> failed := failed c + 1 \<rparr>)
          (w\<lparr> console := console w @ [ConsoleError ''Skipping entry without name'' []] \<rparr>)"
    by (simp add: topicStep_def field_propOf bind_def lift_def ret_def consoleError_def)
next
  assume "readable tag \<and> \<not> truthy (propOf tag ''name'')"
  then show "tagsLoop ops h opts (tag # rest) c w =
        tagsLoop ops h opts rest (c\<lparr> failed := failed c + 1 \<rparr>)
          (w\<lparr> console := console w @ [ConsoleError ''Skipping entry without name'' []] \<rparr>)"
    by (simp add: tagStep_def field_propOf bind_def lift_def ret_def consoleError_def)
next
  assume a: "readable q \<and> lacksRequired q
        \<and> (truthy (propOf q ''question'') \<longrightarrow> printable (propOf q ''code''))"
  then have r: "readable q" by simp
  from a have "readable q" and "\<not> validQuestion q"
    and "truthy (propOf q ''question'') \<longrightarrow> printable (propOf q ''code'')"
    by (simp_all add: lacksRequired_iff [OF r])
  from questionStep_invalid [OF this] obtain w1 where
    "questionStep ops h opts tc gc i q p w = (w1, Inr (p\<lparr> failed := failed p + 1 \<rparr>))"
    "store w1 = store w" "calls w1 = calls w"
    by blast
  then show "\<exists>w1. questionsLoop ops h opts tc gc i (q # rest) p w =
              questionsLoop ops h opts tc gc (i + 1) rest (p\<lparr> failed := failed p + 1 \<rparr>) w1
            \<and> store w1 = store w \<and> calls w1 = calls w"
    by (auto simp: bind_def)
next
  assume a: "readable q \<and> lacksRequired q
        \<and> truthy (propOf q ''question'') \<and> \<not> printable (propOf q ''code'')"
  then have r: "readable q" by simp
  from a have "readable q" and "\<not> validQuestion q"
    and "truthy (propOf q ''question'')" and "\<not> printable (propOf q ''code'')"
    by (simp_all add: lacksRequired_iff [OF r])
  from questionStep_invalid_throws [OF this, of ops h opts tc gc i p w]
  show "questionsLoop ops h opts tc gc i (q # rest) p w
        = (w, Inl (TypeError ''Cannot convert object to primitive value''))"
    by (simp add: bind_def)
qed

theorem invalid_record_counts_as_failed_witness:
  "readable (JObj [(''description'', JStr ''no name'')])
   \<and> \<not> truthy (propOf (JObj [(''description'', JStr ''no name'')]) ''name'')
   \<and> topicsLoop memoryStore exampleHost \<lparr> skipExisting = True, dryRun = False \<rparr>
        [JObj [(''description'', JStr ''no name'')]] zeroCounts (initialWorld [])
      = (\<lparr> store = [], calls = [],
           console = [ConsoleError ''Skipping entry without name'' []], ticks = 0, draws = 0 \<rparr>,
         Inr \<lparr> created = 0, skipped = 0, failed = 1 \<rparr>)
   \<and> readable (JObj [(''code'', JStr ''Q001''), (''question'', JStr ''Why?''), (''answers'', JArr [])])
   \<and> lacksRequired (JObj [(''code'', JStr ''Q001''), (''question'', JStr ''Why?''), (''answers'', JArr [])])
   \<and> printable (propOf (JObj [(''code'', JStr ''Q001''), (''question'', JStr ''Why?''),
                               (''answers'', JArr [])]) ''code'')
   \<and> questionsLoop memoryStore exampleHost \<lparr> skipExisting = True, dryRun = False \<rparr>
        emptyCache emptyCache 0
        [JObj [(''code'', JStr ''Q001''), (''question'', JStr ''Why?''), (''answers'', JArr [])]]
        startProgress (initialWorld [])
      = (\<lparr> store = [], calls = [],
           console = [ConsoleError ''Skipping question: missing or invalid answers'' [JStr ''Q001'']],
           ticks = 0, draws = 0 \<rparr>,
         Inr \<lparr> created = 0, skipped = 0, failed = 1, missingTopics = [], missingTags = [] \<rparr>)"
proof -
  let ?opts = "\<lparr> skipExisting = True, dryRun = False \<rparr>"
  let ?topic = "JObj [(''description'', JStr ''no name'')]"
  let ?q = "JObj [(''code'', JStr ''Q001''), (''question'', JStr ''Why?''), (''answers'', JArr [])]"
  let ?w = "initialWorld [] :: memory world"
  note t = invalid_record_counts_as_failed [where topic = ?topic and ops = memoryStore
      and h = exampleHost and opts = ?opts and rest = "[]" and c = zeroCounts and w = ?w
      and q = ?q and tc = emptyCache and gc = emptyCache and i = 0 and p = startProgress]
  have nt: "readable ?topic" "\<not> truthy (propOf ?topic ''name'')"
    by (simp_all add: propOf_def objectPrototypeGet_def objectPrototypeNames_def)
  with t have "topicsLoop memoryStore exampleHost ?opts [?topic] zeroCounts ?w =
        topicsLoop memoryStore exampleHost ?opts [] (zeroCounts\<lparr> failed := failed zeroCounts + 1 \<rparr>)
          (?w\<lparr> console := console ?w @ [ConsoleError ''Skipping entry without name'' []] \<rparr>)"
    by blast
  then have topics: "topicsLoop memoryStore exampleHost ?opts [?topic] zeroCounts ?w
      = (\<lparr> store = [], calls = [],
           console = [ConsoleError ''Skipping entry without name'' []], ticks = 0, draws = 0 \<rparr>,
         Inr \<lparr> created = 0, skipped = 0, failed = 1 \<rparr>)"
    by (simp add: ret_def initialWorld_def zeroCounts_def)
  have nq: "readable ?q" "lacksRequired ?q" "printable (propOf ?q ''code'')"
    by (simp_all add: lacksRequired_def propOf_def)
  with t obtain w1 where
    "questionsLoop memoryStore exampleHost ?opts emptyCache emptyCache 0 [?q] startProgress ?w =
       questionsLoop memoryStore exampleHost ?opts emptyCache emptyCache (0 + 1) []
         (startProgress\<lparr> failed := failed startProgress + 1 \<rparr>) w1"
    by blast
  then have "snd (questionsLoop memoryStore exampleHost ?opts emptyCache emptyCache 0 [?q] startProgress ?w)
      = Inr \<lparr> created = 0, skipped = 0, failed = 1, missingTopics = [], missingTags = [] \<rparr>"
    by (simp add: ret_def startProgress_def)
  moreover have "fst (questionsLoop memoryStore exampleHost ?opts emptyCache emptyCache 0 [?q] startProgress ?w)
      = \<lparr> store = [], calls = [],
           console = [ConsoleError ''Skipping question: missing or invalid answers'' [JStr ''Q001'']],
           ticks = 0, draws = 0 \<rparr>"
    by (simp add: questionStep_def propOf_def emptyOrNoArray_def bind_def lift_def ret_def
        consoleError_def initialWorld_def)
  ultimately have questions:
    "questionsLoop memoryStore exampleHost ?opts emptyCache emptyCache 0 [?q] startProgress ?w
      = (\<lparr> store = [], calls = [],
           console = [ConsoleError ''Skipping question: missing or invalid answers'' [JStr ''Q001'']],
           ticks = 0, draws = 0 \<rparr>,
         Inr \<lparr> created = 0, skipped = 0, failed = 1, missingTopics = [], missingTags = [] \<rparr>)"
    by (simp add: prod_eq_iff)
  from nt topics nq questions show ?thesis by (intro conjI)
qed

section \<open>Existence of a tag\<close>

text \<open>
  C4: the existence check for a tag answers true exactly when the query by name or the
  query by slug finds something. So when the store answers each of the two equality
  queries with its tags that have that name, respectively that slug, the check is true
  if and only if some tag has the name \<open>n\<close> or some tag has the slug \<open>s\<close>; one of the two
  suffices, whatever the other field is.
\<close>

theorem tag_exists_iff_name_or_slug_matches:
  "(findMany ops (store w) QuestionTag (FilterEq ''name'' n) = Inr byName
      \<and> findMany ops (store w) QuestionTag (FilterEq ''slug'' s) = Inr bySlug
    \<longrightarrow> snd (checkExistingTag ops n s w) = Inr (byName \<noteq> [] \<or> bySlug \<noteq> []))
   \<and> (findMany ops (store w) QuestionTag (FilterEq ''name'' n)
          = Inr (filter (\<lambda>t. field t ''name'' = Inr n) tags)
      \<and> findMany ops (store w) QuestionTag (FilterEq ''slug'' s)
          = Inr (filter (\<lambda>t. field t ''slug'' = Inr s) tags)
    \<longrightarrow> snd (checkExistingTag ops n s w)
          = Inr ((\<exists>t \<in> set tags. field t ''name'' = Inr n) \<or> (\<exists>t \<in> set tags. field t ''slug'' = Inr s)))"
  by (auto simp: checkExistingTag_def bind_def storeFindMany_def ret_def filter_empty_conv)

theorem tag_exists_iff_name_or_slug_matches_witness:
  "snd (checkExistingTag memoryStore (JStr ''Simple'') (JStr ''easy'')
          (initialWorld [(QuestionTag, JObj [(''name'', JStr ''Easy''), (''slug'', JStr ''easy'')])]))
     = Inr True
   \<and> snd (checkExistingTag memoryStore (JStr ''Easy'') (JStr ''simple'')
          (initialWorld [(QuestionTag, JObj [(''name'', JStr ''Easy''), (''slug'', JStr ''easy'')])]))
     = Inr True
   \<and> snd (checkExistingTag memoryStore (JStr ''Simple'') (JStr ''simple'')
          (initialWorld [(QuestionTag, JObj [(''name'', JStr ''Easy''), (''slug'', JStr ''easy'')])]))
     = Inr False"
proof -
  let ?tags = "[JObj [(''name'', JStr ''Easy''), (''slug'', JStr ''easy'')]]"
  let ?w = "initialWorld [(QuestionTag, JObj [(''name'', JStr ''Easy''), (''slug'', JStr ''easy'')])]"
  have q: "findMany memoryStore (store ?w) QuestionTag (FilterEq f v)
             = Inr (filter (\<lambda>t. field t f = Inr v) ?tags)" for f v
    by (simp add: memoryStore_def initialWorld_def docsOf_def)
  from tag_exists_iff_name_or_slug_matches [of memoryStore ?w "JStr ''Simple''" _ "JStr ''easy''" _ ?tags] q
  have 1: "snd (checkExistingTag memoryStore (JStr ''Simple'') (JStr ''easy'') ?w) = Inr True"
    by simp
  from tag_exists_iff_name_or_slug_matches [of memoryStore ?w "JStr ''Easy''" _ "JStr ''simple''" _ ?tags] q
  have 2: "snd (checkExistingTag memoryStore (JStr ''Easy'') (JStr ''simple'') ?w) = Inr True"
    by simp
  from tag_exists_iff_name_or_slug_matches [of memoryStore ?w "JStr ''Simple''" _ "JStr ''simple''" _ ?tags] q
  have 3: "snd (checkExistingTag memoryStore (JStr ''Simple'') (JStr ''simple'') ?w) = Inr False"
    by simp
  from 1 2 3 show ?thesis by simp
qed

section \<open>Invariants of the world\<close>

lemma holds_log_gen:
  assumes "\<And>w l. I w \<Longrightarrow> I (w\<lparr> console := l \<rparr>)" and "P ()"
  shows "holds I (consoleLog t vs) P" and "holds I (consoleError t vs) P"
  using assms by (simp_all add: holds_def consoleLog_def consoleError_def)

lemma holds_host_gen:
  assumes "\<And>w n. I w \<Longrightarrow> I (w\<lparr> ticks := n \<rparr>)" and "\<And>w n. I w \<Longrightarrow> I (w\<lparr> draws := n \<rparr>)"
  shows "holds I (dateNow h) (\<lambda>t. True)" and "holds I (mathRandom36 h) (\<lambda>r. True)"
  using assms by (simp_all add: holds_def dateNow_def mathRandom36_def)

lemma holds_find_gen:
  assumes "\<And>w. I w \<Longrightarrow> I (w\<lparr> calls := calls w @ [FindMany k q] \<rparr>)"
    and "\<And>w docs. I w \<Longrightarrow> findMany ops (store w) k q = Inr docs \<Longrightarrow> P docs"
  shows "holds I (storeFindMany ops k q) P"
  using assms by (simp add: holds_def storeFindMany_def)


lemma holds_lift_eq: "holds I (lift r) (\<lambda>x. r = Inr x)"
  by (simp add: holds_def lift_def)

lemma holds_any_lift: "holds I (lift r) (\<lambda>x. True)"
  by (simp add: holds_def lift_def)

section \<open>Synthesised codes\<close>









lemma generateCode_result:
  "generateCode h i w =
     (w\<lparr> ticks := ticks w + 1, draws := draws w + 1 \<rparr>,
      Inr (''Q-'' @ toStringRadix 36 (now h (ticks w)) @ ''-''
             @ substring_2_6 (random36 h (draws w)) @ ''-'' @ toStringRadix 10 i))"
  by (simp add: generateCode_def bind_def dateNow_def mathRandom36_def ret_def Let_def)




lemma questionStep_without_code:
  assumes "readable q" and "validQuestion q" and "\<not> truthy (propOf q ''code'')"
  shows "questionStep ops h opts tc gc i q p w =
          linkAndCreate ops h opts tc gc q
            (JStr (''Q-'' @ toStringRadix 36 (now h (ticks w)) @ ''-''
                     @ substring_2_6 (random36 h (draws w)) @ ''-'' @ toStringRadix 10 i))
            p (w\<lparr> ticks := ticks w + 1, draws := draws w + 1 \<rparr>)"
  using assms(2,3)
  by (simp add: questionStep_def field_propOf [OF assms(1)] validQuestion_def emptyOrNoArray_iff bind_def lift_def
      ret_def generateCode_result)







section \<open>Records that exist already\<close>









section \<open>Dry runs\<close>

lemma untouched_frame:
  "untouched s cs w \<Longrightarrow> untouched s cs (w\<lparr> console := l \<rparr>)"
  "untouched s cs w \<Longrightarrow> untouched s cs (w\<lparr> ticks := n \<rparr>)"
  "untouched s cs w \<Longrightarrow> untouched s cs (w\<lparr> draws := n \<rparr>)"
  "untouched s cs w \<Longrightarrow> untouched s cs (w\<lparr> calls := calls w @ [FindMany k q] \<rparr>)"
  by (simp_all add: untouched_def creates_def)

lemma untouched_find:
  "holds (untouched s cs) (storeFindMany ops k q) (\<lambda>docs. findMany ops s k q = Inr docs)"
  by (rule holds_find_gen) (simp_all add: untouched_def creates_def)

lemma untouched_checkTopic:
  "holds (untouched s cs)
     (if skipExisting opts then checkExistingTopic ops name else ret False)
     (\<lambda>exists. exists = (skipExisting opts \<and> reportsMatch ops s QuestionTopic (FilterEq ''name'' name)))"
  unfolding checkExistingTopic_def
  by (intro holds_if holds_bind [OF untouched_find] holds_ret)
     (simp_all add: reportsMatch_def)

lemma untouched_checkTag:
  "holds (untouched s cs)
     (if skipExisting opts then checkExistingTag ops name slug else ret False)
     (\<lambda>exists. exists = (skipExisting opts
         \<and> (reportsMatch ops s QuestionTag (FilterEq ''name'' name)
            \<or> reportsMatch ops s QuestionTag (FilterEq ''slug'' slug))))"
  unfolding checkExistingTag_def
  by (intro holds_if holds_bind [OF untouched_find] holds_ret)
     (simp_all add: reportsMatch_def)

lemma untouched_checkQuestion:
  "holds (untouched s cs)
     (if skipExisting opts \<and> truthy code then checkExistingQuestion ops code else ret False)
     (\<lambda>exists. exists = (skipExisting opts \<and> truthy code
         \<and> reportsMatch ops s Question (FilterEq ''code'' code)))"
  unfolding checkExistingQuestion_def
  by (intro holds_if holds_bind [OF untouched_find] holds_ret)
     (auto simp: reportsMatch_def)

lemma holds_settle_slug:
  "holds I (if truthy given then ret given else lift (generateSlug name))
     (\<lambda>slug. (if truthy given then Inr given else generateSlug name) = Inr slug)"
  by (simp add: holds_def ret_def lift_def)

lemma topicStep_dry_count:
  assumes "dryRun opts"
  shows "holds (untouched s cs) (topicStep ops h opts topic c)
           (\<lambda>c'. created c' = created c + (if topicAccepted ops s opts topic then 1 else 0))"
  unfolding topicStep_def Let_def
  apply (intro holds_bind [OF holds_lift_eq] holds_bind [OF untouched_checkTopic] holds_if
      holds_bind [where R = "\<lambda>x. True"] holds_log_gen holds_ret)
  using assms
                apply (auto simp: untouched_frame topicAccepted_def validNamed_def
      dest!: field_Inr_readable)
  done

lemma tagStep_dry_count:
  assumes "dryRun opts"
  shows "holds (untouched s cs) (tagStep ops h opts tag c)
           (\<lambda>c'. created c' = created c + (if tagAccepted ops s opts tag then 1 else 0))"
  unfolding tagStep_def Let_def
  apply (intro holds_bind [OF holds_lift_eq] holds_bind [OF untouched_checkTag]
      holds_bind [OF holds_settle_slug] holds_if
      holds_bind [where R = "\<lambda>x. True"] holds_log_gen holds_ret)
  using assms
                apply (auto simp: untouched_frame tagAccepted_def validNamed_def slugOf_def
      dest!: field_Inr_readable split: if_splits)
  done

lemma untouched_generateCode: "holds (untouched s cs) (generateCode h i) (\<lambda>c. True)"
  unfolding generateCode_def Let_def
  by (intro holds_bind [where R = "\<lambda>x. True"] holds_host_gen holds_ret)
     (simp_all add: untouched_frame)

lemma linkAndCreate_dry:
  assumes "dryRun opts"
  shows "holds (untouched s cs) (linkAndCreate ops h opts tc gc q code p)
           (\<lambda>p'. created p' = created p + 1)"
  unfolding linkAndCreate_def Let_def
  apply (intro holds_bind [where R = "\<lambda>x. True"] holds_if holds_any_lift holds_log_gen holds_ret)
  using assms
                      apply (simp_all add: untouched_frame)
  done

lemma questionStep_dry_count:
  assumes "dryRun opts"
  shows "holds (untouched s cs) (questionStep ops h opts tc gc i q p)
           (\<lambda>p'. created p' = created p + (if questionAccepted ops s opts q then 1 else 0))"
  unfolding questionStep_def
  apply (intro holds_bind [OF holds_lift_eq] holds_bind [OF untouched_checkQuestion] holds_if
      holds_bind [where R = "\<lambda>x. True"] holds_log_gen holds_ret
      untouched_generateCode holds_weaken [OF linkAndCreate_dry [OF assms]])
                 apply (auto simp: untouched_frame questionAccepted_def validQuestion_def emptyOrNoArray_iff
      dest!: field_Inr_readable)
  done

lemma topicsLoop_dry_count:
  assumes "dryRun opts"
  shows "holds (untouched s cs) (topicsLoop ops h opts rs c)
           (\<lambda>c'. created c' = created c + length (filter (topicAccepted ops s opts) rs))"
proof (induction rs arbitrary: c)
  case Nil
  show ?case by (simp add: holds_ret)
next
  case (Cons r rs)
  show ?case
    unfolding topicsLoop.simps
    by (rule holds_bind [OF topicStep_dry_count [OF assms]])
       (rule holds_weaken [OF Cons.IH], simp)
qed

lemma tagsLoop_dry_count:
  assumes "dryRun opts"
  shows "holds (untouched s cs) (tagsLoop ops h opts rs c)
           (\<lambda>c'. created c' = created c + length (filter (tagAccepted ops s opts) rs))"
proof (induction rs arbitrary: c)
  case Nil
  show ?case by (simp add: holds_ret)
next
  case (Cons r rs)
  show ?case
    unfolding tagsLoop.simps
    by (rule holds_bind [OF tagStep_dry_count [OF assms]])
       (rule holds_weaken [OF Cons.IH], simp)
qed

lemma questionsLoop_dry_count:
  assumes "dryRun opts"
  shows "holds (untouched s cs) (questionsLoop ops h opts tc gc i rs p)
           (\<lambda>p'. created p' = created p + length (filter (questionAccepted ops s opts) rs))"
proof (induction rs arbitrary: p i)
  case Nil
  show ?case by (simp add: holds_ret)
next
  case (Cons r rs)
  show ?case
    unfolding questionsLoop.simps
    by (rule holds_bind [OF questionStep_dry_count [OF assms]])
       (rule holds_weaken [OF Cons.IH], simp)
qed

lemma topics_dry_run:
  assumes "dryRun opts"
  shows "holds (untouched s cs) (importQuestionTopics ops h f file opts)
           (\<lambda>r. \<forall>rs. file = Parsed (JArr rs)
                 \<longrightarrow> created r = length (filter (topicAccepted ops s opts) rs))"
proof (cases "file")
  case Missing
  then show ?thesis
    unfolding importQuestionTopics_def
    by (simp, intro holds_bind [where R = "\<lambda>x. True"] holds_log_gen holds_ret)
       (simp_all add: untouched_frame)
next
  case (Unparseable msg)
  then show ?thesis
    unfolding importQuestionTopics_def
    by (simp, intro holds_bind [where R = "\<lambda>x. True"] holds_log_gen holds_ret)
       (simp_all add: untouched_frame)
next
  case (Parsed v)
  show ?thesis
  proof (cases v)
    case (JArr rs)
    have "holds (untouched s cs)
            (bind (consoleLog ''Found question topic(s) to import: '' [JNum (of_nat (length rs))]) (\<lambda>_.
             bind (consoleLog (if dryRun opts then ''(Dry run mode - no changes will be made)'' else []) []) (\<lambda>_.
             topicsLoop ops h opts rs zeroCounts)))
            (\<lambda>r. created r = length (filter (topicAccepted ops s opts) rs))"
      apply (rule holds_bind [where R = "\<lambda>x. True"], rule holds_log_gen, simp add: untouched_frame, simp)
      apply (rule holds_bind [where R = "\<lambda>x. True"], rule holds_log_gen, simp add: untouched_frame, simp)
      apply (rule holds_weaken [OF topicsLoop_dry_count [OF assms]])
      apply (simp add: zeroCounts_def)
      done
    with Parsed JArr show ?thesis
      by (simp add: importQuestionTopics_def split del: if_split)
  qed (use Parsed in \<open>simp_all add: importQuestionTopics_def,
        (intro holds_bind [where R = "\<lambda>x. True"] holds_log_gen holds_ret; simp add: untouched_frame)+\<close>)
qed

lemma tags_dry_run:
  assumes "dryRun opts"
  shows "holds (untouched s cs) (importQuestionTags ops h f file opts)
           (\<lambda>r. \<forall>rs. file = Parsed (JArr rs)
                 \<longrightarrow> created r = length (filter (tagAccepted ops s opts) rs))"
proof (cases "file")
  case Missing
  then show ?thesis
    unfolding importQuestionTags_def
    by (simp, intro holds_bind [where R = "\<lambda>x. True"] holds_log_gen holds_ret)
       (simp_all add: untouched_frame)
next
  case (Unparseable msg)
  then show ?thesis
    unfolding importQuestionTags_def
    by (simp, intro holds_bind [where R = "\<lambda>x. True"] holds_log_gen holds_ret)
       (simp_all add: untouched_frame)
next
  case (Parsed v)
  show ?thesis
  proof (cases v)
    case (JArr rs)
    have "holds (untouched s cs)
            (bind (consoleLog ''Found question tag(s) to import: '' [JNum (of_nat (length rs))]) (\<lambda>_.
             bind (consoleLog (if dryRun opts then ''(Dry run mode - no changes will be made)'' else []) []) (\<lambda>_.
             tagsLoop ops h opts rs zeroCounts)))
            (\<lambda>r. created r = length (filter (tagAccepted ops s opts) rs))"
      apply (rule holds_bind [where R = "\<lambda>x. True"], rule holds_log_gen, simp add: untouched_frame, simp)
      apply (rule holds_bind [where R = "\<lambda>x. True"], rule holds_log_gen, simp add: untouched_frame, simp)
      apply (rule holds_weaken [OF tagsLoop_dry_count [OF assms]])
      apply (simp add: zeroCounts_def)
      done
    with Parsed JArr show ?thesis
      by (simp add: importQuestionTags_def split del: if_split)
  qed (use Parsed in \<open>simp_all add: importQuestionTags_def,
        (intro holds_bind [where R = "\<lambda>x. True"] holds_log_gen holds_ret; simp add: untouched_frame)+\<close>)
qed

lemma untouched_loadCache:
  "holds (untouched s cs) (loadTopicsCache ops) (\<lambda>c. True)"
  "holds (untouched s cs) (loadTagsCache ops) (\<lambda>c. True)"
  unfolding loadTopicsCache_def loadTagsCache_def
  by (intro holds_bind [where R = "\<lambda>x. True"] holds_find_gen holds_any_lift holds_log_gen
        holds_ret; simp add: untouched_frame)+

lemma untouched_reportMissing:
  "holds (untouched s cs) (reportMissing p) (\<lambda>r. created r = created p)"
  unfolding reportMissing_def
  by (intro holds_bind [where R = "\<lambda>x. True"] holds_if holds_log_gen holds_ret)
     (simp_all add: untouched_frame)

lemma questions_dry_run:
  assumes "dryRun opts"
  shows "holds (untouched s cs) (importQuestions ops h f file opts)
           (\<lambda>r. \<forall>rs. file = Parsed (JArr rs)
                 \<longrightarrow> created r = length (filter (questionAccepted ops s opts) rs))"
proof (cases "file")
  case Missing
  then show ?thesis
    unfolding importQuestions_def
    by (simp, intro holds_bind [where R = "\<lambda>x. True"] holds_log_gen holds_ret)
       (simp_all add: untouched_frame)
next
  case (Unparseable msg)
  then show ?thesis
    unfolding importQuestions_def
    by (simp, intro holds_bind [where R = "\<lambda>x. True"] holds_log_gen holds_ret)
       (simp_all add: untouched_frame)
next
  case (Parsed v)
  show ?thesis
  proof (cases v)
    case (JArr rs)
    have "holds (untouched s cs)
            (bind (loadTopicsCache ops) (\<lambda>topicsCache.
             bind (loadTagsCache ops) (\<lambda>tagsCache.
             bind (consoleLog ''Found question(s) to import: '' [JNum (of_nat (length rs))]) (\<lambda>_.
             bind (consoleLog (if dryRun opts then ''(Dry run mode - no changes will be made)'' else []) []) (\<lambda>_.
             bind (questionsLoop ops h opts topicsCache tagsCache 0 rs startProgress) (\<lambda>p.
             reportMissing p))))))
            (\<lambda>r. created r = length (filter (questionAccepted ops s opts) rs))"
      apply (rule holds_bind [OF untouched_loadCache(1)])
      apply (rule holds_bind [OF untouched_loadCache(2)])
      apply (rule holds_bind [where R = "\<lambda>x. True"], rule holds_log_gen, simp add: untouched_frame, simp)
      apply (rule holds_bind [where R = "\<lambda>x. True"], rule holds_log_gen, simp add: untouched_frame, simp)
      apply (rule holds_bind [OF questionsLoop_dry_count [OF assms]])
      apply (rule holds_weaken [OF untouched_reportMissing])
      apply (simp add: startProgress_def)
      done
    with Parsed JArr show ?thesis
      by (simp add: importQuestions_def split del: if_split)
  qed (use Parsed in \<open>simp_all add: importQuestions_def,
        (intro holds_bind [where R = "\<lambda>x. True"] holds_log_gen holds_ret; simp add: untouched_frame)+\<close>)
qed

text \<open>
  C2 (as stated): the created count of a dry run is the number of records a real run
  would have created. Take a file that names the topic Math twice and an empty store,
  with existing records to be skipped. The dry run counts both records as created; the
  real run creates the first and then skips the second, because the store now reports
  the first.
\<close>

theorem dry_run_overcounts_counterexample:
  "snd (importQuestionTopics memoryStore exampleHost ''data/question-topics.json''
          (Parsed (JArr [JObj [(''name'', JStr ''Math'')], JObj [(''name'', JStr ''Math'')]]))
          \<lparr> skipExisting = True, dryRun = True \<rparr> (initialWorld []))
     = Inr \<lparr> created = 2, skipped = 0, failed = 0 \<rparr>
   \<and> snd (importQuestionTopics memoryStore exampleHost ''data/question-topics.json''
          (Parsed (JArr [JObj [(''name'', JStr ''Math'')], JObj [(''name'', JStr ''Math'')]]))
          \<lparr> skipExisting = True, dryRun = False \<rparr> (initialWorld []))
     = Inr \<lparr> created = 1, skipped = 1, failed = 0 \<rparr>"
  by (simp add: importQuestionTopics_def topicStep_def checkExistingTopic_def
      createQuestionTopic_def tryCatch_def storeFindMany_def storeCreate_def dateNow_def
      bind_def consoleLog_def lift_def ret_def initialWorld_def zeroCounts_def
      memoryStore_def memoryCreate_def docsOf_def withPublishedAt_def entryProp_def
      convertDescriptionToBlocks_def objectPrototypeGet_def objectPrototypeNames_def
      exampleHost_def Let_def)

text \<open>
  C2 (amended): in a dry run, whatever \<open>skipExisting\<close> and the input are, and whether the
  run returns or throws, no create request is sent and the store stays as it is. The
  created count that a dry run returns is the number of records that pass validation and
  that the store, as it is, does not report as existing (all valid records when existing
  records are not to be skipped). A real run can create fewer: a create request can fail,
  and a record created earlier in the same run can make a later one a duplicate.
\<close>

theorem dry_run_sends_no_create:
  "dryRun opts \<longrightarrow>
     (\<forall>w' r. importQuestionTopics ops h f file opts w = (w', r) \<longrightarrow>
        creates w' = creates w \<and> store w' = store w
        \<and> (\<forall>res rs. r = Inr res \<and> file = Parsed (JArr rs)
              \<longrightarrow> created res = length (filter (topicAccepted ops (store w) opts) rs)))
     \<and> (\<forall>w' r. importQuestionTags ops h f file opts w = (w', r) \<longrightarrow>
        creates w' = creates w \<and> store w' = store w
        \<and> (\<forall>res rs. r = Inr res \<and> file = Parsed (JArr rs)
              \<longrightarrow> created res = length (filter (tagAccepted ops (store w) opts) rs)))
     \<and> (\<forall>w' r. importQuestions ops h f file opts w = (w', r) \<longrightarrow>
        creates w' = creates w \<and> store w' = store w
        \<and> (\<forall>res rs. r = Inr res \<and> file = Parsed (JArr rs)
              \<longrightarrow> created res = length (filter (questionAccepted ops (store w) opts) rs)))"
proof (intro impI conjI allI)
  assume dry: "dryRun opts"
  have u: "untouched (store w) (creates w) w" by (simp add: untouched_def)
  {
    fix w' r
    assume run: "importQuestionTopics ops h f file opts w = (w', r)"
    from holdsD(1) [OF topics_dry_run [OF dry] u run]
    show "creates w' = creates w" and "store w' = store w" by (simp_all add: untouched_def)
    fix res rs
    assume "r = Inr res \<and> file = Parsed (JArr rs)"
    with holdsD(2) [OF topics_dry_run [OF dry] u run]
    show "created res = length (filter (topicAccepted ops (store w) opts) rs)" by blast
  }
  {
    fix w' r
    assume run: "importQuestionTags ops h f file opts w = (w', r)"
    from holdsD(1) [OF tags_dry_run [OF dry] u run]
    show "creates w' = creates w" and "store w' = store w" by (simp_all add: untouched_def)
    fix res rs
    assume "r = Inr res \<and> file = Parsed (JArr rs)"
    with holdsD(2) [OF tags_dry_run [OF dry] u run]
    show "created res = length (filter (tagAccepted ops (store w) opts) rs)" by blast
  }
  {
    fix w' r
    assume run: "importQuestions ops h f file opts w = (w', r)"
    from holdsD(1) [OF questions_dry_run [OF dry] u run]
    show "creates w' = creates w" and "store w' = store w" by (simp_all add: untouched_def)
    fix res rs
    assume "r = Inr res \<and> file = Parsed (JArr rs)"
    with holdsD(2) [OF questions_dry_run [OF dry] u run]
    show "created res = length (filter (questionAccepted ops (store w) opts) rs)" by blast
  }
qed

theorem dry_run_sends_no_create_witness:
  "dryRun \<lparr> skipExisting = True, dryRun = True \<rparr>
   \<and> (\<exists>w' res.
        importQuestionTopics memoryStore exampleHost ''data/question-topics.json''
          (Parsed (JArr [JObj [(''name'', JStr ''Math'')], JObj [(''name'', JStr ''Science'')],
                         JObj [(''description'', JStr ''nameless'')]]))
          \<lparr> skipExisting = True, dryRun = True \<rparr>
          (initialWorld [(QuestionTopic, JObj [(''name'', JStr ''Math'')])]) = (w', Inr res)
        \<and> creates w' = []
        \<and> store w' = [(QuestionTopic, JObj [(''name'', JStr ''Math'')])]
        \<and> created res = 1)"
proof -
  let ?rs = "[JObj [(''name'', JStr ''Math'')], JObj [(''name'', JStr ''Science'')],
              JObj [(''description'', JStr ''nameless'')]]"
  let ?opts = "\<lparr> skipExisting = True, dryRun = True \<rparr>"
  let ?w = "initialWorld [(QuestionTopic, JObj [(''name'', JStr ''Math'')])]"
  have "list_all readable ?rs" by simp
  moreover have "list_all printableTopic ?rs"
    by (simp add: printableTopic_def propOf_def objectPrototypeGet_def objectPrototypeNames_def)
  ultimately obtain w' res where
    run: "importQuestionTopics memoryStore exampleHost ''data/question-topics.json''
            (Parsed (JArr ?rs)) ?opts ?w = (w', Inr res)"
    using topics_run_returns [OF answering_memoryStore] by blast
  have dry: "dryRun ?opts" by simp
  have n: "length (filter (topicAccepted memoryStore (store ?w) ?opts) ?rs) = 1"
    by (simp add: topicAccepted_def validNamed_def reportsMatch_def propOf_def memoryStore_def
        initialWorld_def docsOf_def objectPrototypeGet_def objectPrototypeNames_def)
  note t = dry_run_sends_no_create [of ?opts memoryStore exampleHost "''data/question-topics.json''"
      "Parsed (JArr ?rs)" ?w, rule_format, OF dry]
  from t [THEN conjunct1, rule_format, OF run]
  have "creates w' = creates ?w" and "store w' = store ?w"
    and c: "\<And>res' rs. Inr res = Inr res' \<and> Parsed (JArr ?rs) = Parsed (JArr rs)
            \<Longrightarrow> created res' = length (filter (topicAccepted memoryStore (store ?w) ?opts) rs)"
    by blast+
  from c [of res ?rs]
  have "created res = length (filter (topicAccepted memoryStore (store ?w) ?opts) ?rs)"
    by simp
  with n \<open>creates w' = creates ?w\<close> \<open>store w' = store ?w\<close>
  have "creates w' = []" and "store w' = [(QuestionTopic, JObj [(''name'', JStr ''Math'')])]"
    and "created res = 1"
    by (simp_all add: creates_def initialWorld_def)
  with run dry show ?thesis by blast
qed

section \<open>The caches\<close>

lemma callToLowerCase_Inr: "callToLowerCase v = Inr k \<Longrightarrow> \<exists>n. v = JStr n \<and> k = toLowerCase n"
  by (cases v) simp_all

lemma named_is_object: "field e ''name'' = Inr (JStr n) \<Longrightarrow> \<exists>kvs. e = JObj kvs"
  by (cases e) simp_all

lemma cacheSet_own:
  "map_of (own (cacheSet c k v)) k' =
     (if k = ''__proto__'' then map_of (own c) k'
      else if k' = k then Some v else map_of (own c) k')"
  by (simp add: cacheSet_def update_conv')

text \<open>Every entry sits under the lowercased name of its document, and no entry has the
  key \<^verbatim>\<open>__proto__\<close>.\<close>

lemma fillCache_keys:
  assumes "fillCache docs c0 = Inr c"
    and "\<forall>k e. map_of (own c0) k = Some e
           \<longrightarrow> k \<noteq> ''__proto__'' \<and> (\<exists>n. field e ''name'' = Inr (JStr n) \<and> k = toLowerCase n)"
  shows "\<forall>k e. map_of (own c) k = Some e
           \<longrightarrow> k \<noteq> ''__proto__'' \<and> (\<exists>n. field e ''name'' = Inr (JStr n) \<and> k = toLowerCase n)"
  using assms
proof (induction docs arbitrary: c0)
  case Nil
  then show ?case by simp
next
  case (Cons d docs)
  from Cons.prems(1) obtain name key where
    n: "field d ''name'' = Inr name" and k: "callToLowerCase name = Inr key"
    and rest: "fillCache docs (cacheSet c0 key d) = Inr c"
    by (auto split: sum.splits)
  from callToLowerCase_Inr [OF k] obtain s where s: "name = JStr s" "key = toLowerCase s"
    by blast
  have "\<forall>k e. map_of (own (cacheSet c0 key d)) k = Some e
           \<longrightarrow> k \<noteq> ''__proto__'' \<and> (\<exists>n. field e ''name'' = Inr (JStr n) \<and> k = toLowerCase n)"
    using Cons.prems(2) n s by (auto simp: cacheSet_own split: if_splits)
  from Cons.IH [OF rest this] show ?case .
qed

text \<open>Loading leaves no document out: each has a string as name, and its key is in the
  cache (a document called \<^verbatim>\<open>__proto__\<close> becomes the prototype instead).\<close>

lemma fillCache_complete:
  assumes "fillCache docs c0 = Inr c"
  shows "(\<forall>d \<in> set docs. \<exists>n. field d ''name'' = Inr (JStr n)
            \<and> (toLowerCase n \<noteq> ''__proto__'' \<longrightarrow> map_of (own c) (toLowerCase n) \<noteq> None))
         \<and> (\<forall>k. map_of (own c0) k \<noteq> None \<longrightarrow> map_of (own c) k \<noteq> None)"
  using assms
proof (induction docs arbitrary: c0)
  case Nil
  then show ?case by simp
next
  case (Cons d docs)
  from Cons.prems(1) obtain name key where
    n: "field d ''name'' = Inr name" and k: "callToLowerCase name = Inr key"
    and rest: "fillCache docs (cacheSet c0 key d) = Inr c"
    by (auto split: sum.splits)
  from callToLowerCase_Inr [OF k] obtain s where s: "name = JStr s" "key = toLowerCase s"
    by blast
  note ih = Cons.IH [OF rest]
  have here: "toLowerCase s \<noteq> ''__proto__'' \<longrightarrow> map_of (own c) (toLowerCase s) \<noteq> None"
    using ih s by (simp add: cacheSet_own)
  have kept: "\<forall>k. map_of (own c0) k \<noteq> None \<longrightarrow> map_of (own c) k \<noteq> None"
    using ih by (simp add: cacheSet_own)
  from ih n s here kept show ?case by auto
qed

lemma cached_lookup:
  assumes "map_of (own c) k = Some e" and "field e ''name'' = Inr (JStr n)"
  shows "cacheGet c k = e" and "truthy e"
  using assms named_is_object [OF assms(2)] by (auto simp: cacheGet_def)

lemma small_of_capital:
  assumes "capital c" and "of_char d = of_char c + (32 :: nat)"
  shows "lowerChar c = d" and "lowerChar d = d"
proof -
  from assms(2) have "char_of (of_char c + (32 :: nat)) = char_of (of_char d :: nat)" by simp
  then have d: "char_of (of_char c + (32 :: nat)) = d" by simp
  from assms(1) d show "lowerChar c = d"
    by (auto simp: lowerChar_def capital_def Let_def)
  from assms show "lowerChar d = d"
    by (auto simp: lowerChar_def capital_def Let_def)
qed

lemma sameLetter_lowerChar: "sameLetter c d \<Longrightarrow> lowerChar c = lowerChar d"
  unfolding sameLetter_def
  by (elim disjE conjE) (simp_all add: small_of_capital)

text \<open>Case variants have the same lowercased form.\<close>

lemma caseVariant_toLowerCase: "caseVariant m n \<Longrightarrow> toLowerCase m = toLowerCase n"
  unfolding caseVariant_def toLowerCase_def
  by (induction rule: list_all2_induct) (simp_all add: sameLetter_lowerChar)

text \<open>
  C8 (as stated): every name that differs from the name of a cached entity only in letter
  case resolves to that entity. The two sides are compared after \<^verbatim>\<open>toLowerCase\<close>, and
  that is not the same thing. The German word for street is \<^verbatim>\<open>STRASSE\<close> in capitals and
  is written with a sharp s (code unit \<open>0xDF\<close>) in small letters; upper-casing the
  second spelling gives the first. With the topic \<^verbatim>\<open>STRASSE\<close> cached (under the key
  \<^verbatim>\<open>strasse\<close>), the spelling with the sharp s is looked up under itself and finds
  nothing, neither as a topic nor as a tag.
\<close>

theorem sharp_s_is_not_matched_counterexample:
  "fillCache [JObj [(''name'', JStr ''STRASSE''), (''documentId'', JStr ''t1'')]] emptyCache
     = Inr \<lparr> own = [(''strasse'', JObj [(''name'', JStr ''STRASSE''), (''documentId'', JStr ''t1'')])],
             proto = None \<rparr>
   \<and> findTopicByName
        \<lparr> own = [(''strasse'', JObj [(''name'', JStr ''STRASSE''), (''documentId'', JStr ''t1'')])],
          proto = None \<rparr> (JStr (''stra'' @ [CHR 0xDF] @ ''e''))
     = Inr JNull
   \<and> findTagsByNames
        \<lparr> own = [(''strasse'', JObj [(''name'', JStr ''STRASSE''), (''documentId'', JStr ''t1'')])],
          proto = None \<rparr> (JArr [JStr (''stra'' @ [CHR 0xDF] @ ''e'')])
     = Inr []"
proof -
  have low1: "toLowerCase ''STRASSE'' = ''strasse''" by code_simp
  have low2: "toLowerCase (''stra'' @ [CHR 0xDF] @ ''e'') = ''stra'' @ [CHR 0xDF] @ ''e''"
    by code_simp
  have differ: "''stra'' @ [CHR 0xDF] @ ''e'' \<noteq> ''strasse''" by simp
  have inherited: "''stra'' @ [CHR 0xDF] @ ''e'' \<noteq> ''__proto__''"
    "''stra'' @ [CHR 0xDF] @ ''e'' \<notin> set objectPrototypeNames"
    by (simp_all add: objectPrototypeNames_def)
  show ?thesis
    using differ inherited
    by (simp add: low1 low2 cacheSet_def emptyCache_def findTopicByName_def findTagsByNames_def
        cacheGet_def objectPrototypeGet_def orElse_def del: append.simps)
qed

text \<open>
  C8 (amended): the question import lists all published topics and all published tags and
  fills the two caches from the complete lists before it looks at the first record. Every
  entry of a cache sits under the lowercased name of its document, no listed document is
  left out, and a lookup lowercases the name it is given. So a name finds the cached
  document whose name has the same lowercased form, as a topic and as a tag; in
  particular a name that is a case variant of the cached name, letter by letter, finds
  it. A name with another lowercased form that is no entry and no inherited property
  finds nothing.
  (A document called \<^verbatim>\<open>__proto__\<close> is no entry: the assignment makes it the prototype of
  the cache object, where the lookup of that name still finds it.)
\<close>

theorem cache_lookup_by_lowercased_name:
  "(findMany ops (store w) QuestionTopic StatusPublished = Inr topics
      \<and> fillCache topics emptyCache = Inr tc
      \<and> findMany ops (store w) QuestionTag StatusPublished = Inr tags
      \<and> fillCache tags emptyCache = Inr gc
    \<longrightarrow> importQuestions ops h f (Parsed (JArr qs)) opts w =
          bind (questionsLoop ops h opts tc gc 0 qs startProgress) reportMissing
            (w\<lparr> calls := calls w @ [FindMany QuestionTopic StatusPublished,
                                     FindMany QuestionTag StatusPublished],
                console := console w @
                  [ConsoleLog ''Loaded topic(s) into cache: '' [JNum (of_nat (length (own tc)))],
                   ConsoleLog ''Loaded tag(s) into cache: '' [JNum (of_nat (length (own gc)))],
                   ConsoleLog ''Found question(s) to import: '' [JNum (of_nat (length qs))],
                   ConsoleLog (if dryRun opts then ''(Dry run mode - no changes will be made)''
                               else []) []] \<rparr>))
   \<and> (fillCache docs emptyCache = Inr c \<longrightarrow>
        (\<forall>k e. map_of (own c) k = Some e
            \<longrightarrow> (\<exists>n. field e ''name'' = Inr (JStr n) \<and> k = toLowerCase n))
        \<and> (\<forall>d \<in> set docs. \<exists>n. field d ''name'' = Inr (JStr n)
              \<and> (toLowerCase n \<noteq> ''__proto__'' \<longrightarrow> map_of (own c) (toLowerCase n) \<noteq> None))
        \<and> (\<forall>k e n m. map_of (own c) k = Some e \<and> field e ''name'' = Inr (JStr n)
              \<and> (toLowerCase m = toLowerCase n \<or> caseVariant m n)
            \<longrightarrow> (m \<noteq> [] \<longrightarrow> findTopicByName c (JStr m) = Inr e)
                \<and> findTagsByNames c (JArr [JStr m]) = Inr [e])
        \<and> (\<forall>m. map_of (own c) (toLowerCase m) = None \<and> proto c = None
              \<and> toLowerCase m \<noteq> ''__proto__'' \<and> toLowerCase m \<notin> set objectPrototypeNames
            \<longrightarrow> findTopicByName c (JStr m) = Inr JNull
                \<and> findTagsByNames c (JArr [JStr m]) = Inr [])
        \<and> (\<forall>kvs. proto c = Some (JObj kvs) \<and> map_of kvs ''__proto__'' = None
            \<longrightarrow> findTopicByName c (JStr ''__proto__'') = Inr (JObj kvs)
                \<and> findTagsByNames c (JArr [JStr ''__proto__'']) = Inr [JObj kvs]))"
proof (intro conjI impI)
  assume "findMany ops (store w) QuestionTopic StatusPublished = Inr topics
      \<and> fillCache topics emptyCache = Inr tc
      \<and> findMany ops (store w) QuestionTag StatusPublished = Inr tags
      \<and> fillCache tags emptyCache = Inr gc"
  then show "importQuestions ops h f (Parsed (JArr qs)) opts w =
          bind (questionsLoop ops h opts tc gc 0 qs startProgress) reportMissing
            (w\<lparr> calls := calls w @ [FindMany QuestionTopic StatusPublished,
                                     FindMany QuestionTag StatusPublished],
                console := console w @
                  [ConsoleLog ''Loaded topic(s) into cache: '' [JNum (of_nat (length (own tc)))],
                   ConsoleLog ''Loaded tag(s) into cache: '' [JNum (of_nat (length (own gc)))],
                   ConsoleLog ''Found question(s) to import: '' [JNum (of_nat (length qs))],
                   ConsoleLog (if dryRun opts then ''(Dry run mode - no changes will be made)''
                               else []) []] \<rparr>)"
    by (simp add: importQuestions_def loadTopicsCache_def loadTagsCache_def storeFindMany_def
        consoleLog_def lift_def ret_def
        bind_def [of "storeFindMany a b c" for a b c] bind_def [of "lift a" for a]
        bind_def [of "consoleLog a b" for a b] bind_def [of "bind (storeFindMany a b c) g" for a b c g]
        bind_def [of "(\<lambda>w. x w)" for x]
        split del: if_split)
next
  assume fill: "fillCache docs emptyCache = Inr c"
  have keys: "\<forall>k e. map_of (own c) k = Some e
           \<longrightarrow> k \<noteq> ''__proto__'' \<and> (\<exists>n. field e ''name'' = Inr (JStr n) \<and> k = toLowerCase n)"
    by (rule fillCache_keys [OF fill]) (simp add: emptyCache_def)
  then show "\<forall>k e. map_of (own c) k = Some e
            \<longrightarrow> (\<exists>n. field e ''name'' = Inr (JStr n) \<and> k = toLowerCase n)"
    by blast
  from fillCache_complete [OF fill]
  show "\<forall>d \<in> set docs. \<exists>n. field d ''name'' = Inr (JStr n)
              \<and> (toLowerCase n \<noteq> ''__proto__'' \<longrightarrow> map_of (own c) (toLowerCase n) \<noteq> None)"
    by blast
  show "\<forall>k e n m. map_of (own c) k = Some e \<and> field e ''name'' = Inr (JStr n)
              \<and> (toLowerCase m = toLowerCase n \<or> caseVariant m n)
            \<longrightarrow> (m \<noteq> [] \<longrightarrow> findTopicByName c (JStr m) = Inr e)
                \<and> findTagsByNames c (JArr [JStr m]) = Inr [e]"
  proof (intro allI impI)
    fix k e n m
    assume a: "map_of (own c) k = Some e \<and> field e ''name'' = Inr (JStr n)
              \<and> (toLowerCase m = toLowerCase n \<or> caseVariant m n)"
    then have own: "map_of (own c) k = Some e" and name: "field e ''name'' = Inr (JStr n)"
      by simp_all
    from a have same: "toLowerCase m = toLowerCase n"
      by (auto dest: caseVariant_toLowerCase)
    from keys own name have "k = toLowerCase n" by fastforce
    with same have k: "k = toLowerCase m" by simp
    from cached_lookup [OF own name] k have "cacheGet c (toLowerCase m) = e" "truthy e"
      by simp_all
    then show "(m \<noteq> [] \<longrightarrow> findTopicByName c (JStr m) = Inr e)
                \<and> findTagsByNames c (JArr [JStr m]) = Inr [e]"
      by (simp add: findTopicByName_def findTagsByNames_def orElse_def)
  qed
  show "\<forall>m. map_of (own c) (toLowerCase m) = None \<and> proto c = None
              \<and> toLowerCase m \<noteq> ''__proto__'' \<and> toLowerCase m \<notin> set objectPrototypeNames
            \<longrightarrow> findTopicByName c (JStr m) = Inr JNull
                \<and> findTagsByNames c (JArr [JStr m]) = Inr []"
    by (simp add: findTopicByName_def findTagsByNames_def cacheGet_def objectPrototypeGet_def
        orElse_def)
  show "\<forall>kvs. proto c = Some (JObj kvs) \<and> map_of kvs ''__proto__'' = None
            \<longrightarrow> findTopicByName c (JStr ''__proto__'') = Inr (JObj kvs)
                \<and> findTagsByNames c (JArr [JStr ''__proto__'']) = Inr [JObj kvs]"
  proof (intro allI impI)
    fix kvs
    assume a: "proto c = Some (JObj kvs) \<and> map_of kvs ''__proto__'' = None"
    from keys have "map_of (own c) ''__proto__'' = None"
      by (cases "map_of (own c) ''__proto__''") auto
    moreover have "toLowerCase ''__proto__'' = ''__proto__''"
      by (simp add: toLowerCase_def lowerChar_def)
    ultimately have "cacheGet c (toLowerCase ''__proto__'') = JObj kvs"
      using a by (simp add: cacheGet_def)
    then show "findTopicByName c (JStr ''__proto__'') = Inr (JObj kvs)
                \<and> findTagsByNames c (JArr [JStr ''__proto__'']) = Inr [JObj kvs]"
      by (simp add: findTopicByName_def findTagsByNames_def orElse_def)
  qed
qed

theorem cache_lookup_by_lowercased_name_witness:
  "fillCache [JObj [(''name'', JStr ''Geography''), (''documentId'', JStr ''t1'')]] emptyCache
     = Inr \<lparr> own = [(''geography'', JObj [(''name'', JStr ''Geography''), (''documentId'', JStr ''t1'')])],
             proto = None \<rparr>
   \<and> caseVariant ''GEOgraphy'' ''Geography''
   \<and> findTopicByName
        \<lparr> own = [(''geography'', JObj [(''name'', JStr ''Geography''), (''documentId'', JStr ''t1'')])],
          proto = None \<rparr> (JStr ''GEOgraphy'')
     = Inr (JObj [(''name'', JStr ''Geography''), (''documentId'', JStr ''t1'')])
   \<and> findTagsByNames
        \<lparr> own = [(''geography'', JObj [(''name'', JStr ''Geography''), (''documentId'', JStr ''t1'')])],
          proto = None \<rparr> (JArr [JStr ''GEOgraphy''])
     = Inr [JObj [(''name'', JStr ''Geography''), (''documentId'', JStr ''t1'')]]"
proof -
  let ?doc = "JObj [(''name'', JStr ''Geography''), (''documentId'', JStr ''t1'')]"
  let ?c = "\<lparr> own = [(''geography'', ?doc)], proto = None \<rparr>"
  have low: "toLowerCase ''Geography'' = ''geography''" by code_simp
  have variant: "caseVariant ''GEOgraphy'' ''Geography''" by code_simp
  have fill: "fillCache [?doc] emptyCache = Inr ?c"
    by (simp add: low cacheSet_def emptyCache_def)
  have own: "map_of (own ?c) ''geography'' = Some ?doc" by simp
  have name: "field ?doc ''name'' = Inr (JStr ''Geography'')" by simp
  note t = cache_lookup_by_lowercased_name [where docs = "[?doc]" and c = ?c, THEN conjunct2,
      rule_format, OF fill, THEN conjunct2, THEN conjunct2, THEN conjunct1, rule_format,
      of "''geography''" ?doc "''Geography''" "''GEOgraphy''"]
  from t own name variant
  have "findTopicByName ?c (JStr ''GEOgraphy'') = Inr ?doc"
    and "findTagsByNames ?c (JArr [JStr ''GEOgraphy'']) = Inr [?doc]"
    by simp_all
  with fill variant show ?thesis by simp
qed

section \<open>Unresolved references\<close>

lemma bind_ret: "bind (ret x) f = f x"
  by (rule ext) (simp add: bind_def ret_def)

lemma bind_lift_Inr: "bind (lift (Inr x)) f = f x"
  by (rule ext) (simp add: bind_def lift_def)

lemma bind_field: "readable q \<Longrightarrow> bind (lift (field q k)) f = f (propOf q k)"
  by (simp add: field_propOf bind_lift_Inr)

lemma isString_nameKey: "isString v \<Longrightarrow> callToLowerCase v = Inr (nameKey v)"
  by (cases v) (simp_all add: nameKey_def)

lemma findTagsLoop_closed:
  "list_all isString names \<Longrightarrow> findTagsLoop gc names acc = Inr (acc @ resolvedTags gc names)"
proof (induction names arbitrary: acc)
  case Nil
  show ?case by (simp add: resolvedTags_def)
next
  case (Cons v names)
  then have "callToLowerCase v = Inr (nameKey v)" by (simp add: isString_nameKey)
  with Cons show ?case by (simp add: resolvedTags_def Let_def)
qed

lemma setAdd_set: "set (setAdd xs v) = insert v (set xs)"
  by (auto simp: setAdd_def)

lemma trackMissingTags_mono:
  "trackMissingTags gc names m = Inr m' \<Longrightarrow> set m \<subseteq> set m'"
proof (induction names arbitrary: m)
  case Nil
  then show ?case by simp
next
  case (Cons v names)
  from Cons.prems obtain k where k: "callToLowerCase v = Inr k"
    and rest: "trackMissingTags gc names
                 (if \<not> truthy (cacheGet gc k) then setAdd m v else m) = Inr m'"
    by (auto split: sum.splits)
  from Cons.IH [OF rest] show ?case by (auto simp: setAdd_set split: if_splits)
qed

lemma trackMissingTags_closed:
  assumes "list_all isString names"
  shows "\<exists>m'. trackMissingTags gc names m = Inr m' \<and> set m \<subseteq> set m'
           \<and> (\<forall>v \<in> set names. \<not> truthy (cacheGet gc (nameKey v)) \<longrightarrow> v \<in> set m')"
  using assms
proof (induction names arbitrary: m)
  case Nil
  show ?case by simp
next
  case (Cons v names)
  then have k: "callToLowerCase v = Inr (nameKey v)" and rest: "list_all isString names"
    by (simp_all add: isString_nameKey)
  let ?m = "if \<not> truthy (cacheGet gc (nameKey v)) then setAdd m v else m"
  from Cons.IH [OF rest, of ?m] obtain m' where
    m': "trackMissingTags gc names ?m = Inr m'" "set ?m \<subseteq> set m'"
    "\<forall>v \<in> set names. \<not> truthy (cacheGet gc (nameKey v)) \<longrightarrow> v \<in> set m'"
    by blast
  from m'(2) have "set m \<subseteq> set m'" and "\<not> truthy (cacheGet gc (nameKey v)) \<longrightarrow> v \<in> set m'"
    by (auto simp: setAdd_set split: if_splits)
  with m' k show ?case by auto
qed

lemma wf_parts:
  assumes "wellFormedQuestion opts q"
  shows "readable q"
    and "truthy (propOf q ''topic'') \<Longrightarrow> isString (propOf q ''topic'')"
    and "isArray (propOf q ''tags'') \<Longrightarrow> list_all isString (elems (propOf q ''tags''))"
    and "dryRun opts \<Longrightarrow> isArray (propOf q ''tags'') \<or> \<not> readable (propOf q ''tags'')"
  using assms by (simp_all add: wellFormedQuestion_def)

lemma topic_outcome:
  assumes "wellFormedQuestion opts q"
  shows "(if truthy (propOf q ''topic'') then findTopicByName tc (propOf q ''topic'')
          else Inr JNull)
         = Inr (if truthy (propOf q ''topic'')
                then orElse (cacheGet tc (nameKey (propOf q ''topic''))) JNull else JNull)"
proof (cases "truthy (propOf q ''topic'')")
  case True
  from wf_parts(2) [OF assms True] have "callToLowerCase (propOf q ''topic'') = Inr (nameKey (propOf q ''topic''))"
    by (rule isString_nameKey)
  with True show ?thesis
    by (simp add: findTopicByName_def)
next
  case False
  then show ?thesis by simp
qed

lemma isArray_truthy: "isArray v \<Longrightarrow> truthy v"
  by (cases v) simp_all

lemma not_array_elems: "\<not> isArray v \<Longrightarrow> elems v = []"
  by (cases v) simp_all

lemma tags_outcome:
  assumes "wellFormedQuestion opts q"
  shows "(if truthy (propOf q ''tags'') \<and> isArray (propOf q ''tags'')
          then findTagsByNames gc (propOf q ''tags'') else Inr [])
         = Inr (resolvedTags gc (elems (propOf q ''tags'')))"
proof (cases "isArray (propOf q ''tags'')")
  case True
  from findTagsLoop_closed [OF wf_parts(3) [OF assms True], of gc "[]"] True
  show ?thesis
    by (simp add: isArray_truthy findTagsByNames_def)
next
  case False
  then show ?thesis by (simp add: not_array_elems resolvedTags_def)
qed

lemma if_lift_ret: "(if b then lift r else ret x) = lift (if b then r else Inr x)"
  by (simp add: lift_def ret_def fun_eq_iff)

lemma missing_outcome:
  assumes "wellFormedQuestion opts q"
  shows "\<exists>m'. (if truthy (propOf q ''tags'') \<and> isArray (propOf q ''tags'')
               then trackMissingTags gc (elems (propOf q ''tags'')) m else Inr m) = Inr m'
           \<and> set m \<subseteq> set m'
           \<and> (\<forall>v \<in> set (elems (propOf q ''tags'')).
                 \<not> truthy (cacheGet gc (nameKey v)) \<longrightarrow> v \<in> set m')"
proof (cases "isArray (propOf q ''tags'')")
  case True
  from trackMissingTags_closed [OF wf_parts(3) [OF assms True], of gc m] obtain m' where
    "trackMissingTags gc (elems (propOf q ''tags'')) m = Inr m'" "set m \<subseteq> set m'"
    "\<forall>v \<in> set (elems (propOf q ''tags'')). \<not> truthy (cacheGet gc (nameKey v)) \<longrightarrow> v \<in> set m'"
    by blast
  with True show ?thesis
    by (auto simp: isArray_truthy)
next
  case False
  then show ?thesis by (auto simp: not_array_elems)
qed

lemma linkAndCreate_closed:
  assumes wf: "wellFormedQuestion opts q"
  shows "\<exists>p2. created p2 = created p \<and> skipped p2 = skipped p \<and> failed p2 = failed p
           \<and> set (missingTopics p) \<subseteq> set (missingTopics p2)
           \<and> set (missingTags p) \<subseteq> set (missingTags p2)
           \<and> (topicUnresolved tc q \<longrightarrow> propOf q ''topic'' \<in> set (missingTopics p2))
           \<and> (\<forall>v \<in> set (elems (propOf q ''tags'')).
                 \<not> truthy (cacheGet gc (nameKey v)) \<longrightarrow> v \<in> set (missingTags p2))
           \<and> (\<not> dryRun opts \<longrightarrow>
                (\<exists>entry. linkAndCreate ops h opts tc gc q code p =
                     bind (createQuestion ops h entry) (\<lambda>result.
                       if truthy result then ret (p2\<lparr> created := created p2 + 1 \<rparr>)
                       else ret (p2\<lparr> failed := failed p2 + 1 \<rparr>))
                   \<and> entryProp entry ''code'' = code
                   \<and> (topicUnresolved tc q \<longrightarrow> entryProp entry ''question_topic'' = JNull)
                   \<and> entryProp entry ''question_tags''
                       = JArr (map documentIdOf (resolvedTags gc (elems (propOf q ''tags''))))))
           \<and> (dryRun opts \<and> printable code \<longrightarrow>
                (\<exists>line. \<forall>w. linkAndCreate ops h opts tc gc q code p w =
                     (w\<lparr> console := console w @ [line] \<rparr>, Inr (p2\<lparr> created := created p2 + 1 \<rparr>))))
           \<and> holds (\<lambda>w. True) (linkAndCreate ops h opts tc gc q code p)
                (\<lambda>p'. p' = p2\<lparr> created := created p2 + 1 \<rparr> \<or> p' = p2\<lparr> failed := failed p2 + 1 \<rparr>)"
proof -
  note r = wf_parts(1) [OF wf]
  let ?qtopic = "propOf q ''topic''"
  let ?topic = "if truthy ?qtopic then orElse (cacheGet tc (nameKey ?qtopic)) JNull else JNull"
  let ?p1 = "if truthy ?qtopic \<and> \<not> truthy ?topic
             then p\<lparr> missingTopics := setAdd (missingTopics p) ?qtopic \<rparr> else p"
  from missing_outcome [OF wf, of gc "missingTags ?p1"] obtain m' where
    m': "(if truthy (propOf q ''tags'') \<and> isArray (propOf q ''tags'')
          then trackMissingTags gc (elems (propOf q ''tags'')) (missingTags ?p1)
          else Inr (missingTags ?p1)) = Inr m'"
    and sub: "set (missingTags ?p1) \<subseteq> set m'"
    and all: "\<forall>v \<in> set (elems (propOf q ''tags'')).
                 \<not> truthy (cacheGet gc (nameKey v)) \<longrightarrow> v \<in> set m'"
    by blast
  let ?p2 = "?p1\<lparr> missingTags := m' \<rparr>"
  have unfolded: "linkAndCreate ops h opts tc gc q code p =
      (let entry =
           [(''code'', code),
            (''question'', convertToBlocks (propOf q ''question'')),
            (''type'', orElse (propOf q ''type'') (JStr ''single'')),
            (''answers'', propOf q ''answers''),
            (''correctAnswer'', propOf q ''correctAnswer''),
            (''explanation'', convertToBlocks (propOf q ''explanation'')),
            (''difficulty'', orElse (propOf q ''difficulty'') (JStr ''easy'')),
            (''source'', orElse (propOf q ''source'') JNull),
            (''version'', orElse (propOf q ''version'') (JNum 1)),
            (''question_topic'', if truthy ?qtopic \<and> truthy ?topic then documentIdOf ?topic else JNull),
            (''question_tags'', JArr (map documentIdOf (resolvedTags gc (elems (propOf q ''tags'')))))]
       in
       if dryRun opts then
         bind (lift (interpolate code)) (\<lambda>_.
         bind (lift (interpolate (orElse ?qtopic (JStr ''none'')))) (\<lambda>_.
         bind (lift (optionalJoin (propOf q ''tags''))) (\<lambda>joined.
         bind (consoleLog ''Would create question: ''
                 [code, orElse ?qtopic (JStr ''none''), orElse joined (JStr ''none'')]) (\<lambda>_.
         ret (?p2\<lparr> created := created ?p2 + 1 \<rparr>)))))
       else
         bind (createQuestion ops h entry) (\<lambda>result.
         if truthy result then ret (?p2\<lparr> created := created ?p2 + 1 \<rparr>)
         else ret (?p2\<lparr> failed := failed ?p2 + 1 \<rparr>)))"
    unfolding linkAndCreate_def
    by (simp only: bind_field [OF r] topic_outcome [OF wf] tags_outcome [OF wf] bind_ret Let_def
        if_lift_ret m' bind_lift_Inr)
  have counts: "created ?p2 = created p" "skipped ?p2 = skipped p" "failed ?p2 = failed p"
    by simp_all
  have topics: "set (missingTopics p) \<subseteq> set (missingTopics ?p2)"
    by (auto simp: setAdd_set)
  have tags: "set (missingTags p) \<subseteq> set (missingTags ?p2)"
    using sub by (auto split: if_splits)
  have unresolved: "propOf q ''topic'' \<in> set (missingTopics ?p2)" if "topicUnresolved tc q"
    using that by (simp add: topicUnresolved_def orElse_def setAdd_set)
  have nolink: "(if truthy ?qtopic \<and> truthy ?topic then documentIdOf ?topic else JNull) = JNull"
    if "topicUnresolved tc q"
    using that by (simp add: topicUnresolved_def orElse_def)
  have real: "\<exists>entry. linkAndCreate ops h opts tc gc q code p =
                     bind (createQuestion ops h entry) (\<lambda>result.
                       if truthy result then ret (?p2\<lparr> created := created ?p2 + 1 \<rparr>)
                       else ret (?p2\<lparr> failed := failed ?p2 + 1 \<rparr>))
                   \<and> entryProp entry ''code'' = code
                   \<and> (topicUnresolved tc q \<longrightarrow> entryProp entry ''question_topic'' = JNull)
                   \<and> entryProp entry ''question_tags''
                       = JArr (map documentIdOf (resolvedTags gc (elems (propOf q ''tags''))))"
    if "\<not> dryRun opts"
    apply (subst unfolded)
    apply (simp only: Let_def that if_False)
    apply (intro exI conjI)
       apply (rule refl)
      apply (simp add: entryProp_def)
     apply (simp add: entryProp_def nolink)
    apply (simp add: entryProp_def)
    done
  have dry: "\<exists>line. \<forall>w. linkAndCreate ops h opts tc gc q code p w =
                     (w\<lparr> console := console w @ [line] \<rparr>, Inr (?p2\<lparr> created := created ?p2 + 1 \<rparr>))"
    if "dryRun opts \<and> printable code"
  proof -
    from that have d: "dryRun opts" and pc: "printable code" by simp_all
    from wf_parts(3,4) [OF wf] d
    have "(isArray (propOf q ''tags'') \<and> list_all isString (elems (propOf q ''tags'')))
          \<or> \<not> readable (propOf q ''tags'')"
      by blast
    from optionalJoin_ok [OF this] obtain joined where
      j: "optionalJoin (propOf q ''tags'') = Inr joined" "printable joined" by blast
    from wf_parts(2) [OF wf] have pt: "printable (orElse (propOf q ''topic'') (JStr ''none''))"
      by (auto simp: orElse_def isString_printable)
    from j(2) have pj: "printable (orElse joined (JStr ''none''))"
      by (simp add: orElse_def)
    from d pc pt j(1) show ?thesis
      apply (subst unfolded)
      apply (simp only: Let_def if_True interpolate_def bind_lift_Inr)
      apply (rule exI [of _ "ConsoleLog ''Would create question: ''
                  [code, orElse (propOf q ''topic'') (JStr ''none''), orElse joined (JStr ''none'')]"])
      apply (simp add: bind_def consoleLog_def ret_def pj)
      done
  qed
  have outcome: "holds (\<lambda>w. True) (linkAndCreate ops h opts tc gc q code p)
       (\<lambda>p'. p' = ?p2\<lparr> created := created ?p2 + 1 \<rparr> \<or> p' = ?p2\<lparr> failed := failed ?p2 + 1 \<rparr>)"
    apply (subst unfolded)
    apply (simp only: Let_def)
    apply (intro holds_if holds_bind [where R = "\<lambda>x. True"] holds_any_lift holds_console holds_ret)
            apply (simp_all add: holds_def)
    done
  from counts topics tags unresolved all real dry outcome show ?thesis
    by (intro exI [of _ ?p2] conjI impI) (simp_all del: set_simps)
qed

lemma linkAndCreate_grows:
  "holds (\<lambda>w. True) (linkAndCreate ops h opts tc gc q code p)
     (\<lambda>p'. set (missingTopics p) \<subseteq> set (missingTopics p')
           \<and> set (missingTags p) \<subseteq> set (missingTags p'))"
  unfolding linkAndCreate_def Let_def
  apply (rule holds_bind [where R = "\<lambda>x. True"], rule holds_any_lift)
  apply (rule holds_bind [where R = "\<lambda>x. True"], simp add: holds_def)
  apply (rule holds_bind [where R = "\<lambda>x. True"], rule holds_any_lift)
  apply (rule holds_bind [where R = "\<lambda>x. True"], simp add: holds_def)
  apply (rule holds_bind [where R = "\<lambda>m. set (missingTags
            (if truthy x \<and> \<not> truthy xa
             then p\<lparr> missingTopics := setAdd (missingTopics p) x \<rparr> else p)) \<subseteq> set m" for x xa])
   apply (rule holds_if)
    apply (rule holds_lift, erule trackMissingTags_mono)
   apply (rule holds_ret, simp)
  apply (intro holds_bind [where R = "\<lambda>x. True"] holds_any_lift holds_if holds_ret holds_console)
         apply (auto simp: holds_def setAdd_set split: if_splits)
  done

lemma questionStep_grows:
  "holds (\<lambda>w. True) (questionStep ops h opts tc gc i q p)
     (\<lambda>p'. set (missingTopics p) \<subseteq> set (missingTopics p')
           \<and> set (missingTags p) \<subseteq> set (missingTags p'))"
  unfolding questionStep_def
  by (intro holds_bind [where R = "\<lambda>x. True"] holds_any_lift holds_if holds_ret holds_console
        linkAndCreate_grows)
     (simp_all add: holds_def)

lemma questionsLoop_grows:
  "holds (\<lambda>w. True) (questionsLoop ops h opts tc gc i qs p)
     (\<lambda>p'. set (missingTopics p) \<subseteq> set (missingTopics p')
           \<and> set (missingTags p) \<subseteq> set (missingTags p'))"
proof (induction qs arbitrary: p i)
  case Nil
  show ?case by (simp add: holds_ret)
next
  case (Cons q qs)
  show ?case
    unfolding questionsLoop.simps
    by (rule holds_bind [OF questionStep_grows]) (rule holds_weaken [OF Cons.IH], auto)
qed

lemma questionStep_reaches:
  assumes v: "validQuestion q"
    and c: "\<not> (skipExisting opts \<and> truthy (propOf q ''code'')
              \<and> findMany ops (store w) Question (FilterEq ''code'' (propOf q ''code'')) \<noteq> Inr [])"
  shows "\<exists>code w0. questionStep ops h opts tc gc i q p w = linkAndCreate ops h opts tc gc q code p w0
           \<and> store w0 = store w \<and> creates w0 = creates w"
proof (cases "truthy (propOf q ''code'')")
  case False
  from v have r: "readable q" by (simp add: validQuestion_def emptyOrNoArray_iff)
  show ?thesis
    by (intro exI conjI, rule questionStep_without_code [OF r v False])
       (simp_all add: creates_def)
next
  case True
  from v have r: "readable q" by (simp add: validQuestion_def emptyOrNoArray_iff)
  show ?thesis
  proof (cases "skipExisting opts")
    case False
    with True v have "questionStep ops h opts tc gc i q p w
        = linkAndCreate ops h opts tc gc q (propOf q ''code'') p w"
      by (simp add: questionStep_def field_propOf [OF r] validQuestion_def emptyOrNoArray_iff bind_def lift_def ret_def)
    then show ?thesis by blast
  next
    case skip: True
    with True c have "findMany ops (store w) Question (FilterEq ''code'' (propOf q ''code'')) = Inr []"
      by simp
    with skip True v have "questionStep ops h opts tc gc i q p w
        = linkAndCreate ops h opts tc gc q (propOf q ''code'') p
            (w\<lparr> calls := calls w @ [FindMany Question (FilterEq ''code'' (propOf q ''code''))] \<rparr>)"
      by (simp add: questionStep_def checkExistingQuestion_def storeFindMany_def
          field_propOf [OF r] validQuestion_def emptyOrNoArray_iff bind_def lift_def ret_def)
    moreover have "creates (w\<lparr> calls := calls w @ [FindMany Question (FilterEq ''code'' (propOf q ''code''))] \<rparr>)
        = creates w"
      by (simp add: creates_def)
    ultimately show ?thesis
      by (intro exI [of _ "propOf q ''code''"]
          exI [of _ "w\<lparr> calls := calls w @ [FindMany Question (FilterEq ''code'' (propOf q ''code''))] \<rparr>"])
         simp
  qed
qed

lemma createQuestion_accepted:
  assumes "create ops (store w) Question (withPublishedAt entry (now h (ticks w))) = (s', Inr doc)"
    and "printable (entryProp entry ''code'')"
  shows "createQuestion ops h entry w =
           (w\<lparr> ticks := ticks w + 1, store := s',
               calls := calls w @ [Create Question (withPublishedAt entry (now h (ticks w)))],
               console := console w @ [ConsoleLog ''Created question: '' [entryProp entry ''code'']] \<rparr>,
            Inr doc)"
  using assms
  by (simp add: createQuestion_def tryCatch_def bind_def dateNow_def storeCreate_def
      consoleLog_def ret_def)

lemma createQuestion_rejected:
  assumes "create ops (store w) Question (withPublishedAt entry (now h (ticks w))) = (s', Inl e)"
    and "printable (entryProp entry ''code'')"
  shows "createQuestion ops h entry w =
           (w\<lparr> ticks := ticks w + 1, store := s',
               calls := calls w @ [Create Question (withPublishedAt entry (now h (ticks w)))],
               console := console w @ [ConsoleError ''Failed to create question: '' [entryProp entry ''code''],
                                       ConsoleError (message e) []] \<rparr>,
            Inr JNull)"
  using assms
  by (simp add: createQuestion_def tryCatch_def bind_def dateNow_def storeCreate_def
      consoleError_def ret_def)

lemma reportMissing_result:
  "list_all printable (missingTopics p) \<and> list_all printable (missingTags p) \<Longrightarrow>
   reportMissing p w =
     (w\<lparr> console := console w
           @ (if missingTopics p \<noteq> [] then [ConsoleLog ''Missing topics (not linked): '' (missingTopics p)] else [])
           @ (if missingTags p \<noteq> [] then [ConsoleLog ''Missing tags (not linked): '' (missingTags p)] else []) \<rparr>,
      Inr \<lparr> created = created p, skipped = skipped p, failed = failed p \<rparr>)"
  by (simp add: reportMissing_def bind_def consoleLog_def ret_def)

lemma unresolved_reach_the_end:
  assumes run: "questionsLoop ops h opts tc gc i (q # rest) p w = (wF, Inr pF)"
    and v: "validQuestion q" and wf: "wellFormedQuestion opts q"
    and c: "\<not> (skipExisting opts \<and> truthy (propOf q ''code'')
              \<and> findMany ops (store w) Question (FilterEq ''code'' (propOf q ''code'')) \<noteq> Inr [])"
  shows "(topicUnresolved tc q \<longrightarrow> propOf q ''topic'' \<in> set (missingTopics pF))
       \<and> (\<forall>v \<in> set (elems (propOf q ''tags'')).
             \<not> truthy (cacheGet gc (nameKey v)) \<longrightarrow> v \<in> set (missingTags pF))"
proof -
  from run obtain w1 p1 where
    step: "questionStep ops h opts tc gc i q p w = (w1, Inr p1)"
    and loop: "questionsLoop ops h opts tc gc (i + 1) rest p1 w1 = (wF, Inr pF)"
    by (auto simp: bind_def split: prod.splits sum.splits)
  from questionStep_reaches [OF v c, of h tc gc i p] obtain code w0 where
    reach: "questionStep ops h opts tc gc i q p w = linkAndCreate ops h opts tc gc q code p w0"
    by blast
  from linkAndCreate_closed [OF wf, of p tc gc ops h code] obtain p2 where
    t: "topicUnresolved tc q \<longrightarrow> propOf q ''topic'' \<in> set (missingTopics p2)"
    and g: "\<forall>v \<in> set (elems (propOf q ''tags'')).
              \<not> truthy (cacheGet gc (nameKey v)) \<longrightarrow> v \<in> set (missingTags p2)"
    and outcome: "holds (\<lambda>w. True) (linkAndCreate ops h opts tc gc q code p)
        (\<lambda>p'. p' = p2\<lparr> created := created p2 + 1 \<rparr> \<or> p' = p2\<lparr> failed := failed p2 + 1 \<rparr>)"
    by blast
  from step reach have "linkAndCreate ops h opts tc gc q code p w0 = (w1, Inr p1)" by simp
  from holdsD(2) [OF outcome _ this]
  have "p1 = p2\<lparr> created := created p2 + 1 \<rparr> \<or> p1 = p2\<lparr> failed := failed p2 + 1 \<rparr>"
    by simp
  then have same: "missingTopics p1 = missingTopics p2 \<and> missingTags p1 = missingTags p2"
    by auto
  from holdsD(2) [OF questionsLoop_grows _ loop]
  have "set (missingTopics p1) \<subseteq> set (missingTopics pF)"
    and "set (missingTags p1) \<subseteq> set (missingTags pF)"
    by simp_all
  with same t g show ?thesis by auto
qed

text \<open>
  What the code does with a name whose lookup in the cache finds nothing. A question
  record that passes validation and is not skipped goes on to be created whether or not
  its references resolve. When the lookup of its topic name finds nothing, the entry is
  sent with a null topic link; the tag list of the entry holds the documents found for
  its tag names and nothing for the others. The counters are those of the create request
  alone: created when the store returns the document, failed when the request fails.
  Every name whose lookup finds nothing is put into the set of missing topics,
  respectively missing tags; the sets only grow during the run and are printed when the
  run ends.
\<close>

theorem unresolved_names_are_reported:
  "(validQuestion q
      \<and> \<not> (skipExisting opts \<and> truthy (propOf q ''code'')
            \<and> findMany ops (store w) Question (FilterEq ''code'' (propOf q ''code'')) \<noteq> Inr [])
    \<longrightarrow> (\<exists>code w0. questionStep ops h opts tc gc i q p w = linkAndCreate ops h opts tc gc q code p w0
            \<and> store w0 = store w \<and> creates w0 = creates w))
   \<and> (wellFormedQuestion opts q
    \<longrightarrow> (\<exists>p2. created p2 = created p \<and> skipped p2 = skipped p \<and> failed p2 = failed p
           \<and> set (missingTopics p) \<subseteq> set (missingTopics p2)
           \<and> set (missingTags p) \<subseteq> set (missingTags p2)
           \<and> (topicUnresolved tc q \<longrightarrow> propOf q ''topic'' \<in> set (missingTopics p2))
           \<and> (\<forall>v \<in> set (elems (propOf q ''tags'')).
                 \<not> truthy (cacheGet gc (nameKey v)) \<longrightarrow> v \<in> set (missingTags p2))
           \<and> (\<not> dryRun opts \<longrightarrow>
                (\<exists>entry. linkAndCreate ops h opts tc gc q code p =
                     bind (createQuestion ops h entry) (\<lambda>result.
                       if truthy result then ret (p2\<lparr> created := created p2 + 1 \<rparr>)
                       else ret (p2\<lparr> failed := failed p2 + 1 \<rparr>))
                   \<and> entryProp entry ''code'' = code
                   \<and> (topicUnresolved tc q \<longrightarrow> entryProp entry ''question_topic'' = JNull)
                   \<and> entryProp entry ''question_tags''
                       = JArr (map documentIdOf (resolvedTags gc (elems (propOf q ''tags''))))))
           \<and> (dryRun opts \<and> printable code \<longrightarrow>
                (\<exists>line. \<forall>w. linkAndCreate ops h opts tc gc q code p w =
                     (w\<lparr> console := console w @ [line] \<rparr>, Inr (p2\<lparr> created := created p2 + 1 \<rparr>))))
           \<and> holds (\<lambda>w. True) (linkAndCreate ops h opts tc gc q code p)
                (\<lambda>p'. p' = p2\<lparr> created := created p2 + 1 \<rparr> \<or> p' = p2\<lparr> failed := failed p2 + 1 \<rparr>)))
   \<and> (create ops (store w) Question (withPublishedAt entry (now h (ticks w))) = (s', Inr doc)
      \<and> truthy doc \<and> printable (entryProp entry ''code'')
    \<longrightarrow> snd (bind (createQuestion ops h entry) (\<lambda>result.
                if truthy result then ret (p2\<lparr> created := created p2 + 1 \<rparr>)
                else ret (p2\<lparr> failed := failed p2 + 1 \<rparr>)) w)
          = Inr (p2\<lparr> created := created p2 + 1 \<rparr>))
   \<and> (questionsLoop ops h opts tc gc i (q # rest) p w = (wF, Inr pF)
      \<and> validQuestion q \<and> wellFormedQuestion opts q
      \<and> \<not> (skipExisting opts \<and> truthy (propOf q ''code'')
            \<and> findMany ops (store w) Question (FilterEq ''code'' (propOf q ''code'')) \<noteq> Inr [])
    \<longrightarrow> (topicUnresolved tc q \<longrightarrow> propOf q ''topic'' \<in> set (missingTopics pF))
       \<and> (\<forall>v \<in> set (elems (propOf q ''tags'')).
             \<not> truthy (cacheGet gc (nameKey v)) \<longrightarrow> v \<in> set (missingTags pF)))
   \<and> (list_all printable (missingTopics pF) \<and> list_all printable (missingTags pF)
    \<longrightarrow> reportMissing pF wF =
       (wF\<lparr> console := console wF
           @ (if missingTopics pF \<noteq> [] then [ConsoleLog ''Missing topics (not linked): '' (missingTopics pF)] else [])
           @ (if missingTags pF \<noteq> [] then [ConsoleLog ''Missing tags (not linked): '' (missingTags pF)] else []) \<rparr>,
        Inr \<lparr> created = created pF, skipped = skipped pF, failed = failed pF \<rparr>))"
proof (intro conjI impI)
  assume "validQuestion q
      \<and> \<not> (skipExisting opts \<and> truthy (propOf q ''code'')
            \<and> findMany ops (store w) Question (FilterEq ''code'' (propOf q ''code'')) \<noteq> Inr [])"
  then show "\<exists>code w0. questionStep ops h opts tc gc i q p w = linkAndCreate ops h opts tc gc q code p w0
            \<and> store w0 = store w \<and> creates w0 = creates w"
    using questionStep_reaches by blast
next
  assume wf: "wellFormedQuestion opts q"
  show "\<exists>p2. created p2 = created p \<and> skipped p2 = skipped p \<and> failed p2 = failed p
           \<and> set (missingTopics p) \<subseteq> set (missingTopics p2)
           \<and> set (missingTags p) \<subseteq> set (missingTags p2)
           \<and> (topicUnresolved tc q \<longrightarrow> propOf q ''topic'' \<in> set (missingTopics p2))
           \<and> (\<forall>v \<in> set (elems (propOf q ''tags'')).
                 \<not> truthy (cacheGet gc (nameKey v)) \<longrightarrow> v \<in> set (missingTags p2))
           \<and> (\<not> dryRun opts \<longrightarrow>
                (\<exists>entry. linkAndCreate ops h opts tc gc q code p =
                     bind (createQuestion ops h entry) (\<lambda>result.
                       if truthy result then ret (p2\<lparr> created := created p2 + 1 \<rparr>)
                       else ret (p2\<lparr> failed := failed p2 + 1 \<rparr>))
                   \<and> entryProp entry ''code'' = code
                   \<and> (topicUnresolved tc q \<longrightarrow> entryProp entry ''question_topic'' = JNull)
                   \<and> entryProp entry ''question_tags''
                       = JArr (map documentIdOf (resolvedTags gc (elems (propOf q ''tags''))))))
           \<and> (dryRun opts \<and> printable code \<longrightarrow>
                (\<exists>line. \<forall>w. linkAndCreate ops h opts tc gc q code p w =
                     (w\<lparr> console := console w @ [line] \<rparr>, Inr (p2\<lparr> created := created p2 + 1 \<rparr>))))
           \<and> holds (\<lambda>w. True) (linkAndCreate ops h opts tc gc q code p)
                (\<lambda>p'. p' = p2\<lparr> created := created p2 + 1 \<rparr> \<or> p' = p2\<lparr> failed := failed p2 + 1 \<rparr>)"
    by (rule linkAndCreate_closed [OF wf])
next
  assume "create ops (store w) Question (withPublishedAt entry (now h (ticks w))) = (s', Inr doc)
      \<and> truthy doc \<and> printable (entryProp entry ''code'')"
  then show "snd (bind (createQuestion ops h entry) (\<lambda>result.
                if truthy result then ret (p2\<lparr> created := created p2 + 1 \<rparr>)
                else ret (p2\<lparr> failed := failed p2 + 1 \<rparr>)) w)
          = Inr (p2\<lparr> created := created p2 + 1 \<rparr>)"
    by (simp add: bind_def createQuestion_accepted ret_def)
next
  assume a: "questionsLoop ops h opts tc gc i (q # rest) p w = (wF, Inr pF)
      \<and> validQuestion q \<and> wellFormedQuestion opts q
      \<and> \<not> (skipExisting opts \<and> truthy (propOf q ''code'')
            \<and> findMany ops (store w) Question (FilterEq ''code'' (propOf q ''code'')) \<noteq> Inr [])"
    and u: "topicUnresolved tc q"
  from a have run: "questionsLoop ops h opts tc gc i (q # rest) p w = (wF, Inr pF)"
    and v: "validQuestion q" and wf: "wellFormedQuestion opts q"
    and c: "\<not> (skipExisting opts \<and> truthy (propOf q ''code'')
            \<and> findMany ops (store w) Question (FilterEq ''code'' (propOf q ''code'')) \<noteq> Inr [])"
    by blast+
  from unresolved_reach_the_end [OF run v wf c] u
  show "propOf q ''topic'' \<in> set (missingTopics pF)"
    by blast
next
  assume a: "questionsLoop ops h opts tc gc i (q # rest) p w = (wF, Inr pF)
      \<and> validQuestion q \<and> wellFormedQuestion opts q
      \<and> \<not> (skipExisting opts \<and> truthy (propOf q ''code'')
            \<and> findMany ops (store w) Question (FilterEq ''code'' (propOf q ''code'')) \<noteq> Inr [])"
  from a have run: "questionsLoop ops h opts tc gc i (q # rest) p w = (wF, Inr pF)"
    and v: "validQuestion q" and wf: "wellFormedQuestion opts q"
    and c: "\<not> (skipExisting opts \<and> truthy (propOf q ''code'')
            \<and> findMany ops (store w) Question (FilterEq ''code'' (propOf q ''code'')) \<noteq> Inr [])"
    by blast+
  from unresolved_reach_the_end [OF run v wf c]
  show "\<forall>v \<in> set (elems (propOf q ''tags'')).
             \<not> truthy (cacheGet gc (nameKey v)) \<longrightarrow> v \<in> set (missingTags pF)"
    by blast
next
  assume "list_all printable (missingTopics pF) \<and> list_all printable (missingTags pF)"
  then show "reportMissing pF wF =
       (wF\<lparr> console := console wF
           @ (if missingTopics pF \<noteq> [] then [ConsoleLog ''Missing topics (not linked): '' (missingTopics pF)] else [])
           @ (if missingTags pF \<noteq> [] then [ConsoleLog ''Missing tags (not linked): '' (missingTags pF)] else []) \<rparr>,
        Inr \<lparr> created = created pF, skipped = skipped pF, failed = failed pF \<rparr>)"
    by (rule reportMissing_result)
qed

theorem unresolved_names_are_reported_witness:
  "validQuestion
     (JObj [(''question'', JStr ''What is the capital of France?''),
            (''answers'', JArr [JObj [(''id'', JStr ''B''), (''content'', JStr ''Paris'')]]),
            (''correctAnswer'', JArr [JStr ''B'']),
            (''topic'', JStr ''Geography''),
            (''tags'', JArr [JStr ''Europe'', JStr ''Capitals''])])
   \<and> wellFormedQuestion \<lparr> skipExisting = True, dryRun = False \<rparr>
     (JObj [(''question'', JStr ''What is the capital of France?''),
            (''answers'', JArr [JObj [(''id'', JStr ''B''), (''content'', JStr ''Paris'')]]),
            (''correctAnswer'', JArr [JStr ''B'']),
            (''topic'', JStr ''Geography''),
            (''tags'', JArr [JStr ''Europe'', JStr ''Capitals''])])
   \<and> topicUnresolved emptyCache
     (JObj [(''question'', JStr ''What is the capital of France?''),
            (''answers'', JArr [JObj [(''id'', JStr ''B''), (''content'', JStr ''Paris'')]]),
            (''correctAnswer'', JArr [JStr ''B'']),
            (''topic'', JStr ''Geography''),
            (''tags'', JArr [JStr ''Europe'', JStr ''Capitals''])])
   \<and> (\<exists>wF pF.
        questionsLoop memoryStore exampleHost \<lparr> skipExisting = True, dryRun = False \<rparr> emptyCache
          \<lparr> own = [(''europe'', JObj [(''name'', JStr ''Europe''), (''documentId'', JStr ''g1'')])],
            proto = None \<rparr>
          0
          [JObj [(''question'', JStr ''What is the capital of France?''),
                 (''answers'', JArr [JObj [(''id'', JStr ''B''), (''content'', JStr ''Paris'')]]),
                 (''correctAnswer'', JArr [JStr ''B'']),
                 (''topic'', JStr ''Geography''),
                 (''tags'', JArr [JStr ''Europe'', JStr ''Capitals''])]]
          startProgress (initialWorld []) = (wF, Inr pF)
        \<and> JStr ''Geography'' \<in> set (missingTopics pF)
        \<and> JStr ''Capitals'' \<in> set (missingTags pF))"
proof -
  let ?q = "JObj [(''question'', JStr ''What is the capital of France?''),
            (''answers'', JArr [JObj [(''id'', JStr ''B''), (''content'', JStr ''Paris'')]]),
            (''correctAnswer'', JArr [JStr ''B'']),
            (''topic'', JStr ''Geography''),
            (''tags'', JArr [JStr ''Europe'', JStr ''Capitals''])]"
  let ?opts = "\<lparr> skipExisting = True, dryRun = False \<rparr>"
  let ?gc = "\<lparr> own = [(''europe'', JObj [(''name'', JStr ''Europe''), (''documentId'', JStr ''g1'')])],
              proto = None \<rparr>"
  let ?w = "initialWorld [] :: memory world"
  have props: "propOf ?q ''code'' = JUndefined" "propOf ?q ''topic'' = JStr ''Geography''"
    "propOf ?q ''tags'' = JArr [JStr ''Europe'', JStr ''Capitals'']"
    "propOf ?q ''question'' = JStr ''What is the capital of France?''"
    "propOf ?q ''answers'' = JArr [JObj [(''id'', JStr ''B''), (''content'', JStr ''Paris'')]]"
    "propOf ?q ''correctAnswer'' = JArr [JStr ''B'']"
    by (simp_all add: propOf_def objectPrototypeGet_def objectPrototypeNames_def)
  have v: "validQuestion ?q"
    by (simp add: validQuestion_def emptyOrNoArray_iff props emptyOrNoArray_def)
  have wf: "wellFormedQuestion ?opts ?q"
    by (simp add: wellFormedQuestion_def props)
  have low: "toLowerCase ''Geography'' = ''geography''" "toLowerCase ''Capitals'' = ''capitals''"
    by code_simp+
  have u: "topicUnresolved emptyCache ?q"
    by (simp add: topicUnresolved_def props nameKey_def low cacheGet_def emptyCache_def
        objectPrototypeGet_def objectPrototypeNames_def)
  have g: "\<not> truthy (cacheGet ?gc (nameKey (JStr ''Capitals'')))"
    by (simp add: nameKey_def low cacheGet_def objectPrototypeGet_def objectPrototypeNames_def)
  have c: "\<not> (skipExisting ?opts \<and> truthy (propOf ?q ''code'')
            \<and> findMany memoryStore (store ?w) Question (FilterEq ''code'' (propOf ?q ''code'')) \<noteq> Inr [])"
    by (simp add: props)
  have "list_all (wellFormedQuestion ?opts) [?q]" using wf by simp
  moreover have "list_all printableQuestion [?q]" by (simp add: printableQuestion_def props)
  moreover have "stringsMissing startProgress" by (simp add: stringsMissing_def startProgress_def)
  ultimately have "succeeds (questionsLoop memoryStore exampleHost ?opts emptyCache ?gc 0 [?q] startProgress)
      stringsMissing"
    by (rule questionsLoop_succeeds [OF answering_memoryStore])
  then obtain wF pF where
    run: "questionsLoop memoryStore exampleHost ?opts emptyCache ?gc 0 [?q] startProgress ?w = (wF, Inr pF)"
    unfolding succeeds_def by blast
  note t = unresolved_names_are_reported [where q = ?q and opts = ?opts and ops = memoryStore
      and w = ?w and h = exampleHost and tc = emptyCache and gc = ?gc and i = 0 and rest = "[]"
      and p = startProgress and wF = wF and pF = pF,
      THEN conjunct2, THEN conjunct2, THEN conjunct2, THEN conjunct1, rule_format]
  from run v wf c have pre: "questionsLoop memoryStore exampleHost ?opts emptyCache ?gc 0 [?q] startProgress ?w = (wF, Inr pF)
      \<and> validQuestion ?q \<and> wellFormedQuestion ?opts ?q
      \<and> \<not> (skipExisting ?opts \<and> truthy (propOf ?q ''code'')
            \<and> findMany memoryStore (store ?w) Question (FilterEq ''code'' (propOf ?q ''code'')) \<noteq> Inr [])"
    by blast
  from t [OF pre] u have "propOf ?q ''topic'' \<in> set (missingTopics pF)"
    and "\<forall>v \<in> set (elems (propOf ?q ''tags'')).
             \<not> truthy (cacheGet ?gc (nameKey v)) \<longrightarrow> v \<in> set (missingTags pF)"
    by blast+
  with g have "JStr ''Geography'' \<in> set (missingTopics pF)" and "JStr ''Capitals'' \<in> set (missingTags pF)"
    by (simp_all add: props)
  with run v wf u show ?thesis by blast
qed

text \<open>
  C7 (failing input): a name is absent from a cache when no document of that name was
  loaded, and such a name must leave the topic link null, be left out of the tag list and
  be reported as missing. The caches are plain objects, and a lookup
  \<^verbatim>\<open>cache[name.toLowerCase()]\<close> also finds what every object inherits. With both caches
  empty, the name \<^verbatim>\<open>constructor\<close> is found all the same (the lookup gives the built-in
  function): the question is sent with the topic link \<^verbatim>\<open>undefined\<close> and the tag list
  \<^verbatim>\<open>[undefined]\<close>, and neither set of missing names receives the name.
\<close>

theorem inherited_name_passes_for_cached:
  "findTopicByName emptyCache (JStr ''constructor'') = Inr (JHost ''constructor'')
   \<and> findTagsByNames emptyCache (JArr [JStr ''constructor'']) = Inr [JHost ''constructor'']
   \<and> linkAndCreate memoryStore exampleHost \<lparr> skipExisting = True, dryRun = False \<rparr>
        emptyCache emptyCache
        (JObj [(''code'', JStr ''Q001''),
               (''question'', JStr ''Which property does every object have?''),
               (''answers'', JArr [JObj [(''id'', JStr ''A''), (''content'', JStr ''constructor'')]]),
               (''correctAnswer'', JArr [JStr ''A'']),
               (''topic'', JStr ''constructor''),
               (''tags'', JArr [JStr ''constructor''])])
        (JStr ''Q001'') startProgress (initialWorld [])
     = (\<lparr> store = [(Question, JObj
            [(''code'', JStr ''Q001''),
             (''question'', JArr [JObj [(''type'', JStr ''paragraph''),
                (''children'', JArr [JObj [(''type'', JStr ''text''),
                   (''text'', JStr ''Which property does every object have?'')]])]]),
             (''type'', JStr ''single''),
             (''answers'', JArr [JObj [(''id'', JStr ''A''), (''content'', JStr ''constructor'')]]),
             (''correctAnswer'', JArr [JStr ''A'']),
             (''explanation'', JNull),
             (''difficulty'', JStr ''easy''),
             (''source'', JNull),
             (''version'', JNum 1),
             (''question_topic'', JUndefined),
             (''question_tags'', JArr [JUndefined]),
             (''publishedAt'', JNum 1700000000000)])],
          calls = [Create Question
            [(''code'', JStr ''Q001''),
             (''question'', JArr [JObj [(''type'', JStr ''paragraph''),
                (''children'', JArr [JObj [(''type'', JStr ''text''),
                   (''text'', JStr ''Which property does every object have?'')]])]]),
             (''type'', JStr ''single''),
             (''answers'', JArr [JObj [(''id'', JStr ''A''), (''content'', JStr ''constructor'')]]),
             (''correctAnswer'', JArr [JStr ''A'']),
             (''explanation'', JNull),
             (''difficulty'', JStr ''easy''),
             (''source'', JNull),
             (''version'', JNum 1),
             (''question_topic'', JUndefined),
             (''question_tags'', JArr [JUndefined]),
             (''publishedAt'', JNum 1700000000000)]],
          console = [ConsoleLog ''Created question: '' [JStr ''Q001'']],
          ticks = 1, draws = 0 \<rparr>,
        Inr \<lparr> created = 1, skipped = 0, failed = 0, missingTopics = [], missingTags = [] \<rparr>)"
proof -
  have low: "toLowerCase ''constructor'' = ''constructor''" by code_simp
  have get: "cacheGet emptyCache ''constructor'' = JHost ''constructor''"
    by (simp add: cacheGet_def emptyCache_def objectPrototypeGet_def objectPrototypeNames_def)
  have topic: "findTopicByName emptyCache (JStr ''constructor'') = Inr (JHost ''constructor'')"
    by (simp add: findTopicByName_def low get orElse_def)
  have tags: "findTagsByNames emptyCache (JArr [JStr ''constructor'']) = Inr [JHost ''constructor'']"
    by (simp add: findTagsByNames_def low get)
  have track: "trackMissingTags emptyCache [JStr ''constructor''] [] = Inr []"
    by (simp add: low get)
  show ?thesis
    by (simp add: topic tags track low get linkAndCreate_def createQuestion_def tryCatch_def bind_def
        lift_def ret_def consoleLog_def dateNow_def storeCreate_def initialWorld_def
        startProgress_def memoryStore_def memoryCreate_def withPublishedAt_def entryProp_def
        documentIdOf_def convertToBlocks_def paragraphBlock_def orElse_def exampleHost_def
        objectPrototypeGet_def objectPrototypeNames_def Let_def)
qed

theorem inherited_name_passes_for_cached_witness:
  "truthy (JArr [JStr ''constructor'']) \<and> isArray (JArr [JStr ''constructor''])
   \<and> findTagsByNames emptyCache (JArr [JStr ''constructor'']) = Inr [JHost ''constructor'']
   \<and> truthy (JHost ''constructor'')"
  using inherited_name_passes_for_cached by simp

end
